(* ===== verification/Prelude.thy ===== *)
theory Prelude
  imports Complex_Main "HOL-Library.Signed_Division"
begin

text \<open>
  Shared vocabulary of the CupolaExpress development: the JavaScript number operations
  the source uses (\<open>Math.max\<close>/\<open>Math.min\<close> clamping, \<open>Math.round\<close>, the
  truncating remainder \<open>%\<close>, division that may produce a non-finite value), the
  collection \<open>handler_simps\<close> into which every component puts the equations of its
  event handlers, and the generic lemmas on these operations that the component
  theories share.

  JavaScript numbers are IEEE doubles; the development reads them as real numbers
  (\<open>real\<close>), so rounding of the floating-point operations is not modelled. Where the
  source can produce a non-finite value (\<open>x / 0\<close>, \<open>NaN\<close>), the model keeps the
  non-finite case as \<open>None\<close> of an option instead of HOL's \<open>x / 0 = 0\<close>.
\<close>

named_theorems handler_simps "equations of the event handlers of the components"

type_synonym px = real     \<comment> \<open>a client coordinate in CSS pixels (\<open>e.clientX\<close>)\<close>
type_synonym rad = real    \<comment> \<open>an angle in radians (\<open>mesh.rotation.y\<close>)\<close>

subsection \<open>The JavaScript number operations\<close>

text \<open>\<open>Math.max(lo, Math.min(hi, v))\<close>.\<close>

definition clamp :: "real \<Rightarrow> real \<Rightarrow> real \<Rightarrow> real" where
  "clamp lo hi v = max lo (min hi v)"

text \<open>\<open>Math.round\<close> on a finite number: the nearest integer, halves towards \<open>+\<infinity>\<close>.\<close>

definition js_round :: "real \<Rightarrow> int" where
  "js_round x = \<lfloor>x + 1 / 2\<rfloor>"

text \<open>
  \<open>a / b\<close> on doubles is \<open>\<plusminus>Infinity\<close> or \<open>NaN\<close> when \<open>b = 0\<close>; the model keeps
  that case as \<open>None\<close>.
\<close>

definition js_div :: "real \<Rightarrow> real \<Rightarrow> real option" where
  "js_div a b = (if b = 0 then None else Some (a / b))"

text \<open>
  JavaScript's \<open>a % b\<close> on integers takes the sign of the dividend (truncated
  division): it is \<open>smod\<close> of \<^theory_text>\<open>HOL-Library.Signed_Division\<close>, not HOL's
  \<open>mod\<close>.
\<close>

subsection \<open>Clamping\<close>


lemma clamp_ge [simp]: "lo \<le> hi \<Longrightarrow> lo \<le> clamp lo hi v"
  by (simp add: clamp_def)

lemma clamp_le [simp]: "lo \<le> hi \<Longrightarrow> clamp lo hi v \<le> hi"
  by (simp add: clamp_def)

lemma clamp_id: "lo \<le> v \<Longrightarrow> v \<le> hi \<Longrightarrow> clamp lo hi v = v"
  by (simp add: clamp_def)

lemma clamp_below: "lo \<le> hi \<Longrightarrow> v \<le> lo \<Longrightarrow> clamp lo hi v = lo"
  by (simp add: clamp_def)

lemma clamp_above: "lo \<le> hi \<Longrightarrow> hi \<le> v \<Longrightarrow> clamp lo hi v = hi"
  by (simp add: clamp_def)

subsection \<open>\<open>Math.round\<close> on finite numbers\<close>


lemma js_round_nearest: "\<bar>real_of_int (js_round x) - x\<bar> \<le> 1 / 2"
  unfolding js_round_def
  using floor_correct [of "x + 1 / 2"] by linarith

lemma js_round_nonneg: "0 \<le> x \<Longrightarrow> 0 \<le> js_round x"
  by (simp add: js_round_def)

lemma js_round_le: "x \<le> real_of_int k \<Longrightarrow> js_round x \<le> k"
  unfolding js_round_def by linarith

lemma js_round_of_int [simp]: "js_round (real_of_int k) = k"
  unfolding js_round_def by linarith

subsection \<open>The remainder operator \<open>%\<close> on integers\<close>


lemma smod_nonneg_eq_mod: "0 \<le> a \<Longrightarrow> 0 < b \<Longrightarrow> a smod b = a mod (b::int)"
  by (cases "a = 0") (simp_all add: signed_modulo_int_def)

lemma smod_range: "0 \<le> a \<Longrightarrow> 0 < b \<Longrightarrow> 0 \<le> a smod b \<and> a smod b < (b::int)"
  by (simp add: smod_nonneg_eq_mod)

subsection \<open>Division that may be non-finite\<close>


lemma js_div_Some [simp]: "b \<noteq> 0 \<Longrightarrow> js_div a b = Some (a / b)"
  by (simp add: js_div_def)

lemma js_div_zero [simp]: "js_div a 0 = None"
  by (simp add: js_div_def)

subsection \<open>Iterated frames and geometric decay\<close>

text \<open>
  A \<open>requestAnimationFrame\<close> loop that has run \<open>n\<close> frames is the \<open>n\<close>-fold
  application \<open>f ^^ n\<close> of its frame function. Damping by a constant factor makes the
  velocities geometric sequences; the closed forms below are shared by the frame lemmas.
\<close>

lemma funpow_field:
  assumes "\<And>s. g (f s) = (c::real) * g s"
  shows "g ((f ^^ n) s) = c ^ n * g s"
  by (induction n) (simp_all add: assms mult.assoc)

lemma funpow_shift:
  assumes "\<And>s. g (f s) = g s + d"
  shows "g ((f ^^ n) s) = g s + real n * d"
  by (induction n) (simp_all add: assms algebra_simps)

lemma geometric_partial_sum:
  "q \<noteq> 1 \<Longrightarrow> (\<Sum>k<n. c * q ^ k) = c * (1 - q ^ n) / (1 - (q::real))"
  by (simp add: sum_distrib_left [symmetric] sum_gp_strict)

lemma damped_nonzero: "c \<noteq> 0 \<Longrightarrow> v \<noteq> 0 \<Longrightarrow> c ^ n * v \<noteq> (0::real)"
  by simp

lemma damped_tendsto_zero: "\<bar>c\<bar> < 1 \<Longrightarrow> (\<lambda>n. c ^ n * v) \<longlonglongrightarrow> (0::real)"
  by (rule tendsto_mult_left_zero) (simp add: LIMSEQ_power_zero)

lemma damped_abs_decreasing:
  "0 < c \<Longrightarrow> c < 1 \<Longrightarrow> v \<noteq> 0 \<Longrightarrow> \<bar>c ^ Suc n * v\<bar> < \<bar>c ^ n * (v::real)\<bar>"
  by (simp add: abs_mult power_abs)

subsection \<open>Counting the entries that match a key\<close>

text \<open>
  With distinct keys, exactly one entry of a list matches a key that occurs and none
  matches one that does not: the shape of every "the active tab" computation.
\<close>

lemma distinct_key_filter:
  "distinct (map key xs) \<Longrightarrow>
   length (filter (\<lambda>x. key x = k) xs) = (if k \<in> key ` set xs then 1 else 0)"
  by (induction xs) (auto simp: filter_empty_conv)

text \<open>Removing the \<open>i\<close>-th element of a list (a request served, an element
  taken out of a queue) as \<open>take\<close>/\<open>drop\<close>, and what it does to a filter.\<close>

lemma filter_remove_nth_other:
  "i < length xs \<Longrightarrow> \<not> P (xs ! i) \<Longrightarrow> filter P (take i xs @ drop (Suc i) xs) = filter P xs"
  by (subst (3) id_take_nth_drop [of i xs]) simp_all

lemma filter_remove_nth_single:
  assumes "i < length xs" and "P (xs ! i)" and "filter P xs = [y]"
  shows "y = xs ! i \<and> filter P (take i xs @ drop (Suc i) xs) = []"
proof -
  have "filter P xs = filter P (take i xs) @ xs ! i # filter P (drop (Suc i) xs)"
    using assms(1,2) by (subst id_take_nth_drop [OF assms(1)]) simp
  with assms(3) show ?thesis by (simp add: append_eq_Cons_conv)
qed

lemma sum_list_remove_nth:
  "i < length xs \<Longrightarrow> sum_list (take i xs @ drop (Suc i) xs) + xs ! i = sum_list (xs :: nat list)"
  by (subst (3) id_take_nth_drop [of i xs]) simp_all

end
