(* ===== verification/Globe.thy ===== *)
theory Globe
  imports Prelude
begin

text \<open>
  The Three.js scene shared by both globe controllers (\<open>src/main.js\<close> lines 164-315,
  \<open>src/homepage.js\<close> lines 9-239): the camera, the Earth's orientation and rotation
  velocity, the decorative planets and the star field, with the operations both
  controllers implement with the same code: the per-frame update \<open>animate\<close>, the wheel
  zoom \<open>onWheel\<close> and the resize handler. The record \<open>globe\<close> is extended by the
  vanilla controller (Globe_Vanilla.thy) and by the React controller
  (Globe_React.thy); the operations are polymorphic in the record extension, so that both
  controllers use them and their lemmas as they are. The raycaster of Three.js (a
  library) is a parameter of type \<open>raycaster\<close>. The properties of many frames are in
  Frames.thy.
\<close>

subsection \<open>Planets\<close>

text \<open>
  The look of a planet: the texture path \<open>tex\<close> of \<open>main.js\<close> or the colour
  \<open>color\<close> of \<open>homepage.js\<close> (a hexadecimal literal there, its value here).
\<close>

datatype planet_look = Tex string | Color nat

text \<open>One entry of \<open>planetConfigs\<close>, its fields in source order.\<close>

record planet_config =
  cfg_size :: real
  cfg_distance :: real
  cfg_speed :: real
  cfg_look :: planet_look
  cfg_x :: real
  cfg_y :: real

text \<open>
  A planet mesh: \<open>userData = {...cfg, angle}\<close>, its \<open>position\<close> and \<open>rotation.y\<close>.
  The look in \<open>userData\<close> is read by nothing after the material is built and is
  not kept.
\<close>

record planet =
  ud_size :: real
  ud_distance :: real
  ud_speed :: real
  ud_x :: real
  ud_y :: real
  angle :: rad
  pos_x :: real
  pos_y :: real
  pos_z :: real
  spin_y :: rad

text \<open>\<open>planetConfigs\<close> of \<open>main.js\<close> (lines 214-219).\<close>

definition planetConfigs :: "planet_config list" where
  "planetConfigs =
    [\<lparr>cfg_size = 0.4, cfg_distance = 8, cfg_speed = 0.001,
       cfg_look = Tex ''./images/earths-horizon.jpg'', cfg_x = -3, cfg_y = 2\<rparr>,
     \<lparr>cfg_size = 0.6, cfg_distance = 10, cfg_speed = 0.0008,
       cfg_look = Tex ''./images/cupola-sunset.jpg'', cfg_x = 4, cfg_y = -2\<rparr>,
     \<lparr>cfg_size = 0.3, cfg_distance = 12, cfg_speed = 0.0012,
       cfg_look = Tex ''./images/nanoracks-cupola.jpg'', cfg_x = -5, cfg_y = -3\<rparr>,
     \<lparr>cfg_size = 0.5, cfg_distance = 9, cfg_speed = 0.0009,
       cfg_look = Tex ''./images/ISS-training.jpg'', cfg_x = 3, cfg_y = 3\<rparr>]"

text \<open>\<open>planetConfigs\<close> of \<open>homepage.js\<close> (lines 56-61): the same orbits, coloured.\<close>

definition planetConfigs_react :: "planet_config list" where
  "planetConfigs_react =
    [\<lparr>cfg_size = 0.4, cfg_distance = 8, cfg_speed = 0.001, cfg_look = Color 16739179,
       cfg_x = -3, cfg_y = 2\<rparr>,
     \<lparr>cfg_size = 0.6, cfg_distance = 10, cfg_speed = 0.0008, cfg_look = Color 16767293,
       cfg_x = 4, cfg_y = -2\<rparr>,
     \<lparr>cfg_size = 0.3, cfg_distance = 12, cfg_speed = 0.0012, cfg_look = Color 7065471,
       cfg_x = -5, cfg_y = -3\<rparr>,
     \<lparr>cfg_size = 0.5, cfg_distance = 9, cfg_speed = 0.0009, cfg_look = Color 5084927,
       cfg_x = 3, cfg_y = 3\<rparr>]"

text \<open>
  The body of \<open>planetConfigs.forEach\<close>: \<open>p.position.set(cfg.x, cfg.y, -cfg.distance);
  p.userData = {...cfg, angle: a0}\<close>, where \<open>a0 = Math.random() * Math.PI * 2\<close> is an
  input of the model; the geometry and material are not modelled, the texture load of
  \<open>main.js\<close> is in Textures.thy.
\<close>

definition make_planet :: "planet_config \<Rightarrow> rad \<Rightarrow> planet" where
  "make_planet cfg a0 =
    \<lparr>ud_size = cfg_size cfg, ud_distance = cfg_distance cfg, ud_speed = cfg_speed cfg,
     ud_x = cfg_x cfg, ud_y = cfg_y cfg,
     angle = a0, pos_x = cfg_x cfg, pos_y = cfg_y cfg, pos_z = - cfg_distance cfg, spin_y = 0\<rparr>"

text \<open>One frame of a planet (the arrow function of \<open>planets.forEach\<close> in \<open>animate\<close>).\<close>

definition planet_step :: "planet \<Rightarrow> planet" where
  "planet_step pl =
    (let a = angle pl + ud_speed pl
     in pl\<lparr>angle := a,
           pos_x := cos a * ud_distance pl * 0.5,
           pos_z := - ud_distance pl + sin a * 2,
           spin_y := spin_y pl + 0.005\<rparr>)"

subsection \<open>The scene state\<close>

text \<open>
  \<open>rot_x\<close>, \<open>rot_y\<close>: \<open>earth.rotation\<close>; \<open>vel_x\<close>, \<open>vel_y\<close>: \<open>vel\<close>
  (\<open>rotationVelocity\<close> in \<open>homepage.js\<close>); \<open>prev_x\<close>, \<open>prev_y\<close>: \<open>prev\<close>
  (\<open>previousMousePosition\<close>); \<open>cam_z\<close>: \<open>camera.position.z\<close>; \<open>aspect\<close>:
  \<open>camera.aspect\<close>, \<open>None\<close> when the division made it non-finite; \<open>size_w\<close>,
  \<open>size_h\<close>: the size last given to \<open>renderer.setSize\<close>; \<open>stars_rot\<close>:
  \<open>stars.rotation.y\<close>.
\<close>

record globe =
  rot_x :: rad
  rot_y :: rad
  vel_x :: real
  vel_y :: real
  isDragging :: bool
  prev_x :: px
  prev_y :: px
  cam_z :: real
  aspect :: "real option"
  size_w :: real
  size_h :: real
  planets :: "planet list"
  stars_rot :: rad

text \<open>
  The scene as the set-up code leaves it: a camera at \<open>z = 5\<close> with aspect
  \<open>w / h\<close> of the host element, the Earth at rest, one planet per entry of the file's
  configuration list \<open>cfgs\<close> with its random start phase \<open>phase i\<close>, the stars
  unrotated.
\<close>

definition init_globe :: "planet_config list \<Rightarrow> real \<Rightarrow> real \<Rightarrow> (nat \<Rightarrow> rad) \<Rightarrow> globe" where
  "init_globe cfgs w h phase =
    \<lparr>rot_x = 0, rot_y = 0, vel_x = 0, vel_y = 0, isDragging = False, prev_x = 0, prev_y = 0,
     cam_z = 5, aspect = js_div w h, size_w = w, size_h = h,
     planets = map (\<lambda>(i, cfg). make_planet cfg (phase i)) (enumerate 0 cfgs),
     stars_rot = 0\<rparr>"

subsection \<open>Operations shared by both controllers\<close>

text \<open>
  The frame function, in the order of the source: the velocity is applied, then damped,
  then the idle rotation is added when no drag is in progress, then the planets and the
  stars move. \<open>renderer.render\<close> has no effect on this state.
\<close>

definition animate :: "'a globe_scheme \<Rightarrow> 'a globe_scheme" where
  "animate s =
    (let s1 = s\<lparr>rot_x := rot_x s + vel_x s, rot_y := rot_y s + vel_y s\<rparr>;
         s2 = s1\<lparr>vel_x := vel_x s1 * 0.95, vel_y := vel_y s1 * 0.95\<rparr>;
         s3 = (if \<not> isDragging s2 then s2\<lparr>rot_y := rot_y s2 + 0.001\<rparr> else s2);
         s4 = s3\<lparr>planets := map planet_step (planets s3)\<rparr>
     in s4\<lparr>stars_rot := stars_rot s4 + 0.0001\<rparr>)"

text \<open>\<open>onWheel\<close>: \<open>camera.position.z += e.deltaY * .01\<close>, then clamped to \<open>[3, 10]\<close>.\<close>

definition onWheel :: "real \<Rightarrow> 'a globe_scheme \<Rightarrow> 'a globe_scheme" where
  "onWheel deltaY s =
    (let z = cam_z s + deltaY * 0.01 in s\<lparr>cam_z := clamp 3 10 z\<rparr>)"

text \<open>The resize handler: aspect \<open>w / h\<close> and the renderer's size.\<close>

definition resize :: "real \<Rightarrow> real \<Rightarrow> 'a globe_scheme \<Rightarrow> 'a globe_scheme" where
  "resize w h s = s\<lparr>aspect := js_div w h, size_w := w, size_h := h\<rparr>"

text \<open>
  A move during a drag (mouse or touch, both files) sets the velocity from the pointer's
  displacement \<open>(dx, dy)\<close>: \<open>vel.x = dy * .005; vel.y = dx * .005\<close>, vertical motion
  driving the pitch axis and horizontal motion the yaw axis. The velocity is replaced,
  not accumulated.
\<close>

definition set_velocity :: "px \<Rightarrow> px \<Rightarrow> 'a globe_scheme \<Rightarrow> 'a globe_scheme" where
  "set_velocity dx dy s = s\<lparr>vel_x := dy * 0.005, vel_y := dx * 0.005\<rparr>"

subsection \<open>The raycaster interface\<close>

text \<open>
  \<open>checkPointerOverEarth\<close> maps client coordinates to normalised device coordinates
  with the canvas's bounding rectangle, and asks Three.js's raycaster whether the ray
  from the camera through that point meets the Earth mesh. The raycaster is a library
  call: it is a parameter, a function of the camera distance, the camera aspect and the
  device coordinates.
\<close>

record rect =
  r_left :: real
  r_top :: real
  r_width :: real
  r_height :: real

type_synonym raycaster = "real \<Rightarrow> real option \<Rightarrow> real \<times> real \<Rightarrow> bool"

definition ndc :: "rect \<Rightarrow> px \<Rightarrow> px \<Rightarrow> real \<times> real" where
  "ndc r cx cy =
    (((cx - r_left r) / r_width r) * 2 - 1, - ((cy - r_top r) / r_height r) * 2 + 1)"

definition checkPointerOverEarth ::
  "raycaster \<Rightarrow> rect \<Rightarrow> 'a globe_scheme \<Rightarrow> px \<Rightarrow> px \<Rightarrow> bool" where
  "checkPointerOverEarth ray r s cx cy = ray (cam_z s) (aspect s) (ndc r cx cy)"


lemmas globe_ops = animate_def onWheel_def resize_def set_velocity_def planet_step_def
declare globe_ops [handler_simps]

subsection \<open>The two configuration lists\<close>

text \<open>The two files configure the same orbits; only the looks differ, and no mesh keeps them.\<close>

lemma init_globe_react: "init_globe planetConfigs_react w h ph = init_globe planetConfigs w h ph"
  by (simp add: init_globe_def planetConfigs_def planetConfigs_react_def make_planet_def)

subsection \<open>One frame, field by field\<close>

lemma animate_rot [simp]:
  "rot_x (animate s) = rot_x s + vel_x s"
  "rot_y (animate s) = rot_y s + vel_y s + (if isDragging s then 0 else 0.001)"
  by (simp_all add: animate_def Let_def)

lemma animate_vel_x [simp]: "vel_x (animate s) = 0.95 * vel_x s"
  by (simp add: animate_def Let_def)

lemma animate_vel_y [simp]: "vel_y (animate s) = 0.95 * vel_y s"
  by (simp add: animate_def Let_def)

lemma animate_frame [simp]:
  "isDragging (animate s) = isDragging s"
  "prev_x (animate s) = prev_x s"
  "prev_y (animate s) = prev_y s"
  "cam_z (animate s) = cam_z s"
  "aspect (animate s) = aspect s"
  "planets (animate s) = map planet_step (planets s)"
  "stars_rot (animate s) = stars_rot s + 0.0001"
  by (simp_all add: animate_def Let_def)

lemma animate_more [simp]: "globe.more (animate s) = globe.more s"
  by (simp add: animate_def Let_def)

lemma planet_step_fields [simp]:
  "angle (planet_step pl) = angle pl + ud_speed pl"
  "ud_speed (planet_step pl) = ud_speed pl"
  "ud_distance (planet_step pl) = ud_distance pl"
  "pos_x (planet_step pl) = cos (angle pl + ud_speed pl) * ud_distance pl * 0.5"
  "pos_y (planet_step pl) = pos_y pl"
  "pos_z (planet_step pl) = - ud_distance pl + sin (angle pl + ud_speed pl) * 2"
  "spin_y (planet_step pl) = spin_y pl + 0.005"
  by (simp_all add: planet_step_def Let_def)

lemma onWheel_cam_z [simp]: "cam_z (onWheel d s) = clamp 3 10 (cam_z s + d * 0.01)"
  by (simp add: onWheel_def)

lemma onWheel_frame [simp]:
  "rot_x (onWheel d s) = rot_x s" "rot_y (onWheel d s) = rot_y s"
  "vel_x (onWheel d s) = vel_x s" "vel_y (onWheel d s) = vel_y s"
  "isDragging (onWheel d s) = isDragging s"
  by (simp_all add: onWheel_def Let_def)

subsection \<open>Many frames\<close>

lemma frames_isDragging [simp]: "isDragging ((animate ^^ n) s) = isDragging s"
  by (induction n) simp_all

lemma frames_cam_z [simp]: "cam_z ((animate ^^ n) s) = cam_z s"
  by (induction n) simp_all

lemma frames_vel_x: "vel_x ((animate ^^ n) s) = 0.95 ^ n * vel_x s"
  by (rule funpow_field) simp

lemma frames_vel_y: "vel_y ((animate ^^ n) s) = 0.95 ^ n * vel_y s"
  by (rule funpow_field) simp

lemma frames_planets: "planets ((animate ^^ n) s) = map (planet_step ^^ n) (planets s)"
  by (induction n) simp_all

lemma planet_steps_angle: "angle ((planet_step ^^ n) pl) = angle pl + real n * ud_speed pl"
proof (induction n)
  case 0
  then show ?case by simp
next
  case (Suc n)
  have "ud_speed ((planet_step ^^ n) pl) = ud_speed pl"
    by (induction n) simp_all
  with Suc show ?case by (simp add: algebra_simps)
qed

lemma planet_steps_distance [simp]:
  "ud_distance ((planet_step ^^ n) pl) = ud_distance pl"
  by (induction n) simp_all

lemma frames_rot_x_sum: "rot_x ((animate ^^ n) s) = rot_x s + (\<Sum>k<n. vel_x s * 0.95 ^ k)"
  by (induction n) (simp_all add: frames_vel_x mult.commute)

lemma frames_rot_y_sum:
  "\<not> isDragging s \<Longrightarrow>
   rot_y ((animate ^^ n) s) = rot_y s + (\<Sum>k<n. vel_y s * 0.95 ^ k) + real n * 0.001"
  by (induction n) (simp_all add: frames_vel_y mult.commute algebra_simps)


lemma sum_damped: "(\<Sum>k<n. v * (0.95::real) ^ k) = 20 * v * (1 - 0.95 ^ n)"
  using geometric_partial_sum [where q = "0.95" and c = v and n = n] by simp

lemma frames_rot_x: "rot_x ((animate ^^ n) s) = rot_x s + 20 * vel_x s * (1 - 0.95 ^ n)"
  unfolding frames_rot_x_sum sum_damped ..

lemma planet_steps_orbit:
  assumes "q = (planet_step ^^ Suc n) p"
  shows "angle q = angle p + real (Suc n) * ud_speed p \<and>
         pos_x q = cos (angle q) * ud_distance p * 0.5 \<and>
         pos_z q = - ud_distance p + sin (angle q) * 2 \<and>
         pos_y q = pos_y p"
proof -
  have y: "pos_y ((planet_step ^^ k) p) = pos_y p" for k
    by (induction k) simp_all
  have "angle ((planet_step ^^ n) p) + ud_speed ((planet_step ^^ n) p) = angle q"
    using assms by simp
  then show ?thesis
    using assms y planet_steps_angle [of "Suc n" p] by simp
qed

lemma sum_damped_lower: "- 20 * \<bar>v\<bar> \<le> 20 * v * (1 - (0.95::real) ^ n)"
proof -
  have "0 \<le> 1 - (0.95::real) ^ n" "1 - (0.95::real) ^ n \<le> 1"
    by (simp_all add: power_le_one)
  then have "\<bar>v * (1 - (0.95::real) ^ n)\<bar> \<le> \<bar>v\<bar>"
    by (simp add: abs_mult mult_left_le)
  then show ?thesis by linarith
qed

lemma ndc_fst: "0 < r_width r \<Longrightarrow>
  fst (ndc r cx cy) = 2 * (cx - r_left r) / r_width r - 1"
  by (simp add: ndc_def field_simps)

lemma ndc_snd: "0 < r_height r \<Longrightarrow>
  snd (ndc r cx cy) = 1 - 2 * (cy - r_top r) / r_height r"
  by (simp add: ndc_def field_simps)

text \<open>
  C38 (the pointer mapping of \<open>checkPointerOverEarth\<close>). For a canvas of positive
  size, the device coordinates computed from the bounding rectangle lie in the square
  \<open>[-1, 1] \<times> [-1, 1]\<close> exactly when the pointer lies in the rectangle; the top-left
  corner goes to \<open>(-1, 1)\<close> and the bottom-right one to \<open>(1, -1)\<close> (the \<open>y\<close> axis
  flipped, as Three.js expects), and distinct pointer positions give distinct device
  coordinates, so the raycaster is asked about the point under the pointer.
\<close>

theorem ndc_maps_canvas:
  assumes "0 < r_width r" "0 < r_height r"
  shows "(ndc r cx cy \<in> {-1..1} \<times> {-1..1} \<longleftrightarrow>
            r_left r \<le> cx \<and> cx \<le> r_left r + r_width r \<and> r_top r \<le> cy \<and> cy \<le> r_top r + r_height r) \<and>
         ndc r (r_left r) (r_top r) = (-1, 1) \<and>
         ndc r (r_left r + r_width r) (r_top r + r_height r) = (1, -1) \<and>
         (ndc r cx cy = ndc r cx' cy' \<longleftrightarrow> cx = cx' \<and> cy = cy')"
proof (intro conjI)
  have x: "fst (ndc r cx cy) \<in> {-1..1} \<longleftrightarrow> r_left r \<le> cx \<and> cx \<le> r_left r + r_width r"
    using assms(1) by (auto simp: ndc_fst field_simps)
  have y: "snd (ndc r cx cy) \<in> {-1..1} \<longleftrightarrow> r_top r \<le> cy \<and> cy \<le> r_top r + r_height r"
    using assms(2) by (auto simp: ndc_snd field_simps)
  from x y show "ndc r cx cy \<in> {-1..1} \<times> {-1..1} \<longleftrightarrow>
            r_left r \<le> cx \<and> cx \<le> r_left r + r_width r \<and> r_top r \<le> cy \<and> cy \<le> r_top r + r_height r"
    by (simp add: mem_Times_iff)
  show "ndc r (r_left r) (r_top r) = (-1, 1)" by (simp add: ndc_def)
  show "ndc r (r_left r + r_width r) (r_top r + r_height r) = (1, -1)"
    using assms by (simp add: ndc_def)
  show "ndc r cx cy = ndc r cx' cy' \<longleftrightarrow> cx = cx' \<and> cy = cy'"
    using assms by (auto simp: prod_eq_iff ndc_fst ndc_snd field_simps)
qed

theorem ndc_maps_canvas_witness:
  "ndc \<lparr>r_left = 10, r_top = 20, r_width = 800, r_height = 600\<rparr> 410 320 \<in> {-1..1} \<times> {-1..1} \<and>
   ndc \<lparr>r_left = 10, r_top = 20, r_width = 800, r_height = 600\<rparr> 5 320 \<notin> {-1..1} \<times> {-1..1}"
  using ndc_maps_canvas [of "\<lparr>r_left = 10, r_top = 20, r_width = 800, r_height = 600\<rparr>"] by simp

end
