(* ===== verification/Frames.thy ===== *)
theory Frames
  imports Globe
begin

text \<open>
  Properties of the frame function \<open>animate\<close> of \<open>src/main.js\<close> (line 306) and
  \<open>src/homepage.js\<close> (line 174), iterated over many frames: the damping of the
  rotation velocity, the coasting rotation in closed form, the balance between coasting
  and the idle spin, and the planets' orbits. The definitions and the field-by-field
  lemmas they rest on are those of the scene theory \<open>Globe\<close>.
\<close>


text \<open>
  C4 (damping). On every frame, dragging or not, the rotation velocity is multiplied by
  0.95 on both axes: after \<open>n\<close> frames it is \<open>0.95 ^ n\<close> times the velocity it started
  from. A non-zero velocity therefore never becomes exactly zero, its magnitude
  decreases strictly from frame to frame, and it tends to zero.
\<close>

theorem damping_decay:
  assumes "vel_x s \<noteq> 0" and "vel_y s \<noteq> 0"
  shows "(\<forall>n. vel_x ((animate ^^ n) s) = 0.95 ^ n * vel_x s \<and>
              vel_y ((animate ^^ n) s) = 0.95 ^ n * vel_y s \<and>
              vel_x ((animate ^^ n) s) \<noteq> 0 \<and> vel_y ((animate ^^ n) s) \<noteq> 0 \<and>
              \<bar>vel_x ((animate ^^ Suc n) s)\<bar> < \<bar>vel_x ((animate ^^ n) s)\<bar> \<and>
              \<bar>vel_y ((animate ^^ Suc n) s)\<bar> < \<bar>vel_y ((animate ^^ n) s)\<bar>) \<and>
         (\<lambda>n. vel_x ((animate ^^ n) s)) \<longlonglongrightarrow> 0 \<and>
         (\<lambda>n. vel_y ((animate ^^ n) s)) \<longlonglongrightarrow> 0"
proof -
  have dec: "\<And>n v. v \<noteq> 0 \<Longrightarrow> \<bar>0.95 ^ Suc n * v\<bar> < \<bar>0.95 ^ n * (v::real)\<bar>"
    by (rule damped_abs_decreasing) simp_all
  have nz: "\<And>n v. v \<noteq> 0 \<Longrightarrow> 0.95 ^ n * v \<noteq> (0::real)"
    by (rule damped_nonzero) simp_all
  have lim: "\<And>v. (\<lambda>n. 0.95 ^ n * v) \<longlonglongrightarrow> (0::real)"
    by (rule damped_tendsto_zero) simp
  show ?thesis
    unfolding frames_vel_x frames_vel_y using assms dec nz lim by blast
qed

theorem damping_decay_witness:
  "vel_x ((animate ^^ 1) (init_globe planetConfigs 800 600 (\<lambda>_. 0)\<lparr>vel_x := 0.1, vel_y := 0.2\<rparr>)) = 0.095"
proof -
  let ?s = "init_globe planetConfigs 800 600 (\<lambda>_. 0)\<lparr>vel_x := 0.1, vel_y := 0.2\<rparr>"
  have "vel_x ?s \<noteq> 0" "vel_y ?s \<noteq> 0"
    by simp_all
  then have "vel_x ((animate ^^ 1) ?s) = 0.95 ^ 1 * vel_x ?s"
    using damping_decay by blast
  then show ?thesis by simp
qed

text \<open>
  C5 (coasting, closed form). Without a drag in progress, \<open>n\<close> frames turn the Earth by
  the whole remaining coasting of the velocity, \<open>20 v (1 - 0.95 ^ n)\<close> on each axis,
  plus \<open>n\<close> idle increments of 0.001 on the yaw axis.
\<close>

theorem idle_rotation_closed_form:
  assumes "\<not> isDragging s"
  shows "rot_y ((animate ^^ n) s) = rot_y s + 20 * vel_y s * (1 - 0.95 ^ n) + real n * 0.001 \<and>
         rot_x ((animate ^^ n) s) = rot_x s + 20 * vel_x s * (1 - 0.95 ^ n)"
  unfolding frames_rot_y_sum [OF assms] frames_rot_x sum_damped by (rule conjI refl)+

theorem idle_rotation_closed_form_witness:
  "rot_y ((animate ^^ 2) (init_globe planetConfigs 800 600 (\<lambda>_. 0)\<lparr>vel_y := 0.1\<rparr>)) = 0.197"
proof -
  let ?s = "init_globe planetConfigs 800 600 (\<lambda>_. 0)\<lparr>vel_y := 0.1\<rparr>"
  have "\<not> isDragging ?s"
    by (simp add: init_globe_def)
  then have "rot_y ((animate ^^ 2) ?s) = rot_y ?s + 20 * vel_y ?s * (1 - 0.95 ^ 2) + real 2 * 0.001"
    by (rule idle_rotation_closed_form [THEN conjunct1])
  then show ?thesis by (simp add: init_globe_def power2_eq_square)
qed

text \<open>
  C6 (idle yaw: backwards for a frame, forwards in the long run). Without a drag in
  progress, one frame turns the Earth backwards exactly when the coasting yaw velocity is
  below \<open>-0.001\<close>, the idle increment. Whatever the velocity, the idle increments win:
  for every bound \<open>B\<close> the yaw exceeds its start by more than \<open>B\<close> from some frame on.
\<close>

theorem idle_yaw_eventually_forward:
  assumes "\<not> isDragging s"
  shows "(rot_y (animate s) < rot_y s \<longleftrightarrow> vel_y s < -0.001) \<and>
         (\<forall>B. \<exists>N. \<forall>n\<ge>N. rot_y s + B < rot_y ((animate ^^ n) s))"
proof
  show "rot_y (animate s) < rot_y s \<longleftrightarrow> vel_y s < -0.001"
    using assms by (simp add: less_diff_eq [symmetric])
  show "\<forall>B. \<exists>N. \<forall>n\<ge>N. rot_y s + B < rot_y ((animate ^^ n) s)"
  proof
    fix B :: real
    define N where "N = nat \<lceil>1000 * (B + 20 * \<bar>vel_y s\<bar>)\<rceil> + 1"
    have "rot_y s + B < rot_y ((animate ^^ n) s)" if "N \<le> n" for n
    proof -
      have "1000 * (B + 20 * \<bar>vel_y s\<bar>) < real n"
        using that unfolding N_def by linarith
      then have "B + 20 * \<bar>vel_y s\<bar> < real n * 0.001"
        by simp
      moreover have "- 20 * \<bar>vel_y s\<bar> \<le> 20 * vel_y s * (1 - 0.95 ^ n)"
        by (rule sum_damped_lower)
      ultimately show ?thesis
        unfolding frames_rot_y_sum [OF assms] sum_damped by linarith
    qed
    then show "\<exists>N. \<forall>n\<ge>N. rot_y s + B < rot_y ((animate ^^ n) s)" by blast
  qed
qed

theorem idle_yaw_eventually_forward_witness:
  "rot_y (animate (init_globe planetConfigs 800 600 (\<lambda>_. 0)\<lparr>vel_y := -0.01\<rparr>)) <
   rot_y (init_globe planetConfigs 800 600 (\<lambda>_. 0)\<lparr>vel_y := -0.01\<rparr>)"
proof -
  let ?s = "init_globe planetConfigs 800 600 (\<lambda>_. 0)\<lparr>vel_y := -0.01\<rparr>"
  have "\<not> isDragging ?s" by (simp add: init_globe_def)
  from idle_yaw_eventually_forward [OF this] show ?thesis by simp
qed

text \<open>
  C10 (planet orbits). From its first frame on, a planet's phase is its start phase plus
  one speed increment per frame, and its position is the point of that phase on the
  ellipse with half-axes \<open>distance / 2\<close> (in \<open>x\<close>) and 2 (in \<open>z\<close>) centred at
  \<open>z = -distance\<close>; its height \<open>y\<close> is the configured one and never changes.
\<close>

theorem planet_orbit:
  assumes "i < length (planets s)"
  shows "angle (planets ((animate ^^ Suc n) s) ! i) =
           angle (planets s ! i) + real (Suc n) * ud_speed (planets s ! i) \<and>
         pos_x (planets ((animate ^^ Suc n) s) ! i) =
           cos (angle (planets ((animate ^^ Suc n) s) ! i)) * ud_distance (planets s ! i) * 0.5 \<and>
         pos_z (planets ((animate ^^ Suc n) s) ! i) =
           - ud_distance (planets s ! i) + sin (angle (planets ((animate ^^ Suc n) s) ! i)) * 2 \<and>
         pos_y (planets ((animate ^^ Suc n) s) ! i) = pos_y (planets s ! i)"
proof -
  have "planets ((animate ^^ Suc n) s) ! i = (planet_step ^^ Suc n) (planets s ! i)"
    using assms by (simp only: frames_planets nth_map)
  then show ?thesis
    using planet_steps_orbit by blast
qed

theorem planet_orbit_witness:
  "angle (planets ((animate ^^ 1) (init_globe planetConfigs 800 600 (\<lambda>_. 0))) ! 0) = 0.001 \<and>
   pos_y (planets ((animate ^^ 1) (init_globe planetConfigs 800 600 (\<lambda>_. 0))) ! 0) = 2"
proof -
  have "0 < length (planets (init_globe planetConfigs 800 600 (\<lambda>_. 0)))"
    by (simp add: init_globe_def planetConfigs_def)
  from planet_orbit [OF this, of 0] show ?thesis
    by (simp add: init_globe_def planetConfigs_def make_planet_def)
qed

end
