(* ===== verification/Globe_Vanilla.thy ===== *)
theory Globe_Vanilla
  imports Globe
begin

text \<open>
  The plain-script globe controller of \<open>src/main.js\<close> (lines 164-315): the scene of
  \<^theory_text>\<open>Globe\<close> extended with the hover flag, the two cursor classes of the
  canvas and the number of listeners the canvas's \<open>pointermove\<close> handler has added to
  the gallery grid. Each listener of the source is one definition; \<open>vanilla_step\<close>
  dispatches an input event to it and \<open>vanilla_run\<close> runs a sequence of events. The
  raycaster, the canvas's bounding rectangle and the presence of the gallery grid are
  parameters of every handler.
\<close>

record vanilla = globe +
  pointerOverEarth :: bool
  cursor_grab :: bool         \<comment> \<open>the canvas has class \<open>cursor-grab\<close>\<close>
  cursor_grabbing :: bool     \<comment> \<open>the canvas has class \<open>cursor-grabbing\<close>\<close>
  gallery_listeners :: nat    \<comment> \<open>listeners added to \<open>#gallery-grid\<close> by the canvas\<close>

datatype pointer_type = Mouse | Pen | Touch

text \<open>The input events the canvas and the window deliver, and the animation frame.\<close>

datatype vevent =
    MouseDown px px | MouseMove px px | MouseUp
  | PointerEnter | PointerLeave | PointerMove pointer_type px px
  | Wheel real | TouchStart px px | TouchMove px px | TouchEnd
  | WinResize real real | Frame

text \<open>
  The state the set-up block leaves: the scene of \<open>init_globe\<close> with no hover and no
  cursor class, after the first call \<open>animate()\<close> at its end has run one frame.
\<close>

definition init_vanilla :: "real \<Rightarrow> real \<Rightarrow> (nat \<Rightarrow> rad) \<Rightarrow> vanilla" where
  "init_vanilla w h phase =
    animate (globe.extend (init_globe planetConfigs w h phase) (vanilla.fields False False False 0))"

text \<open>\<open>onDown\<close>: a press starts a drag only when the ray meets the Earth.\<close>

definition onDown :: "raycaster \<Rightarrow> rect \<Rightarrow> px \<Rightarrow> px \<Rightarrow> vanilla \<Rightarrow> vanilla" where
  "onDown ray r cx cy s =
    (if \<not> checkPointerOverEarth ray r s cx cy then s
     else s\<lparr>isDragging := True, prev_x := cx, prev_y := cy,
            cursor_grabbing := True, cursor_grab := False\<rparr>)"

text \<open>The hover update shared by \<open>onMove\<close> and the canvas's \<open>pointermove\<close> listener.\<close>

definition update_hover :: "bool \<Rightarrow> vanilla \<Rightarrow> vanilla" where
  "update_hover over s =
    (let s1 = s\<lparr>pointerOverEarth := over\<rparr>
     in if pointerOverEarth s1 \<and> \<not> isDragging s1 then s1\<lparr>cursor_grab := True\<rparr>
        else if \<not> pointerOverEarth s1 \<and> \<not> isDragging s1 then s1\<lparr>cursor_grab := False\<rparr>
        else s1)"

definition onMove :: "raycaster \<Rightarrow> rect \<Rightarrow> px \<Rightarrow> px \<Rightarrow> vanilla \<Rightarrow> vanilla" where
  "onMove ray r cx cy s =
    (let s1 = update_hover (checkPointerOverEarth ray r s cx cy) s
     in if \<not> isDragging s1 then s1
        else (set_velocity (cx - prev_x s1) (cy - prev_y s1) s1)\<lparr>prev_x := cx, prev_y := cy\<rparr>)"

definition onUp :: "vanilla \<Rightarrow> vanilla" where
  "onUp s = s\<lparr>isDragging := False, cursor_grabbing := False, cursor_grab := False\<rparr>"

definition onPointerLeave :: "vanilla \<Rightarrow> vanilla" where
  "onPointerLeave s = s\<lparr>cursor_grab := False, cursor_grabbing := False, pointerOverEarth := False\<rparr>"

definition onTouchStart :: "raycaster \<Rightarrow> rect \<Rightarrow> px \<Rightarrow> px \<Rightarrow> vanilla \<Rightarrow> vanilla" where
  "onTouchStart ray r tx ty s =
    (if \<not> checkPointerOverEarth ray r s tx ty then s
     else s\<lparr>isDragging := True, prev_x := tx, prev_y := ty,
            cursor_grabbing := True, cursor_grab := False\<rparr>)"

definition onTouchMove :: "px \<Rightarrow> px \<Rightarrow> vanilla \<Rightarrow> vanilla" where
  "onTouchMove tx ty s =
    (if \<not> isDragging s then s
     else (set_velocity (tx - prev_x s) (ty - prev_y s) s)\<lparr>prev_x := tx, prev_y := ty\<rparr>)"

definition onTouchEnd :: "vanilla \<Rightarrow> vanilla" where
  "onTouchEnd s = s\<lparr>isDragging := False, cursor_grabbing := False, cursor_grab := False\<rparr>"

text \<open>
  The canvas's \<open>pointermove\<close> listener: for a mouse, the hover update, and then, when
  the gallery grid exists, five more listeners (\<open>pointerdown\<close>, \<open>pointermove\<close>,
  \<open>pointerup\<close>, \<open>pointercancel\<close>, \<open>pointerleave\<close>) added to the grid.
\<close>

definition onCanvasPointerMove ::
  "raycaster \<Rightarrow> rect \<Rightarrow> bool \<Rightarrow> pointer_type \<Rightarrow> px \<Rightarrow> px \<Rightarrow> vanilla \<Rightarrow> vanilla" where
  "onCanvasPointerMove ray r gallery pt cx cy s =
    (if pt = Mouse then
       (let s1 = update_hover (checkPointerOverEarth ray r s cx cy) s
        in if gallery then s1\<lparr>gallery_listeners := gallery_listeners s1 + 5\<rparr> else s1)
     else s)"

fun vanilla_step :: "raycaster \<Rightarrow> rect \<Rightarrow> bool \<Rightarrow> vevent \<Rightarrow> vanilla \<Rightarrow> vanilla" where
  "vanilla_step ray r g (MouseDown x y) s = onDown ray r x y s"
| "vanilla_step ray r g (MouseMove x y) s = onMove ray r x y s"
| "vanilla_step ray r g MouseUp s = onUp s"
| "vanilla_step ray r g PointerEnter s = s"
| "vanilla_step ray r g PointerLeave s = onPointerLeave s"
| "vanilla_step ray r g (PointerMove pt x y) s = onCanvasPointerMove ray r g pt x y s"
| "vanilla_step ray r g (Wheel d) s = onWheel d s"
| "vanilla_step ray r g (TouchStart x y) s = onTouchStart ray r x y s"
| "vanilla_step ray r g (TouchMove x y) s = onTouchMove x y s"
| "vanilla_step ray r g TouchEnd s = onTouchEnd s"
| "vanilla_step ray r g (WinResize w h) s = resize w h s"
| "vanilla_step ray r g Frame s = animate s"

fun vanilla_run :: "raycaster \<Rightarrow> rect \<Rightarrow> bool \<Rightarrow> vevent list \<Rightarrow> vanilla \<Rightarrow> vanilla" where
  "vanilla_run ray r g [] s = s"
| "vanilla_run ray r g (e # es) s = vanilla_run ray r g es (vanilla_step ray r g e s)"

text \<open>
  The cursor classes agree with the drag state: the grabbing cursor is shown only while a
  drag is in progress, and never together with the grab cursor.
\<close>

definition cursor_inv :: "vanilla \<Rightarrow> bool" where
  "cursor_inv s \<longleftrightarrow> (cursor_grabbing s \<longrightarrow> isDragging s \<and> \<not> cursor_grab s)"


text \<open>
  The host size a run leaves: that of its last \<open>WinResize\<close> event, else the size
  the run started with (the trace function of the resize listener).
\<close>

fun win_size :: "real \<times> real \<Rightarrow> vevent \<Rightarrow> real \<times> real" where
  "win_size p (WinResize w h) = (w, h)"
| "win_size p e = p"

lemmas vanilla_handlers = onDown_def update_hover_def onMove_def onUp_def onPointerLeave_def
  onTouchStart_def onTouchMove_def onTouchEnd_def onCanvasPointerMove_def
declare vanilla_handlers [handler_simps]

subsection \<open>Basic facts of the handlers\<close>

lemma init_vanilla_fields [simp]:
  "cam_z (init_vanilla w h ph) = 5" "isDragging (init_vanilla w h ph) = False"
  "vel_x (init_vanilla w h ph) = 0" "vel_y (init_vanilla w h ph) = 0"
  "cursor_grab (init_vanilla w h ph) = False" "cursor_grabbing (init_vanilla w h ph) = False"
  "gallery_listeners (init_vanilla w h ph) = 0"
  by (simp_all add: init_vanilla_def init_globe_def globe.defs vanilla.defs animate_def Let_def)

lemma vanilla_run_append:
  "vanilla_run ray r g (es @ fs) s = vanilla_run ray r g fs (vanilla_run ray r g es s)"
  by (induction es arbitrary: s) simp_all

lemma update_hover_fields [simp]:
  "isDragging (update_hover ov s) = isDragging s" "vel_x (update_hover ov s) = vel_x s"
  "vel_y (update_hover ov s) = vel_y s" "cam_z (update_hover ov s) = cam_z s"
  "prev_x (update_hover ov s) = prev_x s" "prev_y (update_hover ov s) = prev_y s"
  "rot_x (update_hover ov s) = rot_x s" "rot_y (update_hover ov s) = rot_y s"
  "gallery_listeners (update_hover ov s) = gallery_listeners s"
  "cursor_grabbing (update_hover ov s) = cursor_grabbing s"
  "aspect (update_hover ov s) = aspect s"
  by (simp_all add: update_hover_def Let_def)

lemma update_hover_checks [simp]:
  "checkPointerOverEarth ray r (update_hover ov s) x y = checkPointerOverEarth ray r s x y"
  by (simp add: checkPointerOverEarth_def)

lemma vanilla_step_cam_z:
  "cam_z (vanilla_step ray r g e s) = (case e of Wheel d \<Rightarrow> cam_z (onWheel d s) | _ \<Rightarrow> cam_z s)"
  by (cases e) (simp_all add: handler_simps Let_def)

lemma cam_z_run_bounded:
  "3 \<le> cam_z s \<Longrightarrow> cam_z s \<le> 10 \<Longrightarrow>
   3 \<le> cam_z (vanilla_run ray r g es s) \<and> cam_z (vanilla_run ray r g es s) \<le> 10"
proof (induction es arbitrary: s)
  case (Cons e es)
  then show ?case
    by (simp add: vanilla_step_cam_z split: vevent.splits)
qed simp

text \<open>Mouse moves while no drag is in progress change only the hover state.\<close>

lemma moves_without_drag:
  assumes "\<not> isDragging s"
  shows "isDragging (vanilla_run ray r g (map (\<lambda>(x, y). MouseMove x y) ms) s) = False \<and>
         vel_x (vanilla_run ray r g (map (\<lambda>(x, y). MouseMove x y) ms) s) = vel_x s \<and>
         vel_y (vanilla_run ray r g (map (\<lambda>(x, y). MouseMove x y) ms) s) = vel_y s \<and>
         cam_z (vanilla_run ray r g (map (\<lambda>(x, y). MouseMove x y) ms) s) = cam_z s"
  using assms
proof (induction ms arbitrary: s)
  case Nil
  then show ?case by simp
next
  case (Cons m ms)
  obtain x y where m: "m = (x, y)" by fastforce
  let ?s1 = "onMove ray r x y s"
  have "\<not> isDragging ?s1" "vel_x ?s1 = vel_x s" "vel_y ?s1 = vel_y s" "cam_z ?s1 = cam_z s"
    using Cons.prems by (simp_all add: onMove_def Let_def)
  with Cons.IH [of ?s1] m show ?case by simp
qed

lemma cursor_inv_step: "cursor_inv s \<Longrightarrow> cursor_inv (vanilla_step ray r g e s)"
  by (cases e) (auto simp: cursor_inv_def handler_simps Let_def)

lemma cursor_inv_run: "cursor_inv s \<Longrightarrow> cursor_inv (vanilla_run ray r g es s)"
  by (induction es arbitrary: s) (simp_all add: cursor_inv_step)

lemma vanilla_step_size:
  "aspect (vanilla_step ray r g e s) =
     (case e of WinResize w h \<Rightarrow> js_div w h | _ \<Rightarrow> aspect s) \<and>
   (size_w (vanilla_step ray r g e s), size_h (vanilla_step ray r g e s)) =
     win_size (size_w s, size_h s) e"
  by (cases e) (simp_all add: handler_simps Let_def)

lemma vanilla_run_size:
  assumes "aspect s = js_div (size_w s) (size_h s)"
  shows "(size_w (vanilla_run ray r g es s), size_h (vanilla_run ray r g es s)) =
           foldl win_size (size_w s, size_h s) es \<and>
         aspect (vanilla_run ray r g es s) =
           js_div (size_w (vanilla_run ray r g es s)) (size_h (vanilla_run ray r g es s))"
  using assms
proof (induction es arbitrary: s)
  case Nil
  then show ?case by simp
next
  case (Cons e es)
  have "aspect (vanilla_step ray r g e s) =
          js_div (size_w (vanilla_step ray r g e s)) (size_h (vanilla_step ray r g e s))"
    using Cons.prems vanilla_step_size [of ray r g e s] by (cases e) simp_all
  with Cons.IH [of "vanilla_step ray r g e s"] vanilla_step_size [of ray r g e s]
  show ?case by simp
qed

subsection \<open>Properties of the vanilla controller\<close>

text \<open>
  C1 (a press that misses the Earth starts no drag). When no drag is in progress and the
  ray through the pressed point misses the Earth, the press and every mouse move after
  it leave the drag flag off and the rotation velocity and the camera as they were; a
  touch that misses the Earth changes nothing at all.
\<close>

theorem press_miss_no_drag:
  assumes "\<not> isDragging s" and "\<not> checkPointerOverEarth ray r s cx cy"
  shows "isDragging (vanilla_run ray r g (MouseDown cx cy # map (\<lambda>(x, y). MouseMove x y) ms) s) = False \<and>
         vel_x (vanilla_run ray r g (MouseDown cx cy # map (\<lambda>(x, y). MouseMove x y) ms) s) = vel_x s \<and>
         vel_y (vanilla_run ray r g (MouseDown cx cy # map (\<lambda>(x, y). MouseMove x y) ms) s) = vel_y s \<and>
         cam_z (vanilla_run ray r g (MouseDown cx cy # map (\<lambda>(x, y). MouseMove x y) ms) s) = cam_z s \<and>
         vanilla_step ray r g (TouchStart cx cy) s = s"
proof -
  have "vanilla_step ray r g (MouseDown cx cy) s = s"
    using assms(2) by (simp add: onDown_def)
  then show ?thesis
    using moves_without_drag [OF assms(1)] assms(2) by (simp add: onTouchStart_def)
qed

theorem press_miss_no_drag_witness:
  "vel_y (vanilla_run (\<lambda>_ _ _. False) \<lparr>r_left = 0, r_top = 0, r_width = 800, r_height = 600\<rparr> True
     [MouseDown 400 300, MouseMove 500 300] (init_vanilla 800 600 (\<lambda>_. 0))) = 0"
proof -
  have "\<not> isDragging (init_vanilla 800 600 (\<lambda>_. 0))"
       "\<not> checkPointerOverEarth (\<lambda>_ _ _. False) \<lparr>r_left = 0, r_top = 0, r_width = 800, r_height = 600\<rparr>
          (init_vanilla 800 600 (\<lambda>_. 0)) 400 300"
    by (simp_all add: checkPointerOverEarth_def)
  from press_miss_no_drag [OF this, of True "[(500, 300)]"] show ?thesis by simp
qed

text \<open>
  C2 (a drag on the Earth sets the velocity from the displacement). After a press on the
  Earth at \<open>(cx, cy)\<close> and a move to \<open>(cx + dx, cy + dy)\<close>, by mouse or by touch, a drag
  is in progress and the rotation velocity is exactly \<open>(0.005 dy, 0.005 dx)\<close>: vertical
  motion drives the pitch axis, horizontal motion the yaw axis.
\<close>

theorem press_move_velocity:
  assumes "checkPointerOverEarth ray r s cx cy"
  shows "isDragging (vanilla_run ray r g [MouseDown cx cy, MouseMove (cx + dx) (cy + dy)] s) \<and>
         vel_x (vanilla_run ray r g [MouseDown cx cy, MouseMove (cx + dx) (cy + dy)] s) = 0.005 * dy \<and>
         vel_y (vanilla_run ray r g [MouseDown cx cy, MouseMove (cx + dx) (cy + dy)] s) = 0.005 * dx \<and>
         isDragging (vanilla_run ray r g [TouchStart cx cy, TouchMove (cx + dx) (cy + dy)] s) \<and>
         vel_x (vanilla_run ray r g [TouchStart cx cy, TouchMove (cx + dx) (cy + dy)] s) = 0.005 * dy \<and>
         vel_y (vanilla_run ray r g [TouchStart cx cy, TouchMove (cx + dx) (cy + dy)] s) = 0.005 * dx"
  using assms by (simp add: handler_simps Let_def)

theorem press_move_velocity_witness:
  "vel_y (vanilla_run (\<lambda>_ _ _. True) \<lparr>r_left = 0, r_top = 0, r_width = 800, r_height = 600\<rparr> True
     [MouseDown 400 300, MouseMove 500 300] (init_vanilla 800 600 (\<lambda>_. 0))) = 0.5 \<and>
   vel_x (vanilla_run (\<lambda>_ _ _. True) \<lparr>r_left = 0, r_top = 0, r_width = 800, r_height = 600\<rparr> True
     [MouseDown 400 300, MouseMove 500 300] (init_vanilla 800 600 (\<lambda>_. 0))) = 0"
proof -
  have "checkPointerOverEarth (\<lambda>_ _ _. True) \<lparr>r_left = 0, r_top = 0, r_width = 800, r_height = 600\<rparr>
          (init_vanilla 800 600 (\<lambda>_. 0)) 400 300"
    by (simp add: checkPointerOverEarth_def)
  from press_move_velocity [OF this, of True 100 0] show ?thesis by simp
qed

text \<open>
  C3 (camera distance). Whatever events the controller receives after mounting, the
  camera distance stays within \<open>[3, 10]\<close>; from the initial distance 5 a wheel delta of
  \<open>-10000\<close> gives the minimum 3 and a delta of \<open>+10000\<close> the maximum 10.
\<close>

theorem camera_distance_bounded:
  "3 \<le> cam_z (vanilla_run ray r g es (init_vanilla w h ph)) \<and>
   cam_z (vanilla_run ray r g es (init_vanilla w h ph)) \<le> 10 \<and>
   cam_z (vanilla_step ray r g (Wheel (-10000)) (init_vanilla w h ph)) = 3 \<and>
   cam_z (vanilla_step ray r g (Wheel 10000) (init_vanilla w h ph)) = 10"
  using cam_z_run_bounded [of "init_vanilla w h ph" ray r g es] by (simp add: clamp_def)

text \<open>
  C7 (leaving the canvas does not end a drag). The \<open>pointerleave\<close> listener clears
  the cursor classes but leaves the drag in progress. A drag started on the Earth, the
  pointer leaving the canvas (its button then released outside, where no \<open>mouseup\<close>
  listener is) and the pointer coming back over the canvas is still a drag: the move sets
  the rotation velocity although no button is pressed.
\<close>

theorem leave_keeps_drag:
  assumes "checkPointerOverEarth ray r s cx cy"
  shows "isDragging (vanilla_run ray r g [MouseDown cx cy, PointerLeave] s) \<and>
         isDragging (vanilla_run ray r g [MouseDown cx cy, PointerLeave, MouseMove (cx + dx) (cy + dy)] s) \<and>
         vel_y (vanilla_run ray r g [MouseDown cx cy, PointerLeave, MouseMove (cx + dx) (cy + dy)] s) = 0.005 * dx"
  using assms by (simp add: handler_simps Let_def)

theorem leave_keeps_drag_witness:
  "vel_y (vanilla_run (\<lambda>_ _ _. True) \<lparr>r_left = 0, r_top = 0, r_width = 800, r_height = 600\<rparr> True
     [MouseDown 400 300, PointerLeave, MouseMove 600 300] (init_vanilla 800 600 (\<lambda>_. 0))) = 1"
proof -
  have "checkPointerOverEarth (\<lambda>_ _ _. True) \<lparr>r_left = 0, r_top = 0, r_width = 800, r_height = 600\<rparr>
          (init_vanilla 800 600 (\<lambda>_. 0)) 400 300"
    by (simp add: checkPointerOverEarth_def)
  from leave_keeps_drag [OF this, of True 200 0] show ?thesis by simp
qed

text \<open>
  C8 (cursor classes). In every state the controller reaches from mounting, the canvas
  shows the grabbing cursor only while a drag is in progress, and never together with
  the grab cursor.
\<close>

theorem cursor_consistent: "cursor_inv (vanilla_run ray r g es (init_vanilla w h ph))"
  by (rule cursor_inv_run) (simp add: cursor_inv_def)

theorem cursor_consistent_witness:
  "cursor_inv (vanilla_run (\<lambda>_ _ _. True) \<lparr>r_left = 0, r_top = 0, r_width = 800, r_height = 600\<rparr> True
     [MouseDown 400 300, PointerLeave] (init_vanilla 800 600 (\<lambda>_. 0)))"
  by (rule cursor_consistent)

text \<open>
  C11 (the camera follows the last resize). After any run of events from the set-up,
  the renderer has the size of the last \<open>WinResize\<close> of the run (the host's size at
  set-up when there is none) and the camera's aspect is that width divided by that
  height: no other handler touches either. A host of height 0 is not refused, at set-up
  or at a resize: the aspect becomes non-finite.
\<close>

theorem aspect_tracks_resize:
  "(size_w (vanilla_run ray r g es (init_vanilla w h ph)),
    size_h (vanilla_run ray r g es (init_vanilla w h ph))) = foldl win_size (w, h) es \<and>
   aspect (vanilla_run ray r g es (init_vanilla w h ph)) =
     js_div (fst (foldl win_size (w, h) es)) (snd (foldl win_size (w, h) es)) \<and>
   aspect (init_vanilla w 0 ph) = None"
proof -
  have init: "size_w (init_vanilla w h ph) = w" "size_h (init_vanilla w h ph) = h"
    "aspect (init_vanilla w h ph) = js_div w h" for w h
    by (simp_all add: init_vanilla_def init_globe_def globe.defs vanilla.defs animate_def Let_def)
  show ?thesis
    using vanilla_run_size [of "init_vanilla w h ph" ray r g es] init
    by (metis fst_conv snd_conv js_div_zero)
qed

theorem aspect_tracks_resize_witness:
  "aspect (vanilla_run (\<lambda>_ _ _. True) \<lparr>r_left = 0, r_top = 0, r_width = 800, r_height = 600\<rparr> False
             [Frame, WinResize 1200 800, Wheel 3] (init_vanilla 800 600 (\<lambda>_. 0))) = Some 1.5"
  using aspect_tracks_resize [of "\<lambda>_ _ _. True" "\<lparr>r_left = 0, r_top = 0, r_width = 800, r_height = 600\<rparr>"
      False "[Frame, WinResize 1200 800, Wheel 3]" 800 600 "\<lambda>_. 0"]
  by simp

end
