(* ===== verification/Globe_React.thy ===== *)
theory Globe_React
  imports Globe
begin

text \<open>
  The React globe controller of \<open>src/homepage.js\<close> (component \<open>Home\<close>, the
  \<open>useEffect\<close> of lines 9-239): the scene of \<^theory_text>\<open>Globe\<close> extended with the
  touch tracker \<open>touchStartX/Y\<close> and the lifecycle of the mounted view (listeners
  registered, canvas attached to the mount node, resources disposed, animation frame
  scheduled). Its mouse and touch handlers have no raycast gating. The cleanup function
  the effect returns removes the listeners, detaches the canvas and disposes the
  resources; it is a value of \<open>react_error + react\<close>, because \<open>removeChild\<close> throws
  when the canvas is no longer a child of the mount node.
\<close>

record react = globe +
  touchStartX :: px
  touchStartY :: px
  listeners :: bool          \<comment> \<open>the seven canvas listeners and the window resize listener\<close>
  canvas_attached :: bool    \<comment> \<open>\<open>renderer.domElement\<close> is a child of the mount node\<close>
  disposed :: bool           \<comment> \<open>geometries, materials and the renderer disposed\<close>
  loop_running :: bool       \<comment> \<open>an animation frame is scheduled\<close>
  renders_after_dispose :: nat  \<comment> \<open>\<open>renderer.render\<close> calls on the disposed renderer\<close>

datatype react_error = NotFoundError   \<comment> \<open>the DOMException of \<open>removeChild\<close>\<close>

text \<open>The inputs the listeners of the effect receive.\<close>

datatype rinput =
    RMouseDown px px | RMouseMove px px | RMouseUp | RWheel real
  | RTouchStart px px | RTouchMove px px | RTouchEnd | RWinResize real real

datatype revent = Input rinput | RFrame | RCleanup

text \<open>
  Mounting: nothing when \<open>mountRef.current\<close> is null; otherwise the scene for the
  window's size, the listeners registered, the canvas attached, and the first frame run
  by the call \<open>animate()\<close>.
\<close>

definition mount :: "bool \<Rightarrow> real \<Rightarrow> real \<Rightarrow> (nat \<Rightarrow> rad) \<Rightarrow> react option" where
  "mount has_node innerWidth innerHeight phase =
    (if \<not> has_node then None
     else Some (animate (globe.extend (init_globe planetConfigs_react innerWidth innerHeight phase)
                          (react.fields 0 0 True True False True 0))))"

definition handleMouseDown :: "px \<Rightarrow> px \<Rightarrow> react \<Rightarrow> react" where
  "handleMouseDown cx cy s = s\<lparr>isDragging := True, prev_x := cx, prev_y := cy\<rparr>"

definition handleMouseMove :: "px \<Rightarrow> px \<Rightarrow> react \<Rightarrow> react" where
  "handleMouseMove cx cy s =
    (if \<not> isDragging s then s
     else (set_velocity (cx - prev_x s) (cy - prev_y s) s)\<lparr>prev_x := cx, prev_y := cy\<rparr>)"

definition handleMouseUp :: "react \<Rightarrow> react" where
  "handleMouseUp s = s\<lparr>isDragging := False\<rparr>"

definition handleTouchStart :: "px \<Rightarrow> px \<Rightarrow> react \<Rightarrow> react" where
  "handleTouchStart tx ty s = s\<lparr>touchStartX := tx, touchStartY := ty, isDragging := True\<rparr>"

definition handleTouchMove :: "px \<Rightarrow> px \<Rightarrow> react \<Rightarrow> react" where
  "handleTouchMove tx ty s =
    (if \<not> isDragging s then s
     else (set_velocity (tx - touchStartX s) (ty - touchStartY s) s)\<lparr>touchStartX := tx, touchStartY := ty\<rparr>)"

definition handleTouchEnd :: "react \<Rightarrow> react" where
  "handleTouchEnd s = s\<lparr>isDragging := False\<rparr>"

text \<open>An input reaches its handler only while the listeners are registered.\<close>

fun react_input :: "rinput \<Rightarrow> react \<Rightarrow> react" where
  "react_input i s =
    (if \<not> listeners s then s
     else (case i of
             RMouseDown x y \<Rightarrow> handleMouseDown x y s
           | RMouseMove x y \<Rightarrow> handleMouseMove x y s
           | RMouseUp \<Rightarrow> handleMouseUp s
           | RWheel d \<Rightarrow> onWheel d s
           | RTouchStart x y \<Rightarrow> handleTouchStart x y s
           | RTouchMove x y \<Rightarrow> handleTouchMove x y s
           | RTouchEnd \<Rightarrow> handleTouchEnd s
           | RWinResize w h \<Rightarrow> resize w h s))"

text \<open>
  A scheduled frame runs \<open>animate\<close> and renders; \<open>requestAnimationFrame(animate)\<close>
  schedules the next one unconditionally.
\<close>

definition react_frame :: "react \<Rightarrow> react" where
  "react_frame s =
    (if \<not> loop_running s then s
     else (let s1 = animate s
           in if disposed s1 then s1\<lparr>renders_after_dispose := renders_after_dispose s1 + 1\<rparr>
              else s1))"

text \<open>
  The cleanup function: the listeners are removed; \<open>removeChild\<close> throws when the canvas
  is not a child of the mount node; otherwise the canvas is detached and every resource
  disposed. Nothing cancels the scheduled animation frame.
\<close>

definition cleanup :: "react \<Rightarrow> react_error + react" where
  "cleanup s =
    (let s1 = s\<lparr>listeners := False\<rparr>
     in if \<not> canvas_attached s1 then Inl NotFoundError
        else Inr (s1\<lparr>canvas_attached := False, disposed := True\<rparr>))"

fun react_step :: "revent \<Rightarrow> react \<Rightarrow> react_error + react" where
  "react_step (Input i) s = Inr (react_input i s)"
| "react_step RFrame s = Inr (react_frame s)"
| "react_step RCleanup s = cleanup s"

fun react_run :: "revent list \<Rightarrow> react \<Rightarrow> react_error + react" where
  "react_run [] s = Inr s"
| "react_run (e # es) s = (case react_step e s of Inl err \<Rightarrow> Inl err | Inr s' \<Rightarrow> react_run es s')"

text \<open>The states of a view mounted on a node: mounting, then any events that do not
  throw.\<close>

inductive react_reach :: "react \<Rightarrow> bool" where
  mounted: "mount True w h ph = Some s \<Longrightarrow> react_reach s"
| step: "react_reach s \<Longrightarrow> react_step e s = Inr s' \<Longrightarrow> react_reach s'"

text \<open>
  The well-formed lifecycle states: the frame loop is scheduled, and the view is either
  live (listeners registered, canvas attached, nothing disposed, no render after
  disposal) or torn down (no listener, canvas detached, everything disposed).
\<close>

definition lifecycle_wf :: "react \<Rightarrow> bool" where
  "lifecycle_wf s \<longleftrightarrow> loop_running s \<and>
     ((listeners s \<and> canvas_attached s \<and> \<not> disposed s \<and> renders_after_dispose s = 0) \<or>
      (\<not> listeners s \<and> \<not> canvas_attached s \<and> disposed s))"

lemmas react_handlers = handleMouseDown_def handleMouseMove_def handleMouseUp_def
  handleTouchStart_def handleTouchMove_def handleTouchEnd_def react_frame_def cleanup_def
declare react_handlers [handler_simps]

subsection \<open>Basic facts\<close>

lemma animate_react_fields [simp]:
  "touchStartX (animate s) = touchStartX s" "touchStartY (animate s) = touchStartY s"
  "listeners (animate s) = listeners s" "canvas_attached (animate s) = canvas_attached s"
  "disposed (animate s) = disposed s" "loop_running (animate s) = loop_running s"
  "renders_after_dispose (animate s) = renders_after_dispose s"
  by (simp_all add: animate_def Let_def)

lemma mount_fields:
  assumes "mount True w h ph = Some s"
  shows "listeners s \<and> canvas_attached s \<and> \<not> disposed s \<and> loop_running s \<and>
         renders_after_dispose s = 0 \<and> \<not> isDragging s"
proof -
  from assms have "s = animate (globe.extend (init_globe planetConfigs_react w h ph) (react.fields 0 0 True True False True 0))"
    by (simp add: mount_def)
  then show ?thesis by (simp add: init_globe_def globe.defs react.defs)
qed

lemma react_input_no_listeners [simp]: "\<not> listeners s \<Longrightarrow> react_input i s = s"
  by simp

lemma react_run_inputs_ignored:
  "\<not> listeners s \<Longrightarrow> react_run (map Input is @ es) s = react_run es s"
  by (induction "is") simp_all

lemma react_frame_disposed:
  assumes "loop_running s" and "disposed s"
  shows "loop_running ((react_frame ^^ n) s) \<and> disposed ((react_frame ^^ n) s) \<and>
         listeners ((react_frame ^^ n) s) = listeners s \<and>
         renders_after_dispose ((react_frame ^^ n) s) = renders_after_dispose s + n"
  using assms
  by (induction n) (simp_all add: react_frame_def Let_def)

lemma react_run_frames: "react_run (replicate n RFrame) s = Inr ((react_frame ^^ n) s)"
  by (induction n arbitrary: s) (simp_all add: funpow_swap1)

subsection \<open>Properties of the React controller\<close>

text \<open>
  C13 (no raycast gating). While the listeners are registered, a mouse press or a touch
  anywhere on the canvas starts a drag, and a move by \<open>(dx, dy)\<close> then sets the
  rotation velocity to \<open>(0.005 dy, 0.005 dx)\<close>, whether or not the press was over the
  Earth.
\<close>

theorem react_press_ungated:
  assumes "listeners s"
  shows "isDragging (react_input (RMouseDown cx cy) s) \<and>
         vel_x (react_input (RMouseMove (cx + dx) (cy + dy)) (react_input (RMouseDown cx cy) s)) = 0.005 * dy \<and>
         vel_y (react_input (RMouseMove (cx + dx) (cy + dy)) (react_input (RMouseDown cx cy) s)) = 0.005 * dx \<and>
         isDragging (react_input (RTouchStart cx cy) s) \<and>
         vel_x (react_input (RTouchMove (cx + dx) (cy + dy)) (react_input (RTouchStart cx cy) s)) = 0.005 * dy \<and>
         vel_y (react_input (RTouchMove (cx + dx) (cy + dy)) (react_input (RTouchStart cx cy) s)) = 0.005 * dx"
  using assms by (simp add: handler_simps)

theorem react_press_ungated_witness:
  "vel_y (react_input (RMouseMove 100 0)
     (react_input (RMouseDown 0 0) (the (mount True 800 600 (\<lambda>_. 0))))) = 0.5"
proof -
  obtain s where s: "mount True 800 600 (\<lambda>_. 0) = Some s"
    by (simp add: mount_def)
  then have "listeners s" using mount_fields by blast
  from react_press_ungated [OF this, of 0 0 100 0] s show ?thesis by simp
qed

text \<open>
  C14 (teardown leaves the render loop running). After the cleanup of a mounted view,
  inputs no longer reach any handler, but the animation loop is never cancelled: each
  later frame still advances the scene and calls \<open>renderer.render\<close> on the disposed
  renderer, so after \<open>n\<close> frames there have been \<open>n\<close> renders after disposal.
\<close>

theorem teardown_keeps_rendering:
  assumes "mount True w h ph = Some s"
  shows "\<exists>t. react_run (RCleanup # map Input ins @ replicate n RFrame) s = Inr t \<and>
             \<not> listeners t \<and> disposed t \<and> loop_running t \<and> renders_after_dispose t = n"
proof -
  let ?c = "s\<lparr>listeners := False, canvas_attached := False, disposed := True\<rparr>"
  have m: "listeners s \<and> canvas_attached s \<and> \<not> disposed s \<and> loop_running s \<and>
           renders_after_dispose s = 0 \<and> \<not> isDragging s"
    using assms by (rule mount_fields)
  then have c: "react_step RCleanup s = Inr ?c"
    by (simp add: cleanup_def)
  have "react_run (map Input ins @ replicate n RFrame) ?c = Inr ((react_frame ^^ n) ?c)"
    by (simp add: react_run_inputs_ignored react_run_frames)
  moreover have "loop_running ?c" "disposed ?c" using m by simp_all
  ultimately show ?thesis
    using c react_frame_disposed [of ?c n] m by simp
qed

theorem teardown_keeps_rendering_witness:
  "\<exists>t. react_run [RCleanup, Input (RMouseDown 5 5), RFrame, RFrame]
        (the (mount True 800 600 (\<lambda>_. 0))) = Inr t \<and> renders_after_dispose t = 2"
proof -
  obtain s where s: "mount True 800 600 (\<lambda>_. 0) = Some s"
    by (simp add: mount_def)
  from teardown_keeps_rendering [OF s, of "[RMouseDown 5 5]" 2] s show ?thesis
    by (auto simp: numeral_2_eq_2)
qed

lemma react_input_fields [simp]:
  "listeners (react_input i s) = listeners s \<and> canvas_attached (react_input i s) = canvas_attached s \<and>
   disposed (react_input i s) = disposed s \<and> loop_running (react_input i s) = loop_running s \<and>
   renders_after_dispose (react_input i s) = renders_after_dispose s"
  by (cases i) (simp_all add: handler_simps Let_def)

lemma lifecycle_wf_step:
  assumes "lifecycle_wf s" and "react_step e s = Inr s'"
  shows "lifecycle_wf s'"
proof (cases e)
  case (Input i)
  with assms(2) have "s' = react_input i s" by simp
  with assms(1) show ?thesis
    using react_input_fields [of i s] by (simp add: lifecycle_wf_def del: react_input.simps)
qed (use assms in \<open>auto simp: lifecycle_wf_def react_frame_def cleanup_def Let_def split: if_splits\<close>)

text \<open>
  C15 (the lifecycle is well formed). Every state of a mounted view, after any
  sequence of inputs, frames and cleanups that did not throw, is either live or torn
  down, with the frame loop still scheduled; and a cleanup throws \<open>NotFoundError\<close>
  exactly in the torn-down states.
\<close>

theorem lifecycle_well_formed:
  assumes "react_reach s"
  shows "lifecycle_wf s \<and> (react_step RCleanup s = Inl NotFoundError \<longleftrightarrow> disposed s)"
proof -
  have "lifecycle_wf s"
    using assms
  proof (induction rule: react_reach.induct)
    case (mounted w h ph s)
    then show ?case using mount_fields [OF mounted] by (simp add: lifecycle_wf_def)
  next
    case (step s e s')
    from step.IH step.hyps(2) show ?case by (rule lifecycle_wf_step)
  qed
  then show ?thesis by (auto simp: lifecycle_wf_def cleanup_def)
qed

theorem lifecycle_well_formed_witness:
  "lifecycle_wf (the (mount True 800 600 (\<lambda>_. 0))) \<and>
   react_step RCleanup (the (mount True 800 600 (\<lambda>_. 0))) \<noteq> Inl NotFoundError"
proof -
  obtain s where s: "mount True 800 600 (\<lambda>_. 0) = Some s"
    by (simp add: mount_def)
  then have "react_reach s" by (rule react_reach.mounted)
  from lifecycle_well_formed [OF this] s mount_fields [OF s] show ?thesis by simp
qed

end
