(* ===== verification/Mascot.thy ===== *)
theory Mascot
  imports Prelude
begin

text \<open>
  The mascot of \<open>src/main.js\<close> (lines 11-49): a speech bubble that minimizes itself
  once, three seconds after the page loads, unless the user has interacted with it.
  The state is the class \<open>minimized\<close> of the mascot element, whether a minimize
  timeout is pending (\<open>minimizeTimer\<close>), and the flag \<open>autoMinimizedOnce\<close>. The
  events are the timeout firing, a click on the mascot (with the tag name of its
  target), and a page interaction caught by the window's \<open>pointerdown\<close>,
  \<open>keydown\<close>, \<open>scroll\<close> and \<open>touchstart\<close> listeners. The steps are a function
  \<open>mascot_step\<close>; the states reachable from the load are an inductive predicate.
\<close>

record mascot =
  minimized :: bool
  timer :: bool                 \<comment> \<open>a minimize timeout is pending\<close>
  autoMinimizedOnce :: bool

datatype interaction = IPointerDown | IKeyDown | IScroll | ITouchStart

datatype mevent = TimerFires | Click string | Interaction interaction

text \<open>\<open>String.prototype.toLowerCase\<close> on the ASCII tag names of the DOM.\<close>

definition lower_char :: "char \<Rightarrow> char" where
  "lower_char c =
    (if 65 \<le> (of_char c :: nat) \<and> (of_char c :: nat) \<le> 90 then char_of (of_char c + (32::nat)) else c)"

definition lowercase :: "string \<Rightarrow> string" where
  "lowercase t = map lower_char t"

definition interactive_tag :: "string \<Rightarrow> bool" where
  "interactive_tag t = (lowercase t \<in> set [''a'', ''button'', ''input'', ''textarea''])"

text \<open>\<open>startTimer\<close>: the pending timeout is cleared and a new one set.\<close>

definition startTimer :: "mascot \<Rightarrow> mascot" where
  "startTimer s = s\<lparr>timer := True\<rparr>"

definition open_mascot :: "mascot \<Rightarrow> mascot" where
  "open_mascot s =
    (let s1 = s\<lparr>minimized := False\<rparr> in if \<not> autoMinimizedOnce s1 then startTimer s1 else s1)"

definition toggle :: "mascot \<Rightarrow> mascot" where
  "toggle s =
    (let s1 = s\<lparr>minimized := \<not> minimized s\<rparr>
     in if \<not> minimized s1 then (if \<not> autoMinimizedOnce s1 then startTimer s1 else s1)
        else s1\<lparr>timer := False\<rparr>)"

text \<open>The timeout's callback; with no timeout pending nothing fires.\<close>

definition timer_fires :: "mascot \<Rightarrow> mascot" where
  "timer_fires s =
    (if timer s then s\<lparr>minimized := True, autoMinimizedOnce := True, timer := False\<rparr> else s)"

definition on_click :: "string \<Rightarrow> mascot \<Rightarrow> mascot" where
  "on_click tag s = (if interactive_tag tag then s else toggle s)"

definition on_interaction :: "mascot \<Rightarrow> mascot" where
  "on_interaction s = (if \<not> autoMinimizedOnce s \<and> minimized s then open_mascot s else s)"

fun mascot_step :: "mevent \<Rightarrow> mascot \<Rightarrow> mascot" where
  "mascot_step TimerFires s = timer_fires s"
| "mascot_step (Click tag) s = on_click tag s"
| "mascot_step (Interaction k) s = on_interaction s"

fun mascot_run :: "mevent list \<Rightarrow> mascot \<Rightarrow> mascot" where
  "mascot_run [] s = s"
| "mascot_run (e # es) s = mascot_run es (mascot_step e s)"

text \<open>
  The \<open>DOMContentLoaded\<close> handler: nothing when the mascot or its speech bubble is
  missing; otherwise the timer started for the element as the markup left it
  (\<open>m0\<close>: whether it already has the class \<open>minimized\<close>).
\<close>

definition mascot_load :: "bool \<Rightarrow> bool \<Rightarrow> bool \<Rightarrow> mascot option" where
  "mascot_load has_mascot has_speech m0 =
    (if \<not> has_mascot \<or> \<not> has_speech then None
     else Some (startTimer \<lparr>minimized = m0, timer = False, autoMinimizedOnce = False\<rparr>))"

definition mascot_init :: "bool \<Rightarrow> mascot" where
  "mascot_init m0 = startTimer \<lparr>minimized = m0, timer = False, autoMinimizedOnce = False\<rparr>"

text \<open>
  A click of the user on the mascot: the window's \<open>pointerdown\<close> listener runs
  before the \<open>click\<close> listener of the mascot.
\<close>

definition user_click :: "string \<Rightarrow> mevent list" where
  "user_click tag = [Interaction IPointerDown, Click tag]"

inductive mascot_reach :: "bool \<Rightarrow> mascot \<Rightarrow> bool" for m0 where
  start: "mascot_reach m0 (mascot_init m0)"
| step: "mascot_reach m0 s \<Longrightarrow> mascot_reach m0 (mascot_step e s)"

text \<open>
  The invariant: a pending timeout means the auto-minimize has not happened, and before
  it has happened an open mascot always has a timeout pending.
\<close>

definition mascot_inv :: "mascot \<Rightarrow> bool" where
  "mascot_inv s \<longleftrightarrow>
     (timer s \<longrightarrow> \<not> autoMinimizedOnce s) \<and>
     (\<not> minimized s \<and> \<not> autoMinimizedOnce s \<longrightarrow> timer s)"

lemmas mascot_handlers = startTimer_def open_mascot_def toggle_def timer_fires_def
  on_click_def on_interaction_def
declare mascot_handlers [handler_simps]

subsection \<open>Step lemmas\<close>

lemma mascot_load_Some: "mascot_load True True m0 = Some (mascot_init m0)"
  by (simp add: mascot_load_def mascot_init_def)

lemma mascot_run_append: "mascot_run (es @ fs) s = mascot_run fs (mascot_run es s)"
  by (induction es arbitrary: s) simp_all

lemma mascot_inv_step: "mascot_inv s \<Longrightarrow> mascot_inv (mascot_step e s)"
  by (cases e) (auto simp: mascot_inv_def handler_simps Let_def)

lemma mascot_reach_inv: "mascot_reach m0 s \<Longrightarrow> mascot_inv s"
proof (induction rule: mascot_reach.induct)
  case start
  show ?case by (simp add: mascot_inv_def mascot_init_def startTimer_def)
next
  case (step s e)
  from step.IH show ?case by (rule mascot_inv_step)
qed

lemma mascot_reach_run: "mascot_reach m0 s \<Longrightarrow> mascot_reach m0 (mascot_run es s)"
  by (induction es arbitrary: s) (simp_all add: mascot_reach.step)

lemma auto_stays: "autoMinimizedOnce s \<Longrightarrow> autoMinimizedOnce (mascot_step e s)"
  by (cases e) (simp_all add: handler_simps Let_def)

lemma auto_stays_run: "autoMinimizedOnce s \<Longrightarrow> autoMinimizedOnce (mascot_run es s)"
  by (induction es arbitrary: s) (simp_all add: auto_stays)

lemma interactive_img: "\<not> interactive_tag ''IMG''"
  by (simp add: interactive_tag_def lowercase_def lower_char_def)

subsection \<open>Properties of the mascot\<close>

text \<open>
  C16 (timer invariant). In every state reachable from the load, whatever the markup's
  initial class, a pending minimize timeout means the auto-minimize has not happened
  yet, and until it has happened an open mascot always has a timeout pending: the
  auto-minimize stays scheduled as long as the mascot is open.
\<close>

theorem mascot_timer_invariant:
  assumes "mascot_reach m0 s"
  shows "(timer s \<longrightarrow> \<not> autoMinimizedOnce s) \<and>
         (\<not> minimized s \<and> \<not> autoMinimizedOnce s \<longrightarrow> timer s)"
  using mascot_reach_inv [OF assms] by (simp add: mascot_inv_def)

theorem mascot_timer_invariant_witness:
  "timer (mascot_run (user_click ''IMG'' @ [Interaction IScroll]) (mascot_init False))"
proof -
  let ?s = "mascot_run (user_click ''IMG'' @ [Interaction IScroll]) (mascot_init False)"
  have r: "mascot_reach False ?s"
    by (rule mascot_reach_run) (rule mascot_reach.start)
  have "\<not> minimized ?s \<and> \<not> autoMinimizedOnce ?s"
    using interactive_img
    by (simp add: user_click_def mascot_init_def handler_simps Let_def)
  with mascot_timer_invariant [OF r] show ?thesis by blast
qed

text \<open>
  C17 (the auto-minimize happens once). Once the timeout has minimized the mascot, no
  timeout is ever pending again, whatever happens next: the flag stays set and no later
  event restarts the timer.
\<close>

theorem auto_minimize_once:
  assumes "mascot_reach m0 s" and "autoMinimizedOnce s"
  shows "autoMinimizedOnce (mascot_run es s) \<and> \<not> timer (mascot_run es s)"
proof -
  have a: "autoMinimizedOnce (mascot_run es s)"
    using assms(2) by (rule auto_stays_run)
  have "mascot_inv (mascot_run es s)"
    using assms(1) by (intro mascot_reach_inv mascot_reach_run)
  with a show ?thesis by (simp add: mascot_inv_def)
qed

theorem auto_minimize_once_witness:
  "\<not> timer (mascot_run (user_click ''IMG'' @ user_click ''IMG'') (mascot_run [TimerFires] (mascot_init False)))"
proof -
  let ?s = "mascot_run [TimerFires] (mascot_init False)"
  have "mascot_reach False ?s"
    by (rule mascot_reach_run) (rule mascot_reach.start)
  moreover have "autoMinimizedOnce ?s"
    by (simp add: mascot_init_def handler_simps)
  ultimately show ?thesis
    using auto_minimize_once by blast
qed

text \<open>
  C18 (a click on the minimized mascot, before and after the auto-minimize). Before
  the timeout has fired, a click on the mascot the user minimized leaves it minimized:
  the window's \<open>pointerdown\<close> listener reopens it, and the click that follows toggles
  it straight back, cancelling the timer it had just started. Once the timeout has
  minimized the mascot, a click reopens it and a second click minimizes it again,
  without any timer, and clicks on links, buttons and form fields never toggle it.
\<close>

theorem click_on_minimized:
  assumes "minimized s" and "\<not> interactive_tag tag" and "autoMinimizedOnce s \<longrightarrow> \<not> timer s"
  shows "mascot_run (user_click tag) s =
           (if autoMinimizedOnce s then s\<lparr>minimized := False\<rparr> else s\<lparr>timer := False\<rparr>) \<and>
         (autoMinimizedOnce s \<longrightarrow>
            mascot_run (user_click tag @ user_click tag) s = s \<and>
            (mascot_step (Click t) s = s \<longleftrightarrow> interactive_tag t))"
proof (cases "autoMinimizedOnce s")
  case True
  with assms show ?thesis
    by (cases s) (auto simp: user_click_def handler_simps Let_def)
next
  case False
  with assms show ?thesis
    by (cases s) (simp add: user_click_def handler_simps Let_def)
qed

theorem click_on_minimized_witness:
  "minimized (mascot_run (user_click ''IMG'' @ user_click ''IMG'') (mascot_init False)) \<and>
   \<not> minimized (mascot_run (user_click ''IMG'') (mascot_run [TimerFires] (mascot_init False)))"
proof
  let ?s = "mascot_run (user_click ''IMG'') (mascot_init False)"
  have m: "minimized ?s" and a: "\<not> autoMinimizedOnce ?s"
    using interactive_img by (simp_all add: user_click_def mascot_init_def handler_simps Let_def)
  then have "autoMinimizedOnce ?s \<longrightarrow> \<not> timer ?s" by simp
  from click_on_minimized [OF m interactive_img this] m a
  show "minimized (mascot_run (user_click ''IMG'' @ user_click ''IMG'') (mascot_init False))"
    by (simp add: mascot_run_append)
next
  let ?s = "mascot_run [TimerFires] (mascot_init False)"
  have m: "minimized ?s" and a: "autoMinimizedOnce ?s" and "\<not> timer ?s"
    by (simp_all add: mascot_init_def handler_simps)
  then have "autoMinimizedOnce ?s \<longrightarrow> \<not> timer ?s" by simp
  from click_on_minimized [OF m interactive_img this] a
  show "\<not> minimized (mascot_run (user_click ''IMG'') ?s)" by simp
qed

end
