(* ===== verification/Carousel.thy ===== *)
theory Carousel
  imports Prelude
begin

text \<open>
  The disaster carousel of \<open>src/main.js\<close> (lines 114-162): one slide per entry of
  \<open>disasters\<close> in a horizontally scrolling track, moved by the prev/next buttons, by
  dragging the track with a pointer (released onto the nearest slide) and re-aligned on
  window resize. The state is \<open>slideIndex\<close>, the track's \<open>scrollLeft\<close> and
  \<open>clientWidth\<close>, and the drag variables \<open>isDown\<close>, \<open>startX\<close>, \<open>startScroll\<close>.
  \<open>slideIndex\<close> is a JavaScript number that can become \<open>NaN\<close>
  (\<open>Math.round(0 / 0)\<close> when the track has no width): it is an \<open>int option\<close>,
  \<open>None\<close> standing for \<open>NaN\<close>.

  Two browser behaviours are part of the model, not of the code: assigning
  \<open>scrollLeft\<close> or calling \<open>scrollTo\<close> clamps the position to
  \<open>[0, scrollWidth - clientWidth]\<close>, where the track, one slide per track width, has
  \<open>scrollWidth = n * clientWidth\<close>; and \<open>scrollTo\<close> with a non-finite \<open>left\<close>
  scrolls to 0. The smooth scrolling animation is represented by its end position.
\<close>

text \<open>An entry of \<open>disasters\<close> (its long description text is not modelled).\<close>

record disaster =
  d_name :: string
  d_local :: string

definition disasters :: "disaster list" where
  "disasters =
    [\<lparr>d_name = ''Wildfires'', d_local = ''./images/wildfire.jpg''\<rparr>,
     \<lparr>d_name = ''Tsunamis'', d_local = ''./images/tsunami.jpg''\<rparr>,
     \<lparr>d_name = ''Floods'', d_local = ''./images/flood.jpg''\<rparr>,
     \<lparr>d_name = ''Sandstorms'', d_local = ''./images/sandstorm.jpg''\<rparr>]"

record carousel =
  slideIndex :: "int option"    \<comment> \<open>\<open>None\<close>: the number is \<open>NaN\<close>\<close>
  scrollLeft :: real
  clientWidth :: real
  isDown :: bool
  startX :: real
  startScroll :: real

datatype cevent = CPrev | CNext | CPointerDown real | CPointerMove real | CPointerUp | CResize real

definition n_slides :: int where
  "n_slides = int (length disasters)"

text \<open>The browser's clamping of a scroll position of the track.\<close>

definition max_scroll :: "carousel \<Rightarrow> real" where
  "max_scroll s = of_int (n_slides - 1) * clientWidth s"

definition set_scroll :: "real \<Rightarrow> carousel \<Rightarrow> carousel" where
  "set_scroll v s = s\<lparr>scrollLeft := max 0 (min (max_scroll s) v)\<rparr>"

text \<open>
  \<open>showSlide(i)\<close>: \<open>slideIndex = (i + n) % n\<close>, then a scroll to
  \<open>slideIndex * clientWidth\<close>.
\<close>

definition showSlide :: "int option \<Rightarrow> carousel \<Rightarrow> carousel" where
  "showSlide i s =
    (let idx = map_option (\<lambda>k. (k + n_slides) smod n_slides) i;
         offset = (case idx of None \<Rightarrow> 0 | Some k \<Rightarrow> of_int k * clientWidth s)
     in set_scroll offset (s\<lparr>slideIndex := idx\<rparr>))"

definition on_prev :: "carousel \<Rightarrow> carousel" where
  "on_prev s = showSlide (map_option (\<lambda>k. k - 1) (slideIndex s)) s"

definition on_next :: "carousel \<Rightarrow> carousel" where
  "on_next s = showSlide (map_option (\<lambda>k. k + 1) (slideIndex s)) s"

definition track_pointerdown :: "real \<Rightarrow> carousel \<Rightarrow> carousel" where
  "track_pointerdown x s = s\<lparr>isDown := True, startX := x, startScroll := scrollLeft s\<rparr>"

definition track_pointermove :: "real \<Rightarrow> carousel \<Rightarrow> carousel" where
  "track_pointermove x s =
    (if \<not> isDown s then s else (let dx = x - startX s in set_scroll (startScroll s - dx) s))"

text \<open>\<open>Math.round(track.scrollLeft / w)\<close> is \<open>NaN\<close> when \<open>w = 0\<close>.\<close>

definition track_pointerup :: "carousel \<Rightarrow> carousel" where
  "track_pointerup s =
    (let s1 = s\<lparr>isDown := False\<rparr>; w = clientWidth s1
     in showSlide (map_option js_round (js_div (scrollLeft s1) w)) s1)"

text \<open>The window's resize listener, after the layout gave the track its new width.\<close>

definition on_resize :: "real \<Rightarrow> carousel \<Rightarrow> carousel" where
  "on_resize w s = (let s1 = s\<lparr>clientWidth := w\<rparr> in showSlide (slideIndex s1) s1)"

fun carousel_step :: "cevent \<Rightarrow> carousel \<Rightarrow> carousel" where
  "carousel_step CPrev s = on_prev s"
| "carousel_step CNext s = on_next s"
| "carousel_step (CPointerDown x) s = track_pointerdown x s"
| "carousel_step (CPointerMove x) s = track_pointermove x s"
| "carousel_step CPointerUp s = track_pointerup s"
| "carousel_step (CResize w) s = on_resize w s"

fun carousel_run :: "cevent list \<Rightarrow> carousel \<Rightarrow> carousel" where
  "carousel_run [] s = s"
| "carousel_run (e # es) s = carousel_run es (carousel_step e s)"

text \<open>
  The set-up: no carousel without the track; otherwise \<open>slideIndex = 0\<close> and the track
  at its start.
\<close>

definition carousel_init :: "bool \<Rightarrow> real \<Rightarrow> carousel option" where
  "carousel_init has_track w =
    (if \<not> has_track then None
     else Some \<lparr>slideIndex = Some 0, scrollLeft = 0, clientWidth = w, isDown = False,
                startX = 0, startScroll = 0\<rparr>)"

text \<open>
  The carousel is aligned when the index is a slide number and, unless a drag is in
  progress, the track is scrolled exactly to that slide.
\<close>

definition aligned :: "carousel \<Rightarrow> bool" where
  "aligned s \<longleftrightarrow>
     (\<exists>k. slideIndex s = Some k \<and> 0 \<le> k \<and> k < n_slides \<and>
          (\<not> isDown s \<longrightarrow> scrollLeft s = of_int k * clientWidth s))"

text \<open>Width-preserving events: every event but a resize to a width that is not positive.\<close>

fun positive_width :: "cevent \<Rightarrow> bool" where
  "positive_width (CResize w) = (0 < w)"
| "positive_width e = True"

text \<open>The prev/next buttons and window resizes, the events that do not read the scroll position.\<close>

fun button_or_resize :: "cevent \<Rightarrow> bool" where
  "button_or_resize CPrev = True"
| "button_or_resize CNext = True"
| "button_or_resize (CResize w) = True"
| "button_or_resize e = False"

text \<open>
  The browser's layout of the track when its section is shown again after being hidden
  with \<open>display: none\<close>: the width comes back, no listener runs.
\<close>

definition layout_width :: "real \<Rightarrow> carousel \<Rightarrow> carousel" where
  "layout_width w s = s\<lparr>clientWidth := w\<rparr>"

text \<open>The carousel at rest on slide \<open>k\<close>.\<close>

definition at_slide :: "int \<Rightarrow> carousel \<Rightarrow> carousel" where
  "at_slide k s = s\<lparr>slideIndex := Some k, scrollLeft := of_int k * clientWidth s\<rparr>"

lemmas carousel_handlers = showSlide_def on_prev_def on_next_def track_pointerdown_def
  track_pointermove_def track_pointerup_def on_resize_def set_scroll_def max_scroll_def
declare carousel_handlers [handler_simps]

subsection \<open>Lemmas on \<open>showSlide\<close>\<close>

lemma n_slides_4 [simp]: "n_slides = 4"
  by (simp add: n_slides_def disasters_def)

lemma wrap_index: "0 \<le> k + 4 \<Longrightarrow> (k + 4) smod 4 = k mod (4::int)"
  by (simp add: smod_nonneg_eq_mod)

lemma slide_offset_bounds:
  "0 \<le> w \<Longrightarrow> 0 \<le> m \<Longrightarrow> m \<le> 3 \<Longrightarrow> 0 \<le> of_int m * w \<and> of_int m * w \<le> 3 * (w::real)"
  by (simp add: mult_right_mono)

lemma showSlide_Some:
  assumes "0 \<le> k + 4" and "0 \<le> clientWidth s"
  shows "showSlide (Some k) s = s\<lparr>slideIndex := Some (k mod 4), scrollLeft := of_int (k mod 4) * clientWidth s\<rparr>"
proof -
  have "0 \<le> of_int (k mod 4) * clientWidth s \<and> of_int (k mod 4) * clientWidth s \<le> 3 * clientWidth s"
    using slide_offset_bounds [OF assms(2), of "k mod 4"] by simp
  then show ?thesis
    using assms(1) by (simp add: showSlide_def set_scroll_def max_scroll_def wrap_index Let_def)
qed

lemma showSlide_None: "showSlide None s = s\<lparr>slideIndex := None, scrollLeft := 0\<rparr>"
  by (simp add: showSlide_def set_scroll_def Let_def)

lemma set_scroll_nonneg: "0 \<le> scrollLeft (set_scroll v s)"
  by (simp add: set_scroll_def)

lemma pointerup_index:
  assumes "0 < clientWidth s" and "0 \<le> scrollLeft s"
  shows "track_pointerup s =
           s\<lparr>isDown := False,
             slideIndex := Some (js_round (scrollLeft s / clientWidth s) mod 4),
             scrollLeft := of_int (js_round (scrollLeft s / clientWidth s) mod 4) * clientWidth s\<rparr>"
proof -
  have "0 \<le> js_round (scrollLeft s / clientWidth s)"
    using assms by (simp add: js_round_nonneg)
  then show ?thesis
    using assms showSlide_Some [of "js_round (scrollLeft s / clientWidth s)" "s\<lparr>isDown := False\<rparr>"]
    by (simp add: track_pointerup_def Let_def)
qed

text \<open>The invariant kept by every event that leaves the track a positive width.\<close>

definition carousel_ok :: "carousel \<Rightarrow> bool" where
  "carousel_ok s \<longleftrightarrow> aligned s \<and> 0 < clientWidth s \<and> 0 \<le> scrollLeft s"

lemma carousel_ok_step:
  assumes "carousel_ok s" and "positive_width e"
  shows "carousel_ok (carousel_step e s)"
proof -
  obtain k where k: "slideIndex s = Some k" "0 \<le> k" "k < 4"
    and sc: "\<not> isDown s \<longrightarrow> scrollLeft s = of_int k * clientWidth s"
    and w: "0 < clientWidth s" and nn: "0 \<le> scrollLeft s"
    using assms(1) by (auto simp: carousel_ok_def aligned_def)
  show ?thesis
  proof (cases e)
    case CPrev
    then show ?thesis using k w
      by (simp add: on_prev_def showSlide_Some carousel_ok_def aligned_def)
  next
    case CNext
    then show ?thesis using k w
      by (simp add: on_next_def showSlide_Some carousel_ok_def aligned_def)
  next
    case (CPointerDown x)
    then show ?thesis using k w nn
      by (simp add: track_pointerdown_def carousel_ok_def aligned_def)
  next
    case (CPointerMove x)
    then show ?thesis using k w nn sc
      by (auto simp: track_pointermove_def set_scroll_nonneg carousel_ok_def aligned_def Let_def)
        (simp_all add: set_scroll_def)
  next
    case CPointerUp
    then show ?thesis using w nn
      by (simp add: pointerup_index carousel_ok_def aligned_def)
  next
    case (CResize w')
    with assms(2) have "0 < w'" by simp
    then show ?thesis using CResize k
      by (simp add: on_resize_def showSlide_Some carousel_ok_def aligned_def Let_def)
  qed
qed

lemma carousel_run_append: "carousel_run (es @ fs) s = carousel_run fs (carousel_run es s)"
  by (induction es arbitrary: s) simp_all

lemma carousel_ok_run:
  "carousel_ok s \<Longrightarrow> list_all positive_width es \<Longrightarrow> carousel_ok (carousel_run es s)"
  by (induction es arbitrary: s) (simp_all add: carousel_ok_step)

lemma at_slide_at_slide [simp]: "at_slide k (at_slide j s) = at_slide k s"
  by (simp add: at_slide_def)

lemma at_slide_fields [simp]:
  "clientWidth (at_slide k s) = clientWidth s" "isDown (at_slide k s) = isDown s"
  "slideIndex (at_slide k s) = Some k"
  by (simp_all add: at_slide_def)

lemma at_rest: "aligned s \<Longrightarrow> \<not> isDown s \<Longrightarrow> \<exists>k. 0 \<le> k \<and> k < 4 \<and> s = at_slide k s"
  by (auto simp: aligned_def at_slide_def)

lemma on_next_at_slide:
  "0 \<le> k \<Longrightarrow> 0 \<le> clientWidth s \<Longrightarrow> on_next (at_slide k s) = at_slide ((k + 1) mod 4) s"
  by (simp add: on_next_def showSlide_Some at_slide_def)

lemma on_prev_at_slide:
  "0 \<le> k \<Longrightarrow> 0 \<le> clientWidth s \<Longrightarrow> on_prev (at_slide k s) = at_slide ((k - 1) mod 4) s"
  by (simp add: on_prev_def showSlide_Some at_slide_def)

subsection \<open>Properties of the carousel\<close>

text \<open>
  C19 (the carousel stays aligned). From the set-up on a track of positive width, after
  any sequence of button clicks, drags and resizes to positive widths, the index is a
  slide number in \<open>[0, 4)\<close> and, whenever no drag is in progress, the track is
  scrolled exactly to that slide.
\<close>

theorem carousel_aligned:
  assumes "carousel_init True w = Some s" and "0 < w" and "list_all positive_width es"
  shows "aligned (carousel_run es s)"
proof -
  have "carousel_ok s"
    using assms(1,2) by (auto simp: carousel_init_def carousel_ok_def aligned_def)
  then show ?thesis
    using carousel_ok_run [OF _ assms(3)] by (simp add: carousel_ok_def)
qed

theorem carousel_aligned_witness:
  "aligned (carousel_run [CNext, CPointerDown 300, CPointerMove 100, CPointerUp, CPrev]
     (the (carousel_init True 800)))"
proof -
  obtain s where s: "carousel_init True 800 = Some s"
    by (simp add: carousel_init_def)
  have "list_all positive_width [CNext, CPointerDown 300, CPointerMove 100, CPointerUp, CPrev]"
    by simp
  from carousel_aligned [OF s _ this] s show ?thesis by simp
qed

text \<open>
  C20 (wrap-around). On an aligned carousel at rest, next after the last slide shows the
  first and prev on the first shows the last; next and prev undo each other, and four
  clicks on next bring the carousel back to exactly the state it started from.
\<close>

theorem carousel_wraps:
  assumes "aligned s" and "\<not> isDown s" and "0 \<le> clientWidth s"
  shows "carousel_run [CNext, CPrev] s = s \<and> carousel_run [CPrev, CNext] s = s \<and>
         carousel_run (replicate 4 CNext) s = s \<and>
         (slideIndex s = Some 3 \<longrightarrow> slideIndex (on_next s) = Some 0) \<and>
         (slideIndex s = Some 0 \<longrightarrow> slideIndex (on_prev s) = Some 3)"
proof -
  obtain k where k: "0 \<le> k" "k < 4" and s: "s = at_slide k s"
    using at_rest [OF assms(1,2)] by blast
  have "k = 0 \<or> k = 1 \<or> k = 2 \<or> k = 3" using k by arith
  then have "carousel_run [CNext, CPrev] (at_slide k s) = at_slide k s \<and>
             carousel_run [CPrev, CNext] (at_slide k s) = at_slide k s \<and>
             carousel_run (replicate 4 CNext) (at_slide k s) = at_slide k s \<and>
             (k = 3 \<longrightarrow> slideIndex (on_next (at_slide k s)) = Some 0) \<and>
             (k = 0 \<longrightarrow> slideIndex (on_prev (at_slide k s)) = Some 3)"
    using assms(3)
    by (elim disjE) (simp_all add: on_next_at_slide on_prev_at_slide numeral_eq_Suc)
  then show ?thesis using s by (metis at_slide_fields(3) option.inject)
qed

theorem carousel_wraps_witness:
  "slideIndex (on_next (carousel_run [CPrev] (the (carousel_init True 800)))) = Some 0"
proof -
  let ?s = "carousel_run [CPrev] (the (carousel_init True 800))"
  have s: "?s = \<lparr>slideIndex = Some 3, scrollLeft = 2400, clientWidth = 800, isDown = False,
                 startX = 0, startScroll = 0\<rparr>"
    by (simp add: carousel_init_def on_prev_def showSlide_Some)
  have "aligned ?s" "\<not> isDown ?s" "0 \<le> clientWidth ?s"
    unfolding s by (simp_all add: aligned_def)
  from carousel_wraps [OF this] show ?thesis unfolding s by simp
qed

text \<open>
  C21 (releasing a drag snaps to the nearest slide). When the pointer is released over a
  track of positive width scrolled to \<open>x \<in> [0, 3 w]\<close>, the carousel shows slide
  \<open>k = Math.round(x / w)\<close>, a slide at most half a track width away from where the
  drag left it, and scrolls exactly to it.
\<close>

theorem pointerup_snaps:
  assumes "0 < clientWidth s" and "0 \<le> scrollLeft s" and "scrollLeft s \<le> max_scroll s"
  shows "slideIndex (track_pointerup s) = Some (js_round (scrollLeft s / clientWidth s)) \<and>
         scrollLeft (track_pointerup s) = of_int (js_round (scrollLeft s / clientWidth s)) * clientWidth s \<and>
         \<bar>of_int (js_round (scrollLeft s / clientWidth s)) * clientWidth s - scrollLeft s\<bar> \<le> clientWidth s / 2"
proof -
  let ?w = "clientWidth s" and ?k = "js_round (scrollLeft s / clientWidth s)"
  have "scrollLeft s / ?w \<le> real_of_int 3"
    using assms(1,3) by (simp add: max_scroll_def divide_le_eq)
  then have "?k \<le> 3" by (rule js_round_le)
  moreover have "0 \<le> ?k" using assms(1,2) by (simp add: js_round_nonneg)
  ultimately have m: "?k mod 4 = ?k" by simp
  have "\<bar>of_int ?k - scrollLeft s / ?w\<bar> \<le> 1 / 2" by (rule js_round_nearest)
  then have "\<bar>of_int ?k - scrollLeft s / ?w\<bar> * ?w \<le> ?w / 2"
    using assms(1) by (simp add: divide_le_eq)
  moreover have "(of_int ?k - scrollLeft s / ?w) * ?w = of_int ?k * ?w - scrollLeft s"
    using assms(1) by (simp add: field_simps)
  then have "\<bar>of_int ?k - scrollLeft s / ?w\<bar> * ?w = \<bar>of_int ?k * ?w - scrollLeft s\<bar>"
    using assms(1) by (metis abs_mult abs_of_pos)
  ultimately show ?thesis
    using assms(1,2) m by (simp add: pointerup_index)
qed

theorem pointerup_snaps_witness:
  "slideIndex (track_pointerup \<lparr>slideIndex = Some 0, scrollLeft = 1300, clientWidth = 800, isDown = True,
                                startX = 0, startScroll = 0\<rparr>) = Some 2"
proof -
  let ?s = "\<lparr>slideIndex = Some 0, scrollLeft = 1300, clientWidth = 800, isDown = True,
             startX = 0, startScroll = (0::real)\<rparr>"
  have "0 < clientWidth ?s" "0 \<le> scrollLeft ?s" "scrollLeft ?s \<le> max_scroll ?s"
    by (simp_all add: max_scroll_def)
  from pointerup_snaps [OF this] show ?thesis by (simp add: js_round_def)
qed

text \<open>
  C22 (a release on a track of width 0 breaks the index). When the track has no width,
  as when its section is hidden, releasing the pointer sets the index to \<open>NaN\<close>
  (\<open>Math.round(0 / 0)\<close>); from then on the prev/next buttons and window resizes keep
  it \<open>NaN\<close> and every click scrolls to the first slide.
\<close>

theorem zero_width_nan:
  assumes "clientWidth s = 0" and "list_all button_or_resize es"
  shows "slideIndex (carousel_run (CPointerUp # es) s) = None \<and>
         scrollLeft (carousel_run (CPointerUp # es) s) = 0"
proof -
  have "slideIndex (track_pointerup s) = None \<and> scrollLeft (track_pointerup s) = 0"
    using assms(1) by (simp add: track_pointerup_def showSlide_None Let_def)
  moreover have "slideIndex t = None \<Longrightarrow> scrollLeft t = 0 \<Longrightarrow> list_all button_or_resize es \<Longrightarrow>
                 slideIndex (carousel_run es t) = None \<and> scrollLeft (carousel_run es t) = 0" for t
  proof (induction es arbitrary: t)
    case (Cons e es)
    then show ?case
      by (cases e) (simp_all add: on_prev_def on_next_def on_resize_def showSlide_None Let_def)
  qed simp
  ultimately show ?thesis using assms(2) by simp
qed

theorem zero_width_nan_witness:
  "slideIndex (carousel_run [CPointerUp, CNext, CNext] ((the (carousel_init True 800))\<lparr>clientWidth := 0\<rparr>)) = None"
proof -
  have "clientWidth ((the (carousel_init True 800))\<lparr>clientWidth := 0\<rparr>) = 0"
       "list_all button_or_resize [CNext, CNext]"
    by simp_all
  from zero_width_nan [OF this] show ?thesis by blast
qed

text \<open>
  C23 (a resize while the carousel is hidden misaligns it). When the window is resized
  while the carousel's section is hidden (the track has width 0), the resize listener
  scrolls the track to position 0 but keeps the index; once the section is shown again
  the track shows the first slide while the index still names slide \<open>k > 0\<close>, and the
  next button jumps to slide \<open>k + 1\<close>.
\<close>

theorem hidden_resize_misaligns:
  assumes "aligned s" and "\<not> isDown s" and "slideIndex s = Some k" and "0 < k" and "k < 3" and "0 < w"
  shows "slideIndex (layout_width w (on_resize 0 s)) = Some k \<and>
         scrollLeft (layout_width w (on_resize 0 s)) = 0 \<and>
         \<not> aligned (layout_width w (on_resize 0 s)) \<and>
         slideIndex (on_next (layout_width w (on_resize 0 s))) = Some (k + 1)"
proof -
  have k: "0 \<le> k + 4" "0 \<le> k" "k < 4" using assms(4,5) by simp_all
  then have "on_resize 0 s = s\<lparr>clientWidth := 0, slideIndex := Some k, scrollLeft := 0\<rparr>"
    using assms(3) by (simp add: on_resize_def showSlide_Some Let_def)
  then show ?thesis
    using assms k by (simp add: layout_width_def aligned_def on_next_def showSlide_Some)
qed

theorem hidden_resize_misaligns_witness:
  "slideIndex (on_next (layout_width 800 (on_resize 0 (carousel_run [CNext] (the (carousel_init True 800)))))) = Some 2"
proof -
  let ?s = "carousel_run [CNext] (the (carousel_init True 800))"
  have s: "?s = \<lparr>slideIndex = Some 1, scrollLeft = 800, clientWidth = 800, isDown = False,
                 startX = 0, startScroll = 0\<rparr>"
    by (simp add: carousel_init_def on_next_def showSlide_Some)
  have "aligned ?s" "\<not> isDown ?s" "slideIndex ?s = Some 1" "0 < (1::int)" "(1::int) < 3" "0 < (800::real)"
    unfolding s by (simp_all add: aligned_def)
  from hidden_resize_misaligns [OF this] show ?thesis by simp
qed

text \<open>
  C24 (slide index and scroll offset round trip). On a track of positive width, showing
  slide \<open>k\<close> of the four scrolls the track to \<open>k * w\<close>, and releasing the pointer
  there reads the index \<open>k\<close> back (\<open>Math.round(k * w / w) = k\<close>) and leaves the
  track where it was: encoding an index as a scroll offset and decoding it is the
  identity.
\<close>

theorem slide_scroll_roundtrip:
  assumes "0 < clientWidth s" and "0 \<le> k" and "k < n_slides"
  shows "scrollLeft (showSlide (Some k) s) = of_int k * clientWidth s \<and>
         slideIndex (track_pointerup (showSlide (Some k) s)) = Some k \<and>
         scrollLeft (track_pointerup (showSlide (Some k) s)) = scrollLeft (showSlide (Some k) s)"
proof -
  have km: "k mod 4 = k" using assms(2,3) by simp
  have sh: "showSlide (Some k) s = s\<lparr>slideIndex := Some k, scrollLeft := of_int k * clientWidth s\<rparr>"
    using showSlide_Some [of k s] assms km by simp
  have "js_round (of_int k * clientWidth s / clientWidth s) = k" using assms(1) by simp
  then show ?thesis
    using pointerup_index [of "s\<lparr>slideIndex := Some k, scrollLeft := of_int k * clientWidth s\<rparr>"] assms km
    unfolding sh by simp
qed

theorem slide_scroll_roundtrip_witness:
  "slideIndex (track_pointerup (showSlide (Some 2) \<lparr>slideIndex = Some 0, scrollLeft = 0, clientWidth = 320,
     isDown = False, startX = 0, startScroll = 0\<rparr>)) = Some 2"
proof -
  let ?s = "\<lparr>slideIndex = Some 0, scrollLeft = 0, clientWidth = 320, isDown = False, startX = 0,
             startScroll = 0\<rparr>"
  have "0 < clientWidth ?s" "0 \<le> (2::int)" "2 < n_slides" by simp_all
  from slide_scroll_roundtrip [OF this] show ?thesis by simp
qed

end
