(* ===== verification/Routing.thy ===== *)
theory Routing
  imports Prelude
begin

text \<open>
  Hash-based routing of \<open>src/main.js\<close> (lines 1-9 and 50-51): the page has tabs
  (\<open>.tab\<close> links) and sections (\<open>.section\<close> elements); \<open>activateFromHash\<close> marks
  active the tabs whose \<open>href\<close> equals the current hash (\<open>#home\<close> when there is
  none) and shows the sections whose \<open>'#' + id\<close> equals it, hiding the others. It
  runs once at load and on every \<open>hashchange\<close>. A tab is its \<open>href\<close> attribute
  (\<open>None\<close> when absent: \<open>getAttribute\<close> returns \<open>null\<close>); a section is its id;
  the result is the list of \<open>active\<close> flags of the tabs and the list of
  \<open>style.display\<close> values of the sections.
\<close>

definition current_hash :: "string \<Rightarrow> string" where
  "current_hash h = (if h = [] then ''#home'' else h)"

definition activateFromHash :: "string \<Rightarrow> string option list \<Rightarrow> string list \<Rightarrow> bool list \<times> string list" where
  "activateFromHash location_hash tabs sections =
    (let hash = current_hash location_hash
     in (map (\<lambda>href. href = Some hash) tabs,
         map (\<lambda>sid. if CHR ''#'' # sid = hash then [] else ''none'') sections))"

text \<open>The sections a display list shows (\<open>display = ''''\<close>).\<close>

definition shown :: "string list \<Rightarrow> string list \<Rightarrow> string list" where
  "shown sections displays = map fst (filter (\<lambda>(sid, d). d = []) (zip sections displays))"

subsection \<open>Lemmas\<close>

lemma shown_activate:
  "shown sections (snd (activateFromHash h tabs sections)) =
   filter (\<lambda>sid. CHR ''#'' # sid = current_hash h) sections"
  by (induction sections) (simp_all add: shown_def activateFromHash_def Let_def)

lemma length_activate [simp]:
  "length (fst (activateFromHash h tabs sections)) = length tabs"
  "length (snd (activateFromHash h tabs sections)) = length sections"
  by (simp_all add: activateFromHash_def Let_def)

subsection \<open>Properties of the routing\<close>

text \<open>
  C25 (exactly one section is shown for a known hash). With distinct section ids,
  \<open>activateFromHash\<close> shows exactly the section the hash names, when the hash names
  one, and shows no section at all when it does not: an unknown fragment leaves the page
  blank. Without a fragment the hash is \<open>#home\<close>.
\<close>

theorem one_section_shown:
  assumes "distinct sections"
  shows "shown sections (snd (activateFromHash h tabs sections)) =
           (if current_hash h \<in> (\<lambda>sid. CHR ''#'' # sid) ` set sections
            then [tl (current_hash h)] else []) \<and>
         current_hash [] = ''#home''"
proof -
  have "filter (\<lambda>sid. CHR ''#'' # sid = current_hash h) sections =
          (if current_hash h \<in> (\<lambda>sid. CHR ''#'' # sid) ` set sections
           then [tl (current_hash h)] else [])"
    using assms by (induction sections) (auto simp: filter_empty_conv)
  then show ?thesis by (simp add: shown_activate current_hash_def)
qed

theorem one_section_shown_witness:
  "shown [''home'', ''education'', ''gallery'']
     (snd (activateFromHash ''#gallery'' [] [''home'', ''education'', ''gallery''])) = [''gallery''] \<and>
   shown [''home'', ''education'', ''gallery'']
     (snd (activateFromHash ''#nowhere'' [] [''home'', ''education'', ''gallery''])) = []"
proof -
  have d: "distinct [''home'', ''education'', ''gallery'']" by simp
  show ?thesis
    using one_section_shown [OF d, of "''#gallery''" "[]"] one_section_shown [OF d, of "''#nowhere''" "[]"]
    by (simp add: current_hash_def)
qed

text \<open>
  C26 (tabs and sections agree). When each tab links to a section by \<open>'#' + id\<close>,
  the \<open>i\<close>-th tab is active exactly when the \<open>i\<close>-th section is shown, for every
  location hash.
\<close>

theorem tabs_match_sections:
  assumes "tabs = map (\<lambda>sid. Some (CHR ''#'' # sid)) sections" and "i < length sections"
  shows "fst (activateFromHash h tabs sections) ! i \<longleftrightarrow> snd (activateFromHash h tabs sections) ! i = []"
  using assms by (simp add: activateFromHash_def Let_def)

theorem tabs_match_sections_witness:
  "fst (activateFromHash [] [Some ''#home'', Some ''#gallery''] [''home'', ''gallery'']) ! 0 \<and>
   snd (activateFromHash [] [Some ''#home'', Some ''#gallery''] [''home'', ''gallery'']) ! 0 = []"
proof -
  have "[Some ''#home'', Some ''#gallery''] = map (\<lambda>sid. Some (CHR ''#'' # sid)) [''home'', ''gallery'']"
       "0 < length [''home'', ''gallery'']"
    by simp_all
  from tabs_match_sections [OF this, of "[]"] show ?thesis
    by (simp add: activateFromHash_def current_hash_def)
qed

end
