(* ===== verification/Layout.thy ===== *)
theory Layout
  imports Prelude
begin

text \<open>
  The navigation bar of \<open>src/layout.js\<close>: four items, each a name and the path
  \<open>createPageUrl(page)\<close>; an item is active, and highlighted in the desktop and in the
  mobile bar, when the router's \<open>location.pathname\<close> equals its path.
  \<open>createPageUrl\<close> comes from \<open>@/utils\<close>, which is not part of the repository: it is
  a parameter of the model.
\<close>

record nav_item =
  nav_name :: string
  nav_path :: string

definition navPages :: "string list" where
  "navPages = [''Home'', ''Education'', ''DisasterPrediction'', ''Gallery'']"

definition navItems :: "(string \<Rightarrow> string) \<Rightarrow> nav_item list" where
  "navItems createPageUrl =
    [\<lparr>nav_name = ''Home'', nav_path = createPageUrl ''Home''\<rparr>,
     \<lparr>nav_name = ''Education'', nav_path = createPageUrl ''Education''\<rparr>,
     \<lparr>nav_name = ''Disaster Prediction'', nav_path = createPageUrl ''DisasterPrediction''\<rparr>,
     \<lparr>nav_name = ''Gallery'', nav_path = createPageUrl ''Gallery''\<rparr>]"

definition isActive :: "string \<Rightarrow> nav_item \<Rightarrow> bool" where
  "isActive pathname item = (pathname = nav_path item)"

text \<open>The names of the highlighted items of the desktop bar and of the mobile bar.\<close>

definition desktop_active :: "(string \<Rightarrow> string) \<Rightarrow> string \<Rightarrow> string list" where
  "desktop_active createPageUrl pathname =
    map nav_name (filter (isActive pathname) (navItems createPageUrl))"

definition mobile_active :: "(string \<Rightarrow> string) \<Rightarrow> string \<Rightarrow> string list" where
  "mobile_active createPageUrl pathname =
    [nav_name item. item \<leftarrow> navItems createPageUrl, isActive pathname item]"

subsection \<open>Properties of the navigation bar\<close>

lemma comprehension_filter:
  "concat (map (\<lambda>x. if P x then [f x] else []) xs) = map f (filter P xs)"
  by (induction xs) simp_all

lemma nav_paths: "map nav_path (navItems cpu) = map cpu navPages"
  by (simp add: navItems_def navPages_def)

text \<open>
  C27 (one highlighted item). When \<open>createPageUrl\<close> gives the four pages distinct
  paths, the desktop bar and the mobile bar highlight the same items: exactly one item
  when the current path is the path of a page of the bar, none otherwise.
\<close>

theorem one_nav_item_active:
  assumes "inj_on cpu (set navPages)"
  shows "desktop_active cpu p = mobile_active cpu p \<and>
         length (desktop_active cpu p) = (if p \<in> cpu ` set navPages then 1 else 0)"
proof -
  have d: "distinct (map nav_path (navItems cpu))"
    using assms by (simp add: nav_paths distinct_map navPages_def)
  have "length (filter (\<lambda>x. nav_path x = p) (navItems cpu)) =
        (if p \<in> nav_path ` set (navItems cpu) then 1 else 0)"
    using distinct_key_filter [OF d] by simp
  moreover have "nav_path ` set (navItems cpu) = cpu ` set navPages"
    using nav_paths [of cpu] by (metis list.set_map)
  moreover have "filter (isActive p) (navItems cpu) = filter (\<lambda>x. nav_path x = p) (navItems cpu)"
    by (rule filter_cong) (auto simp: isActive_def)
  ultimately show ?thesis
    by (simp add: desktop_active_def mobile_active_def comprehension_filter)
qed

theorem one_nav_item_active_witness:
  "desktop_active (\<lambda>page. CHR ''/'' # page) ''/Gallery'' = [''Gallery'']"
proof -
  have "inj_on (\<lambda>page. CHR ''/'' # page) (set navPages)" by (simp add: inj_on_def)
  from one_nav_item_active [OF this, of "''/Gallery''"] show ?thesis
    by (simp add: desktop_active_def navItems_def isActive_def)
qed

end
