(* ===== verification/Lightbox.thy ===== *)
theory Lightbox
  imports Prelude
begin

text \<open>
  The gallery of \<open>src/main.js\<close> (lines 53-112): one thumbnail button per entry of
  \<open>galleryItems\<close>, each with its own swipe detector (\<open>isDraggingThumb\<close>,
  \<open>startX\<close> in the closure of its listeners), and a lightbox that a click on a
  thumbnail fills with the item and shows, unless the pointer moved more than 8 pixels
  since it went down on that thumbnail. The close button and a click on the lightbox's
  backdrop hide it again. The lightbox image falls back to a transparent pixel when it
  fails to load.
\<close>

record gallery_item =
  g_local :: string
  g_title :: string
  g_description :: string

definition galleryItems :: "gallery_item list" where
  "galleryItems =
    [\<lparr>g_local = ''earths-horizon.jpg'', g_title = ''Earth's Horizon'',
      g_description = ''Curvature and atmosphere from Cupola''\<rparr>,
     \<lparr>g_local = ''cupola-inner.jpg'', g_title = ''Cupola Inner'',
      g_description = ''Inside the seven-windowed observatory''\<rparr>,
     \<lparr>g_local = ''cupola-sunset.jpg'', g_title = ''Cupola Sunset'',
      g_description = ''Sunset scenes from orbit''\<rparr>,
     \<lparr>g_local = ''nanoracks-cupola.jpg'', g_title = ''Nanoracks Cupola'',
      g_description = ''Commercial research at the window''\<rparr>,
     \<lparr>g_local = ''ISS-training.jpg'', g_title = ''ISS Training'',
      g_description = ''Astronaut training and preparation''\<rparr>]"

definition transparentPng :: string where
  "transparentPng = ''data:image/png;base64,iVBORw0KGgoAAAANSUhEUgAAAAEAAAABCAQAAAC1HAwCAAAAC0lEQVR42mP8Xw8AArgBvYw3/SEAAAAASUVORK5CYII=''"

text \<open>The closure state of one thumbnail's listeners.\<close>

record thumb =
  isDraggingThumb :: bool
  thumb_startX :: real

record lightbox =
  lb_hidden :: bool
  lb_src :: string
  lb_alt :: string
  lb_title :: string
  lb_desc :: string
  lb_onerror :: bool     \<comment> \<open>the fallback \<open>onerror\<close> handler is installed\<close>
  thumbs :: "thumb list"

datatype gevent =
    ThumbDown nat real | ThumbMove nat real | ThumbUp nat | ThumbClick nat
  | CloseClick | LightboxClick bool   \<comment> \<open>whether the target is the lightbox itself\<close>
  | LightboxImgError

definition gallery_init :: "lightbox \<Rightarrow> lightbox" where
  "gallery_init lb = lb\<lparr>thumbs := replicate (length galleryItems) \<lparr>isDraggingThumb = False, thumb_startX = 0\<rparr>\<rparr>"

definition thumb_down :: "nat \<Rightarrow> real \<Rightarrow> lightbox \<Rightarrow> lightbox" where
  "thumb_down i x s =
    s\<lparr>thumbs := (thumbs s)[i := \<lparr>isDraggingThumb = False, thumb_startX = x\<rparr>]\<rparr>"

definition thumb_move :: "nat \<Rightarrow> real \<Rightarrow> lightbox \<Rightarrow> lightbox" where
  "thumb_move i x s =
    (if \<bar>x - thumb_startX (thumbs s ! i)\<bar> > 8
     then s\<lparr>thumbs := (thumbs s)[i := (thumbs s ! i)\<lparr>isDraggingThumb := True\<rparr>]\<rparr>
     else s)"

definition thumb_click :: "nat \<Rightarrow> lightbox \<Rightarrow> lightbox" where
  "thumb_click i s =
    (if isDraggingThumb (thumbs s ! i) then s
     else (let item = galleryItems ! i
           in s\<lparr>lb_src := g_local item, lb_alt := g_title item, lb_title := g_title item,
                lb_desc := g_description item, lb_hidden := False, lb_onerror := True\<rparr>))"

definition close_click :: "lightbox \<Rightarrow> lightbox" where
  "close_click s = s\<lparr>lb_hidden := True\<rparr>"

definition lightbox_click :: "bool \<Rightarrow> lightbox \<Rightarrow> lightbox" where
  "lightbox_click target_is_lightbox s = (if target_is_lightbox then s\<lparr>lb_hidden := True\<rparr> else s)"

definition lightbox_img_error :: "lightbox \<Rightarrow> lightbox" where
  "lightbox_img_error s = (if lb_onerror s then s\<lparr>lb_src := transparentPng\<rparr> else s)"

text \<open>A thumbnail event concerns an existing thumbnail; there is none beyond the list.\<close>

fun gallery_step :: "gevent \<Rightarrow> lightbox \<Rightarrow> lightbox" where
  "gallery_step (ThumbDown i x) s = (if i < length (thumbs s) then thumb_down i x s else s)"
| "gallery_step (ThumbMove i x) s = (if i < length (thumbs s) then thumb_move i x s else s)"
| "gallery_step (ThumbUp i) s = s"
| "gallery_step (ThumbClick i) s = (if i < length (thumbs s) then thumb_click i s else s)"
| "gallery_step CloseClick s = close_click s"
| "gallery_step (LightboxClick t) s = lightbox_click t s"
| "gallery_step LightboxImgError s = lightbox_img_error s"

fun gallery_run :: "gevent list \<Rightarrow> lightbox \<Rightarrow> lightbox" where
  "gallery_run [] s = s"
| "gallery_run (e # es) s = gallery_run es (gallery_step e s)"

text \<open>The lightbox showing item \<open>i\<close>.\<close>

definition shows_item :: "nat \<Rightarrow> lightbox \<Rightarrow> bool" where
  "shows_item i s \<longleftrightarrow>
     \<not> lb_hidden s \<and> lb_src s = g_local (galleryItems ! i) \<and> lb_alt s = g_title (galleryItems ! i) \<and>
     lb_title s = g_title (galleryItems ! i) \<and> lb_desc s = g_description (galleryItems ! i)"

text \<open>What the lightbox displays.\<close>

abbreviation lb_view :: "lightbox \<Rightarrow> bool \<times> string \<times> string \<times> string" where
  "lb_view s \<equiv> (lb_hidden s, lb_src s, lb_title s, lb_desc s)"

text \<open>What the visible lightbox can show: the title, text and alternative text of one
  gallery item, and its picture or the fallback pixel; one swipe detector per item.\<close>

definition lightbox_inv :: "lightbox \<Rightarrow> bool" where
  "lightbox_inv s \<longleftrightarrow>
     length (thumbs s) = length galleryItems \<and>
     (\<not> lb_hidden s \<longrightarrow>
        (\<exists>item \<in> set galleryItems. lb_title s = g_title item \<and> lb_alt s = g_title item \<and>
           lb_desc s = g_description item \<and> (lb_src s = g_local item \<or> lb_src s = transparentPng)))"

lemmas lightbox_handlers = thumb_down_def thumb_move_def thumb_click_def close_click_def
  lightbox_click_def lightbox_img_error_def
declare lightbox_handlers [handler_simps]

subsection \<open>Lemmas\<close>

lemma gallery_run_append:
  "gallery_run (es @ fs) s = gallery_run fs (gallery_run es s)"
  by (induction es arbitrary: s) simp_all

lemma gallery_step_length [simp]: "length (thumbs (gallery_step e s)) = length (thumbs s)"
  by (cases e) (simp_all add: handler_simps Let_def)

lemma moves_keep_lightbox:
  "lb_hidden (gallery_run (map (ThumbMove j) xs) s) = lb_hidden s \<and>
   lb_src (gallery_run (map (ThumbMove j) xs) s) = lb_src s \<and>
   lb_title (gallery_run (map (ThumbMove j) xs) s) = lb_title s \<and>
   lb_desc (gallery_run (map (ThumbMove j) xs) s) = lb_desc s \<and>
   length (thumbs (gallery_run (map (ThumbMove j) xs) s)) = length (thumbs s) \<and>
   thumb_startX (thumbs (gallery_run (map (ThumbMove j) xs) s) ! i) = thumb_startX (thumbs s ! i)"
  by (induction xs arbitrary: s) (auto simp: thumb_move_def nth_list_update)

lemma moves_drag_flag:
  "i < length (thumbs s) \<Longrightarrow>
   isDraggingThumb (thumbs (gallery_run (map (ThumbMove i) xs) s) ! i) \<longleftrightarrow>
     isDraggingThumb (thumbs s ! i) \<or> (\<exists>x \<in> set xs. \<bar>x - thumb_startX (thumbs s ! i)\<bar> > 8)"
  by (induction xs arbitrary: s) (auto simp: thumb_move_def moves_keep_lightbox)

lemma thumb_down_fields:
  "i < length (thumbs s) \<Longrightarrow>
   thumbs (gallery_step (ThumbDown i x) s) ! i = \<lparr>isDraggingThumb = False, thumb_startX = x\<rparr> \<and>
   lb_view (gallery_step (ThumbDown i x) s) = lb_view s"
  by (simp add: thumb_down_def)

lemma lightbox_inv_step: "lightbox_inv s \<Longrightarrow> lightbox_inv (gallery_step e s)"
  by (cases e) (auto simp: lightbox_inv_def handler_simps Let_def)

lemma lightbox_inv_run: "lightbox_inv s \<Longrightarrow> lightbox_inv (gallery_run es s)"
  by (induction es arbitrary: s) (simp_all add: lightbox_inv_step)

text \<open>
  C28 (a swipe does not open the lightbox). A pointer goes down on thumbnail \<open>i\<close> at
  \<open>sx\<close>, moves over it, is released and the thumbnail is clicked. If no move went
  more than 8 pixels from \<open>sx\<close>, the lightbox is visible and shows item \<open>i\<close>'s
  picture, title and description; otherwise the click is ignored and the lightbox is as
  it was.
\<close>

theorem thumb_click_opens:
  fixes sx :: real and xs :: "real list"
  assumes "length (thumbs s) = length galleryItems" and "i < length galleryItems"
  defines "t \<equiv> gallery_run (ThumbDown i sx # map (ThumbMove i) xs @ [ThumbUp i, ThumbClick i]) s"
  shows "((\<forall>x \<in> set xs. \<bar>x - sx\<bar> \<le> 8) \<longrightarrow> shows_item i t) \<and>
         ((\<exists>x \<in> set xs. \<bar>x - sx\<bar> > 8) \<longrightarrow>
            lb_hidden t = lb_hidden s \<and> lb_src t = lb_src s \<and> lb_title t = lb_title s \<and> lb_desc t = lb_desc s)"
proof -
  define s1 where "s1 = gallery_step (ThumbDown i sx) s"
  define s2 where "s2 = gallery_run (map (ThumbMove i) xs) s1"
  have i1: "i < length (thumbs s1)" using assms(1,2) by (simp add: s1_def thumb_down_def)
  have d1: "thumbs s1 ! i = \<lparr>isDraggingThumb = False, thumb_startX = sx\<rparr>"
    and f1: "lb_view s1 = lb_view s"
    using thumb_down_fields [of i s sx] assms(1,2) by (simp_all add: s1_def)
  have i2: "i < length (thumbs s2)" using i1 moves_keep_lightbox [of i xs s1 i] by (simp add: s2_def)
  have flag: "isDraggingThumb (thumbs s2 ! i) \<longleftrightarrow> (\<exists>x \<in> set xs. \<bar>x - sx\<bar> > 8)"
    using moves_drag_flag [OF i1, of xs] d1 by (simp add: s2_def)
  have f2: "lb_view s2 = lb_view s"
    using moves_keep_lightbox [of i xs s1 i] f1 by (simp add: s2_def)
  have t: "t = thumb_click i s2"
    using i2 by (simp add: t_def s1_def s2_def gallery_run_append)
  show ?thesis
    using flag f2 unfolding t thumb_click_def shows_item_def by (auto simp: Let_def not_less)
qed

theorem thumb_click_opens_witness:
  "shows_item 2 (gallery_run (ThumbDown 2 100 # map (ThumbMove 2) [104, 95] @ [ThumbUp 2, ThumbClick 2])
     (gallery_init \<lparr>lb_hidden = True, lb_src = [], lb_alt = [], lb_title = [], lb_desc = [],
                    lb_onerror = False, thumbs = []\<rparr>))"
proof -
  let ?s = "gallery_init \<lparr>lb_hidden = True, lb_src = [], lb_alt = [], lb_title = [], lb_desc = [],
                    lb_onerror = False, thumbs = []\<rparr>"
  have "length (thumbs ?s) = length galleryItems" "2 < length galleryItems"
    by (simp_all add: gallery_init_def galleryItems_def)
  from thumb_click_opens [OF this, where sx = 100 and xs = "[104, 95]"] show ?thesis by simp
qed

text \<open>
  C29 (the lightbox shows one item). From a hidden lightbox, after any sequence of
  thumbnail, close, backdrop and image-error events, the lightbox when visible shows the
  title, alternative text and description of one gallery item together with that item's
  picture or the transparent fallback pixel, and there is one swipe detector per item.
\<close>

theorem lightbox_consistent:
  assumes "lb_hidden s"
  shows "lightbox_inv (gallery_run es (gallery_init s))"
  by (rule lightbox_inv_run) (simp add: lightbox_inv_def gallery_init_def assms)

theorem lightbox_consistent_witness:
  "lightbox_inv (gallery_run [ThumbClick 0, LightboxImgError, LightboxClick False]
     (gallery_init \<lparr>lb_hidden = True, lb_src = [], lb_alt = [], lb_title = [], lb_desc = [],
                    lb_onerror = False, thumbs = []\<rparr>))"
  by (rule lightbox_consistent) simp

end
