(* ===== verification/Gallery.thy ===== *)
theory Gallery
  imports Prelude
begin

text \<open>
  The React gallery page of \<open>src/gallery.js\<close>: the state hook \<open>selectedImage\<close>
  (line 6), the image list \<open>cupolaImages\<close> (8-18), the cards whose \<open>onClick\<close> selects
  their image (48-55) and the overlay rendered while an image is selected (98-132). A
  click is dispatched as React dispatches it: along the path from the target element up
  to the root, running each element's \<open>onClick\<close> until one calls
  \<open>stopPropagation\<close>. The overlay's content box stops propagation (line 110), so a
  click on the picture does not reach the backdrop's handler (103); the close button's
  handler (124) runs before it.
\<close>

record cupola_image =
  url :: string
  title :: string
  description :: string

definition cupolaImages :: "cupola_image list" where
  "cupolaImages =
    [\<lparr>url = ''./images/cupola-inner.jpg'', title = ''Cupola Interior View'',
      description = ''The iconic seven-windowed observatory module on the ISS''\<rparr>,
     \<lparr>url = ''./images/earths-horizon.jpg'', title = ''Earth's Horizon'',
      description = ''Stunning view of Earth's curvature and atmosphere from the Cupola''\<rparr>,
     \<lparr>url = ''./images/cupola-sunset.jpg'', title = ''Cupola Sunset'',
      description = ''Sunset scenes from orbit''\<rparr>,
     \<lparr>url = ''./images/interior-view.jpg'', title = ''Interior View'',
      description = ''Module interior and observation station''\<rparr>,
     \<lparr>url = ''./images/nanoracks-cupola.jpg'', title = ''Nanoracks Cupola'',
      description = ''Commercial research at the window''\<rparr>,
     \<lparr>url = ''./images/ISS-training.jpg'', title = ''ISS Training'',
      description = ''Astronaut training and preparation''\<rparr>,
     \<lparr>url = ''./images/flood.jpg'', title = ''Floods'',
      description = ''From space: Floodwaters turn land unusually dark or blue, expanding beyond normal riverbanks seen in pre-event images. Space imagery quickly outlines the true size of affected areas, even when clouds obscure the ground. Key features: Large swaths of darkened or shimmering area, water pooled in fields and urban landscapes.''\<rparr>,
     \<lparr>url = ''./images/sandstorm.jpg'', title = ''Sandstorm'',
      description = ''From space: Massive sand or dust storms appear as tan or yellowish clouds moving across continents. These plumes can be traced from their origin (like the Sahara) as they travel thousands of kilometers, sometimes crossing oceans. Key features: Thick, billowing clouds of dust, often obscuring the surface below, moving in distinct fronts or swirls.''\<rparr>,
     \<lparr>url = ''./images/wildfire.jpg'', title = ''Wildfires'',
      description = ''From space: Wildfires show up as bright orange/red hotspots using thermal sensors, while thick brown or gray smoke plumes often stretch for hundreds of kilometers. Burn scars appear as dark patches contrasting with surrounding land. Key features: Long smoke trails, rapid expansion, thermal signatures even through clouds.''\<rparr>]"

record gallery_view =
  selectedImage :: "cupola_image option"

text \<open>The elements of the page that can be the target of a click.\<close>

datatype gelem = Card nat | Backdrop | Content | OverlayImage | CloseButton | Page

text \<open>The element's parent in the rendered tree, as far as it has handlers above it.\<close>

fun parent :: "gelem \<Rightarrow> gelem option" where
  "parent CloseButton = Some Content"
| "parent OverlayImage = Some Content"
| "parent Content = Some Backdrop"
| "parent _ = None"

fun depth :: "gelem \<Rightarrow> nat" where
  "depth CloseButton = 2"
| "depth OverlayImage = 2"
| "depth Content = 1"
| "depth _ = 0"

datatype ghandler = SetSelected "cupola_image option" | StopPropagation

fun onClick :: "gelem \<Rightarrow> ghandler option" where
  "onClick (Card i) = Some (SetSelected (Some (cupolaImages ! i)))"
| "onClick Backdrop = Some (SetSelected None)"
| "onClick Content = Some StopPropagation"
| "onClick CloseButton = Some (SetSelected None)"
| "onClick _ = None"

lemma parent_depth: "parent e = Some p \<Longrightarrow> depth p < depth e"
  by (cases e) auto

function path :: "gelem \<Rightarrow> gelem list" where
  "path e = e # (case parent e of None \<Rightarrow> [] | Some p \<Rightarrow> path p)"
  by pat_completeness auto
termination
  by (relation "measure depth") (auto dest: parent_depth)

declare path.simps [simp del]

fun bubble :: "gelem list \<Rightarrow> gallery_view \<Rightarrow> gallery_view" where
  "bubble [] s = s"
| "bubble (e # es) s =
    (case onClick e of
       None \<Rightarrow> bubble es s
     | Some (SetSelected v) \<Rightarrow> bubble es (s\<lparr>selectedImage := v\<rparr>)
     | Some StopPropagation \<Rightarrow> s)"

text \<open>The overlay's elements exist only while an image is selected; cards exist for
  the indices of \<open>cupolaImages\<close>.\<close>

fun rendered :: "gelem \<Rightarrow> gallery_view \<Rightarrow> bool" where
  "rendered (Card i) s = (i < length cupolaImages)"
| "rendered Page s = True"
| "rendered _ s = (selectedImage s \<noteq> None)"

definition click :: "gelem \<Rightarrow> gallery_view \<Rightarrow> gallery_view" where
  "click t s = (if rendered t s then bubble (path t) s else s)"

fun gallery_clicks :: "gelem list \<Rightarrow> gallery_view \<Rightarrow> gallery_view" where
  "gallery_clicks [] s = s"
| "gallery_clicks (t # ts) s = gallery_clicks ts (click t s)"

definition gallery_view_init :: gallery_view where
  "gallery_view_init = \<lparr>selectedImage = None\<rparr>"

lemmas gallery_handlers = click_def gallery_view_init_def
declare gallery_handlers [handler_simps]

subsection \<open>Lemmas\<close>

lemma path_simps [simp]:
  "path CloseButton = [CloseButton, Content, Backdrop]"
  "path OverlayImage = [OverlayImage, Content, Backdrop]"
  "path Content = [Content, Backdrop]"
  "path Backdrop = [Backdrop]"
  "path (Card i) = [Card i]"
  "path Page = [Page]"
  by (simp_all add: path.simps)

lemma gallery_clicks_append:
  "gallery_clicks (ts @ us) s = gallery_clicks us (gallery_clicks ts s)"
  by (induction ts arbitrary: s) simp_all

lemma click_overlay:
  "selectedImage s = Some img \<Longrightarrow>
   selectedImage (click CloseButton s) = None \<and> selectedImage (click Backdrop s) = None \<and>
   click Content s = s \<and> click OverlayImage s = s"
  by (simp add: click_def)

lemma click_card:
  "i < length cupolaImages \<Longrightarrow> selectedImage (click (Card i) s) = Some (cupolaImages ! i)"
  by (simp add: click_def)

text \<open>
  C30 (which clicks close the overlay). While an image is selected, a click on the
  close button or on the dark backdrop clears the selection and closes the overlay; a
  click on the picture or anywhere else inside the content box leaves the same image
  selected, because the content box stops the click before it reaches the backdrop.
\<close>

theorem overlay_click_closes:
  assumes "selectedImage s = Some img" and "t \<in> {Backdrop, Content, OverlayImage, CloseButton}"
  shows "selectedImage (click t s) = (if t = CloseButton \<or> t = Backdrop then None else Some img)"
  using assms click_overlay [OF assms(1)] by auto

theorem overlay_click_closes_witness:
  "selectedImage (click OverlayImage \<lparr>selectedImage = Some (cupolaImages ! 3)\<rparr>) = Some (cupolaImages ! 3) \<and>
   selectedImage (click CloseButton \<lparr>selectedImage = Some (cupolaImages ! 3)\<rparr>) = None"
proof -
  have s: "selectedImage \<lparr>selectedImage = Some (cupolaImages ! 3)\<rparr> = Some (cupolaImages ! 3)"
    by (simp only: gallery_view.select_convs)
  have "OverlayImage \<in> {Backdrop, Content, OverlayImage, CloseButton}"
    "CloseButton \<in> {Backdrop, Content, OverlayImage, CloseButton}" by simp_all
  from overlay_click_closes [OF s this(1)] overlay_click_closes [OF s this(2)]
  show ?thesis by (simp only: if_True if_False gelem.distinct simp_thms)
qed

end
