(* ===== verification/Textures.thy ===== *)
theory Textures
  imports Globe
begin

text \<open>
  Texture loading of both globes. \<open>src/main.js\<close> (lines 180-196) loads each map of
  the Earth with \<open>loadWithFallback\<close>: the texture loader is asked for the bundled
  asset; its success callback stores the texture in the material under its key
  (\<open>applyTex\<close>), its error callback asks for the remote copy, whose success callback
  stores that one (and whose failure is not handled). Each planet's texture (line 223)
  is loaded once, with no error callback. \<open>src/homepage.js\<close> (lines 44-50) loads the
  Earth's three maps from the remote URLs only. The calls run at set-up; the loader
  answers the outstanding requests later, in any order. The loader is modelled as the
  list of outstanding requests, an answer as the removal of any one of them with its
  callback (\<open>complete\<close>), and the network as a predicate \<open>avail\<close> saying which URLs
  load. \<open>mat_tex k\<close> is the texture of map \<open>k\<close> whose image has loaded, by the URL it
  came from.
\<close>

datatype tkey = TMap | TBumpMap | TSpecularMap | TPlanet nat

datatype request = LoadLocal string string tkey | LoadRemote string tkey

record tex_loader =
  mat_tex :: "tkey \<Rightarrow> string option"
  needsUpdate :: "tkey \<Rightarrow> bool"    \<comment> \<open>\<open>needsUpdate\<close> of the material that holds the map\<close>
  pending :: "request list"

fun req_key :: "request \<Rightarrow> tkey" where
  "req_key (LoadLocal l r k) = k"
| "req_key (LoadRemote r k) = k"

definition earthTextures :: "(string \<times> string \<times> tkey) list" where
  "earthTextures =
    [(''assets/earth_atmos_2048.jpg'',
      ''https://raw.githubusercontent.com/mrdoob/three.js/dev/examples/textures/planets/earth_atmos_2048.jpg'', TMap),
     (''assets/earth_normal_2048.jpg'',
      ''https://raw.githubusercontent.com/mrdoob/three.js/dev/examples/textures/planets/earth_normal_2048.jpg'', TBumpMap),
     (''assets/earth_specular_2048.jpg'',
      ''https://raw.githubusercontent.com/mrdoob/three.js/dev/examples/textures/planets/earth_specular_2048.jpg'', TSpecularMap)]"

text \<open>The \<open>tex\<close> fields of \<open>planetConfigs\<close> in \<open>main.js\<close>, in order (lemma \<open>planetTextures_tex\<close>).\<close>

definition planetTextures :: "string list" where
  "planetTextures =
    [''./images/earths-horizon.jpg'', ''./images/cupola-sunset.jpg'', ''./images/nanoracks-cupola.jpg'',
     ''./images/ISS-training.jpg'']"

definition applyTex :: "tkey \<Rightarrow> string \<Rightarrow> tex_loader \<Rightarrow> tex_loader" where
  "applyTex key t s = s\<lparr>mat_tex := (mat_tex s)(key \<mapsto> t), needsUpdate := (needsUpdate s)(key := True)\<rparr>"

definition loadWithFallback :: "string \<Rightarrow> string \<Rightarrow> tkey \<Rightarrow> tex_loader \<Rightarrow> tex_loader" where
  "loadWithFallback localUrl remoteUrl key s = s\<lparr>pending := pending s @ [LoadLocal localUrl remoteUrl key]\<rparr>"

text \<open>A load with only a success callback, or none: \<open>textureLoader.load(url, cb)\<close>.\<close>

definition loadPlain :: "string \<Rightarrow> tkey \<Rightarrow> tex_loader \<Rightarrow> tex_loader" where
  "loadPlain url key s = s\<lparr>pending := pending s @ [LoadRemote url key]\<rparr>"

definition tex_init :: tex_loader where
  "tex_init = \<lparr>mat_tex = Map.empty, needsUpdate = (\<lambda>k. False), pending = []\<rparr>"

definition load_earth :: "tex_loader \<Rightarrow> tex_loader" where
  "load_earth s = fold (\<lambda>(l, r, k). loadWithFallback l r k) earthTextures s"

definition load_planets :: "tex_loader \<Rightarrow> tex_loader" where
  "load_planets s = fold (\<lambda>(i, t). loadPlain t (TPlanet i)) (enumerate 0 planetTextures) s"

text \<open>The requests outstanding after the set-up of \<open>main.js\<close> and of \<open>homepage.js\<close>.\<close>

definition vanilla_textures :: tex_loader where
  "vanilla_textures = load_planets (load_earth tex_init)"

definition react_textures :: tex_loader where
  "react_textures = fold (\<lambda>(l, r, k). loadPlain r k) earthTextures tex_init"

text \<open>The loader answers the \<open>i\<close>-th outstanding request and runs its callback.\<close>

definition complete :: "(string \<Rightarrow> bool) \<Rightarrow> nat \<Rightarrow> tex_loader \<Rightarrow> tex_loader" where
  "complete avail i s =
    (let s' = s\<lparr>pending := take i (pending s) @ drop (Suc i) (pending s)\<rparr>
     in case pending s ! i of
          LoadLocal l r k \<Rightarrow>
            if avail l then applyTex k l s' else s'\<lparr>pending := pending s' @ [LoadRemote r k]\<rparr>
        | LoadRemote r k \<Rightarrow> if avail r then applyTex k r s' else s')"

text \<open>The states the loader reaches from a set-up \<open>s0\<close>, answering in any order.\<close>

inductive tex_reach :: "(string \<Rightarrow> bool) \<Rightarrow> tex_loader \<Rightarrow> tex_loader \<Rightarrow> bool" for avail s0 where
  start: "tex_reach avail s0 s0"
| step: "tex_reach avail s0 s \<Longrightarrow> i < length (pending s) \<Longrightarrow> tex_reach avail s0 (complete avail i s)"

text \<open>
  A map loaded from an optional bundled asset and a remote URL: what it ends with is the
  asset if there is one and it loads, else the remote copy if that loads, else nothing.
\<close>

type_synonym tex_entry = "string option \<times> string \<times> tkey"

definition outcome :: "(string \<Rightarrow> bool) \<Rightarrow> string option \<Rightarrow> string \<Rightarrow> string option" where
  "outcome avail lo r = (case lo of Some l \<Rightarrow> if avail l then Some l else if avail r then Some r else None
                                  | None \<Rightarrow> if avail r then Some r else None)"

definition vanilla_entries :: "tex_entry list" where
  "vanilla_entries =
     map (\<lambda>(l, r, k). (Some l, r, k)) earthTextures @
     map (\<lambda>(i, t). (None, t, TPlanet i)) (enumerate 0 planetTextures)"

definition react_entries :: "tex_entry list" where
  "react_entries = map (\<lambda>(l, r, k). (None, r, k)) earthTextures"

text \<open>The requests still to answer: two for a map whose asset has not answered, one
  for a remote request.\<close>

fun req_weight :: "request \<Rightarrow> nat" where
  "req_weight (LoadLocal l r k) = 2"
| "req_weight (LoadRemote r k) = 1"

definition tex_weight :: "tex_loader \<Rightarrow> nat" where
  "tex_weight s = sum_list (map req_weight (pending s))"

text \<open>For one map: its first request is outstanding and it has no texture, or its
  fallback request is outstanding after the asset failed, or nothing is outstanding and
  it holds the outcome.\<close>

definition entry_state :: "(string \<Rightarrow> bool) \<Rightarrow> tex_loader \<Rightarrow> tex_entry \<Rightarrow> bool" where
  "entry_state avail s e =
    (case e of (lo, r, k) \<Rightarrow>
      (let reqs = filter (\<lambda>q. req_key q = k) (pending s) in
        (case lo of Some l \<Rightarrow> reqs = [LoadLocal l r k] | None \<Rightarrow> False) \<and> mat_tex s k = None \<or>
        reqs = [LoadRemote r k] \<and> (case lo of Some l \<Rightarrow> \<not> avail l | None \<Rightarrow> True) \<and> mat_tex s k = None \<or>
        reqs = [] \<and> mat_tex s k = outcome avail lo r))"

definition tex_inv :: "(string \<Rightarrow> bool) \<Rightarrow> tex_entry list \<Rightarrow> tex_loader \<Rightarrow> bool" where
  "tex_inv avail es s \<longleftrightarrow>
     (\<forall>e \<in> set es. entry_state avail s e) \<and> (\<forall>q \<in> set (pending s). req_key q \<in> snd ` snd ` set es)"

lemmas texture_handlers = applyTex_def loadWithFallback_def loadPlain_def complete_def
declare texture_handlers [handler_simps]

subsection \<open>Lemmas\<close>

text \<open>The texture paths loaded for the planets are the \<open>tex\<close> fields of \<open>planetConfigs\<close>.\<close>

lemma planetTextures_tex: "map Tex planetTextures = map cfg_look planetConfigs"
  by (simp add: planetTextures_def planetConfigs_def)

lemma entry_state_cong:
  "filter (\<lambda>q. req_key q = k) (pending s') = filter (\<lambda>q. req_key q = k) (pending s) \<Longrightarrow>
   mat_tex s' k = mat_tex s k \<Longrightarrow> entry_state avail s' (lo, r, k) = entry_state avail s (lo, r, k)"
  by (simp add: entry_state_def)

lemma entry_state_other:
  assumes "entry_state avail s (lo, r, k)" and "i < length (pending s)" and "req_key (pending s ! i) \<noteq> k"
  shows "entry_state avail (complete avail i s) (lo, r, k)"
proof -
  have rest: "filter (\<lambda>q. req_key q = k) (take i (pending s) @ drop (Suc i) (pending s)) =
        filter (\<lambda>q. req_key q = k) (pending s)"
    using filter_remove_nth_other [OF assms(2), of "\<lambda>q. req_key q = k"] assms(3) by simp
  have "filter (\<lambda>q. req_key q = k) (pending (complete avail i s)) = filter (\<lambda>q. req_key q = k) (pending s) \<and>
        mat_tex (complete avail i s) k = mat_tex s k"
    using rest assms(3) by (cases "pending s ! i") (simp_all add: complete_def applyTex_def Let_def)
  with assms(1) show ?thesis using entry_state_cong by blast
qed

lemma entry_state_served:
  assumes es: "entry_state avail s (lo, r, k)" and i: "i < length (pending s)"
    and k: "req_key (pending s ! i) = k"
  shows "entry_state avail (complete avail i s) (lo, r, k)"
proof -
  let ?P = "\<lambda>q. req_key q = k"
  let ?rest = "take i (pending s) @ drop (Suc i) (pending s)"
  have "pending s ! i \<in> set (filter ?P (pending s))" using i k by simp
  then consider (loc) l where "lo = Some l" "filter ?P (pending s) = [LoadLocal l r k]" "mat_tex s k = None"
    | (rem) "filter ?P (pending s) = [LoadRemote r k]" "case lo of Some l \<Rightarrow> \<not> avail l | None \<Rightarrow> True"
            "mat_tex s k = None"
    using es by (auto simp: entry_state_def Let_def filter_empty_conv split: option.splits)
  then show ?thesis
  proof cases
    case loc
    with filter_remove_nth_single [OF i, of ?P] k
    have "pending s ! i = LoadLocal l r k" "filter ?P ?rest = []" by auto
    with loc show ?thesis by (auto simp: entry_state_def complete_def applyTex_def Let_def outcome_def)
  next
    case rem
    with filter_remove_nth_single [OF i, of ?P] k
    have "pending s ! i = LoadRemote r k" "filter ?P ?rest = []" by auto
    with rem show ?thesis
      by (auto simp: entry_state_def complete_def applyTex_def Let_def outcome_def split: option.splits)
  qed
qed

lemma complete_keys:
  assumes "i < length (pending s)" and "q \<in> set (pending (complete avail i s))"
  shows "req_key q \<in> req_key ` set (pending s)"
proof -
  have rest: "set (take i (pending s) @ drop (Suc i) (pending s)) \<subseteq> set (pending s)"
    by (auto dest: in_set_takeD in_set_dropD)
  have "pending s ! i \<in> set (pending s)" using assms(1) by simp
  then have "req_key (pending s ! i) \<in> req_key ` set (pending s)" by simp
  with rest assms(2) show ?thesis
    by (cases "pending s ! i") (auto simp: complete_def applyTex_def Let_def split: if_splits)
qed

lemma tex_inv_complete:
  assumes inv: "tex_inv avail es s" and i: "i < length (pending s)"
  shows "tex_inv avail es (complete avail i s)"
proof -
  have "entry_state avail (complete avail i s) e" if e: "e \<in> set es" for e
  proof -
    obtain lo r k where e': "e = (lo, r, k)" by (cases e) auto
    with inv e have "entry_state avail s (lo, r, k)" by (simp add: tex_inv_def)
    with e' show ?thesis
      using entry_state_other [OF _ i] entry_state_served [OF _ i] by blast
  qed
  moreover have "req_key q \<in> snd ` snd ` set es" if "q \<in> set (pending (complete avail i s))" for q
    using complete_keys [OF i that] inv by (auto simp: tex_inv_def)
  ultimately show ?thesis by (simp add: tex_inv_def)
qed

lemma tex_reach_inv: "tex_reach avail s0 s \<Longrightarrow> tex_inv avail es s0 \<Longrightarrow> tex_inv avail es s"
proof (induction rule: tex_reach.induct)
  case start
  then show ?case .
next
  case (step s i)
  then show ?case by (simp add: tex_inv_complete)
qed

lemma tex_inv_vanilla: "tex_inv avail vanilla_entries vanilla_textures"
  by (simp add: tex_inv_def entry_state_def vanilla_entries_def vanilla_textures_def earthTextures_def
      planetTextures_def load_earth_def load_planets_def loadWithFallback_def loadPlain_def tex_init_def)

lemma tex_inv_react: "tex_inv avail react_entries react_textures"
  by (simp add: tex_inv_def entry_state_def react_entries_def react_textures_def earthTextures_def
      loadPlain_def tex_init_def)

lemma settled_outcome:
  "tex_reach avail s0 s \<Longrightarrow> tex_inv avail es s0 \<Longrightarrow> pending s = [] \<Longrightarrow>
   \<forall>(lo, r, k) \<in> set es. mat_tex s k = outcome avail lo r"
proof -
  assume "tex_reach avail s0 s" "tex_inv avail es s0" "pending s = []"
  then have "tex_inv avail es s" "pending s = []" by (simp_all add: tex_reach_inv)
  then show ?thesis by (auto simp: tex_inv_def entry_state_def split: option.splits)
qed

lemma complete_weight:
  "i < length (pending s) \<Longrightarrow> tex_weight (complete avail i s) < tex_weight s"
proof -
  assume i: "i < length (pending s)"
  let ?rest = "take i (pending s) @ drop (Suc i) (pending s)"
  have w: "sum_list (map req_weight ?rest) + req_weight (pending s ! i) = tex_weight s"
    using sum_list_remove_nth [of i "map req_weight (pending s)"] i
    by (simp add: tex_weight_def take_map drop_map)
  show ?thesis
    using w by (cases "pending s ! i") (auto simp: tex_weight_def complete_def applyTex_def Let_def)
qed

lemma tex_reach_weight: "tex_reach avail s0 s \<Longrightarrow> tex_weight s \<le> tex_weight s0"
proof (induction rule: tex_reach.induct)
  case (step s i)
  with complete_weight [OF step.hyps(2), of avail] show ?case by simp
qed simp

text \<open>A loader run of \<open>main.js\<close>: the atmosphere asset, the remote normal map and the
  second planet's picture load, nothing else; the loader answers the oldest request
  nine times.\<close>

lemma drain_demo:
  "let A = (\<lambda>u. u = ''assets/earth_atmos_2048.jpg'' \<or> u = ''./images/cupola-sunset.jpg'' \<or>
          u = ''https://raw.githubusercontent.com/mrdoob/three.js/dev/examples/textures/planets/earth_normal_2048.jpg''); s = complete A 0 (complete A 0 (complete A 0 (complete A 0 (complete A 0 (complete A 0 (complete A 0 (complete A 0 (complete A 0 (vanilla_textures)))))))))
   in tex_reach A vanilla_textures s \<and> pending s = []"
  unfolding Let_def
  by (intro conjI tex_reach.step tex_reach.start)
     (simp_all add: complete_def applyTex_def vanilla_textures_def load_earth_def load_planets_def
        loadWithFallback_def loadPlain_def tex_init_def earthTextures_def planetTextures_def Let_def)

text \<open>
  C31 (texture loading settles on the fallback outcome, in any order). In
  \<open>main.js\<close>, whatever order the loader answers the requests in, once none is
  outstanding each of the Earth's three maps holds the bundled asset if it loads, else
  the remote copy if that loads, and no texture otherwise; each planet holds its
  picture if it loads and no texture otherwise.
\<close>

theorem textures_settle:
  assumes "tex_reach avail vanilla_textures s" and "pending s = []"
  shows "(\<forall>(l, r, k) \<in> set earthTextures. mat_tex s k = outcome avail (Some l) r) \<and>
         (\<forall>i < length planetTextures. mat_tex s (TPlanet i) = outcome avail None (planetTextures ! i))"
proof -
  have "\<forall>(lo, r, k) \<in> set vanilla_entries. mat_tex s k = outcome avail lo r"
    using settled_outcome [OF assms(1) tex_inv_vanilla assms(2)] .
  then show ?thesis
    by (simp add: vanilla_entries_def earthTextures_def planetTextures_def less_Suc_eq numeral_eq_Suc
        all_conj_distrib del: outcome_def)
qed

theorem textures_settle_witness:
  "let A = (\<lambda>u. u = ''assets/earth_atmos_2048.jpg'' \<or> u = ''./images/cupola-sunset.jpg'' \<or>
          u = ''https://raw.githubusercontent.com/mrdoob/three.js/dev/examples/textures/planets/earth_normal_2048.jpg''); s = complete A 0 (complete A 0 (complete A 0 (complete A 0 (complete A 0 (complete A 0 (complete A 0 (complete A 0 (complete A 0 (vanilla_textures))))))))) in
   mat_tex s TMap = Some ''assets/earth_atmos_2048.jpg'' \<and>
   mat_tex s TBumpMap = Some ''https://raw.githubusercontent.com/mrdoob/three.js/dev/examples/textures/planets/earth_normal_2048.jpg'' \<and>
   mat_tex s TSpecularMap = None \<and> mat_tex s (TPlanet 1) = Some ''./images/cupola-sunset.jpg'' \<and>
   mat_tex s (TPlanet 0) = None"
  using textures_settle [OF drain_demo [unfolded Let_def, THEN conjunct1] drain_demo [unfolded Let_def, THEN conjunct2]]
  unfolding Let_def by (simp add: earthTextures_def planetTextures_def outcome_def)

text \<open>
  C32 (the React globe never uses the bundled textures). In \<open>homepage.js\<close>, whatever
  order the loader answers in, once none is outstanding each of the Earth's three maps
  holds the remote copy if it loads and no texture otherwise: where only the bundled
  asset is reachable, \<open>main.js\<close> shows it (C31) and the React globe stays untextured.
\<close>

theorem react_textures_settle:
  assumes "tex_reach avail react_textures s" and "pending s = []"
  shows "\<forall>(l, r, k) \<in> set earthTextures. mat_tex s k = outcome avail None r"
proof -
  have "\<forall>(lo, r, k) \<in> set react_entries. mat_tex s k = outcome avail lo r"
    using settled_outcome [OF assms(1) tex_inv_react assms(2)] .
  then show ?thesis by (simp add: react_entries_def earthTextures_def del: outcome_def)
qed

theorem react_textures_settle_witness:
  "let A = (\<lambda>u. u = ''https://raw.githubusercontent.com/mrdoob/three.js/dev/examples/textures/planets/earth_atmos_2048.jpg''); s = complete A 0 (complete A 0 (complete A 0 react_textures)) in
   mat_tex s TMap = Some ''https://raw.githubusercontent.com/mrdoob/three.js/dev/examples/textures/planets/earth_atmos_2048.jpg'' \<and>
   mat_tex s TBumpMap = None"
proof -
  let ?A = "(\<lambda>u. u = ''https://raw.githubusercontent.com/mrdoob/three.js/dev/examples/textures/planets/earth_atmos_2048.jpg'')"
  let ?s = "complete ?A 0 (complete ?A 0 (complete ?A 0 react_textures))"
  have "tex_reach ?A react_textures ?s \<and> pending ?s = []"
    by (intro conjI tex_reach.step tex_reach.start)
       (simp_all add: complete_def applyTex_def react_textures_def loadPlain_def tex_init_def earthTextures_def Let_def)
  from react_textures_settle [OF conjunct1 [OF this] conjunct2 [OF this]] show ?thesis
    by (simp add: earthTextures_def outcome_def Let_def)
qed

text \<open>
  C33 (texture loading finishes). From any set-up, every state the loader reaches
  weighs at most what the set-up weighs (two for a request with a fallback, one for a
  plain request), and answering any outstanding request strictly lowers the weight:
  every order of answers ends, after at most ten answers in \<open>main.js\<close> and three in
  \<open>homepage.js\<close>.
\<close>

theorem textures_finish:
  assumes "tex_reach avail s0 s"
  shows "tex_weight s \<le> tex_weight s0 \<and> (\<forall>i < length (pending s). tex_weight (complete avail i s) < tex_weight s)"
  using tex_reach_weight [OF assms] complete_weight by blast

theorem textures_finish_witness:
  "tex_weight vanilla_textures = 10 \<and> tex_weight react_textures = 3 \<and>
   tex_weight (complete (\<lambda>u. False) 1 vanilla_textures) < 10"
proof -
  have w: "tex_weight vanilla_textures = 10" "tex_weight react_textures = 3"
    by (simp_all add: tex_weight_def vanilla_textures_def react_textures_def load_earth_def load_planets_def
        loadWithFallback_def loadPlain_def tex_init_def earthTextures_def planetTextures_def)
  have "tex_reach (\<lambda>u. False) vanilla_textures vanilla_textures" by (rule tex_reach.start)
  from textures_finish [OF this] w show ?thesis
    by (simp add: vanilla_textures_def load_earth_def load_planets_def loadWithFallback_def loadPlain_def
        tex_init_def earthTextures_def planetTextures_def)
qed

end
