(* ===== verification/Stars.thy ===== *)
theory Stars
  imports Prelude
begin

text \<open>
  The star field of both globes: \<open>src/main.js\<close> line 233 pushes, for each of 8000
  stars, three coordinates \<open>(Math.random() - .5) * 2000\<close>; \<open>src/homepage.js\<close>
  lines 85-91 do the same for 10000 stars. The \<open>k\<close>-th call of \<open>Math.random()\<close>
  is \<open>rnd k\<close>. The \<open>for\<close> loop is \<open>star_loop\<close>, with the array as an accumulator.
\<close>

function star_loop :: "nat \<Rightarrow> nat \<Rightarrow> (nat \<Rightarrow> real) \<Rightarrow> real list \<Rightarrow> real list" where
  "star_loop n i rnd acc =
    (if i < n
     then star_loop n (Suc i) rnd
            (acc @ [(rnd (3 * i) - 0.5) * 2000, (rnd (3 * i + 1) - 0.5) * 2000, (rnd (3 * i + 2) - 0.5) * 2000])
     else acc)"
  by pat_completeness auto
termination
  by (relation "measure (\<lambda>(n, i, rnd, acc). n - i)") auto

declare star_loop.simps [simp del]

definition starsVertices_vanilla :: "(nat \<Rightarrow> real) \<Rightarrow> real list" where
  "starsVertices_vanilla rnd = star_loop 8000 0 rnd []"

definition starsVertices_react :: "(nat \<Rightarrow> real) \<Rightarrow> real list" where
  "starsVertices_react rnd = star_loop 10000 0 rnd []"

text \<open>The reference: coordinate \<open>k\<close> comes from the \<open>k\<close>-th random number.\<close>

definition star_coords :: "nat \<Rightarrow> (nat \<Rightarrow> real) \<Rightarrow> real list" where
  "star_coords n rnd = map (\<lambda>k. (rnd k - 0.5) * 2000) [0 ..< 3 * n]"

subsection \<open>Lemmas\<close>

lemma upt_three:
  "i < n \<Longrightarrow> [3 * i ..< 3 * n] = [3 * i, 3 * i + 1, 3 * i + 2] @ [3 * Suc i ..< 3 * n]"
  by (simp add: upt_conv_Cons eval_nat_numeral)

lemma star_loop_acc:
  "star_loop n i rnd acc = acc @ map (\<lambda>k. (rnd k - 0.5) * 2000) [3 * i ..< 3 * n]"
proof (induction n i rnd acc rule: star_loop.induct)
  case (1 n i rnd acc)
  show ?case
  proof (cases "i < n")
    case True
    with 1 show ?thesis
      by (simp only: star_loop.simps [of n i] if_True upt_three [OF True] map_append append_assoc) simp
  next
    case False
    then show ?thesis by (simp add: star_loop.simps [of n i])
  qed
qed

lemma star_coord_bounds:
  "0 \<le> r \<Longrightarrow> r < 1 \<Longrightarrow> -1000 \<le> (r - 0.5) * (2000::real) \<and> (r - 0.5) * 2000 < 1000"
  by simp

lemma star_loop_coords: "star_loop n 0 rnd [] = star_coords n rnd"
  by (simp add: star_loop_acc star_coords_def)

text \<open>
  C34 (the star loops compute the reference coordinates, inside the cube). The
  \<open>for\<close> loop of \<open>main.js\<close> produces exactly the 24000 coordinates
  \<open>(rnd k - 0.5) * 2000\<close> for \<open>k < 24000\<close> in order, and that of \<open>homepage.js\<close> the
  30000 for \<open>k < 30000\<close>; when every random number is in \<open>[0, 1)\<close>, every coordinate
  of either field lies in \<open>[-1000, 1000)\<close>.
\<close>

theorem stars_in_cube:
  assumes "\<forall>k. 0 \<le> rnd k \<and> rnd k < 1"
  shows "starsVertices_vanilla rnd = map (\<lambda>k. (rnd k - 0.5) * 2000) [0 ..< 24000] \<and>
         starsVertices_react rnd = map (\<lambda>k. (rnd k - 0.5) * 2000) [0 ..< 30000] \<and>
         (\<forall>v \<in> set (starsVertices_vanilla rnd) \<union> set (starsVertices_react rnd). -1000 \<le> v \<and> v < 1000)"
proof (intro conjI)
  show "starsVertices_vanilla rnd = map (\<lambda>k. (rnd k - 0.5) * 2000) [0 ..< 24000]"
    by (simp add: starsVertices_vanilla_def star_loop_coords star_coords_def)
  show "starsVertices_react rnd = map (\<lambda>k. (rnd k - 0.5) * 2000) [0 ..< 30000]"
    by (simp add: starsVertices_react_def star_loop_coords star_coords_def)
  show "\<forall>v \<in> set (starsVertices_vanilla rnd) \<union> set (starsVertices_react rnd). -1000 \<le> v \<and> v < 1000"
    using assms star_coord_bounds
    by (auto simp: starsVertices_vanilla_def starsVertices_react_def star_loop_coords star_coords_def)
qed

theorem stars_in_cube_witness:
  "starsVertices_vanilla (\<lambda>k. 1 / 3) ! 5 = -1000 / 3 \<and>
   -1000 \<le> starsVertices_react (\<lambda>k. 1 / 3) ! 7 \<and> starsVertices_react (\<lambda>k. 1 / 3) ! 7 < 1000"
proof -
  have "\<forall>k. 0 \<le> (\<lambda>k. 1 / 3 :: real) k \<and> (\<lambda>k. 1 / 3 :: real) k < 1" by simp
  from stars_in_cube [OF this] show ?thesis
    using nth_mem [of 7 "starsVertices_react (\<lambda>k. 1 / 3)"] by simp
qed

end
