(* ===== verification/Grid_Drag.thy ===== *)
theory Grid_Drag
  imports Prelude
begin

text \<open>
  The drag-to-scroll listeners of the gallery grid, \<open>src/main.js\<close> lines 286-297. They
  are registered inside the canvas \<open>pointermove\<close> listener, so every mouse move over
  the globe registers one more copy, each with its own closure (\<open>isDown\<close>,
  \<open>startX\<close>, \<open>scrollLeft\<close>). A pointer event on the grid runs every copy in
  registration order. The grid's \<open>scrollLeft\<close> is clamped by the browser to
  \<open>[0, grid_max]\<close>.
\<close>

record grid_copy =
  gc_isDown :: bool
  gc_startX :: real
  gc_scrollLeft :: real

record grid =
  grid_scroll :: real   \<comment> \<open>\<open>galleryContainer.scrollLeft\<close>\<close>
  grid_max :: real      \<comment> \<open>\<open>scrollWidth - clientWidth\<close>\<close>
  dragging :: bool      \<comment> \<open>the \<open>dragging\<close> class\<close>
  copies :: "grid_copy list"

datatype grid_event = GridDown real | GridMove real | GridUp | AddCopy

text \<open>Each copy's \<open>pointerdown\<close> listener; it reads the current scroll position.\<close>

definition copy_down :: "real \<Rightarrow> grid \<Rightarrow> grid_copy \<Rightarrow> grid_copy" where
  "copy_down x g c = c\<lparr>gc_isDown := True, gc_startX := x, gc_scrollLeft := grid_scroll g\<rparr>"

text \<open>Each copy's \<open>pointermove\<close> listener, run in registration order.\<close>

fun copies_move :: "real \<Rightarrow> grid_copy list \<Rightarrow> grid \<Rightarrow> grid" where
  "copies_move x [] g = g"
| "copies_move x (c # cs) g =
    copies_move x cs
      (if gc_isDown c then g\<lparr>grid_scroll := clamp 0 (grid_max g) (gc_scrollLeft c - (x - gc_startX c))\<rparr> else g)"

definition grid_down :: "real \<Rightarrow> grid \<Rightarrow> grid" where
  "grid_down x g = g\<lparr>copies := map (copy_down x g) (copies g), dragging := (copies g \<noteq> [] \<or> dragging g)\<rparr>"

definition grid_move :: "real \<Rightarrow> grid \<Rightarrow> grid" where
  "grid_move x g = copies_move x (copies g) g"

text \<open>\<open>pointerup\<close>, \<open>pointercancel\<close> and \<open>pointerleave\<close> run the same body.\<close>

definition grid_up :: "grid \<Rightarrow> grid" where
  "grid_up g = g\<lparr>copies := map (\<lambda>c. c\<lparr>gc_isDown := False\<rparr>) (copies g), dragging := (copies g = [] \<and> dragging g)\<rparr>"

definition add_copy :: "grid \<Rightarrow> grid" where
  "add_copy g = g\<lparr>copies := copies g @ [\<lparr>gc_isDown = False, gc_startX = 0, gc_scrollLeft = 0\<rparr>]\<rparr>"

fun grid_step :: "grid_event \<Rightarrow> grid \<Rightarrow> grid" where
  "grid_step (GridDown x) g = grid_down x g"
| "grid_step (GridMove x) g = grid_move x g"
| "grid_step GridUp g = grid_up g"
| "grid_step AddCopy g = add_copy g"

fun grid_run :: "grid_event list \<Rightarrow> grid \<Rightarrow> grid" where
  "grid_run [] g = g"
| "grid_run (e # es) g = grid_run es (grid_step e g)"

definition grid_init :: "real \<Rightarrow> real \<Rightarrow> grid" where
  "grid_init m sc = \<lparr>grid_scroll = sc, grid_max = m, dragging = False, copies = []\<rparr>"

text \<open>The intended design: the listeners registered once, at the first mouse move over
  the globe; later registrations have no effect.\<close>

fun grid_step_once :: "grid_event \<Rightarrow> grid \<Rightarrow> grid" where
  "grid_step_once AddCopy g = (if copies g = [] then add_copy g else g)"
| "grid_step_once e g = grid_step e g"

fun grid_run_once :: "grid_event list \<Rightarrow> grid \<Rightarrow> grid" where
  "grid_run_once [] g = g"
| "grid_run_once (e # es) g = grid_run_once es (grid_step_once e g)"

text \<open>Every copy that is down holds the same closure as the first copy.\<close>

definition grid_inv :: "grid \<Rightarrow> bool" where
  "grid_inv g \<longleftrightarrow> (\<forall>c \<in> set (copies g). gc_isDown c \<longrightarrow> c = hd (copies g))"

definition first_copy :: "grid \<Rightarrow> grid" where
  "first_copy g = g\<lparr>copies := take 1 (copies g)\<rparr>"

lemmas grid_handlers = copy_down_def grid_down_def grid_move_def grid_up_def add_copy_def
declare grid_handlers [handler_simps]

subsection \<open>Lemmas\<close>

lemma copy_down_const:
  "copy_down x g c = \<lparr>gc_isDown = True, gc_startX = x, gc_scrollLeft = grid_scroll g\<rparr>"
  by (cases c) (simp add: copy_down_def)

lemma copies_move_copies [simp]:
  "copies (copies_move x cs g) = copies g \<and> grid_max (copies_move x cs g) = grid_max g"
  by (induction cs arbitrary: g) simp_all

lemma copies_move_idle: "\<forall>c \<in> set cs. \<not> gc_isDown c \<Longrightarrow> copies_move x cs g = g"
  by (induction cs) simp_all

lemma copies_move_fixed:
  assumes "\<forall>c' \<in> set cs. gc_isDown c' \<longrightarrow> c' = c"
    and "grid_scroll g = clamp 0 (grid_max g) (gc_scrollLeft c - (x - gc_startX c))"
  shows "copies_move x cs g = g"
  using assms(1) by (induction cs) (auto simp: assms(2) [symmetric])

lemma copies_move_first:
  assumes "\<forall>c' \<in> set (c # cs). gc_isDown c' \<longrightarrow> c' = c"
  shows "copies_move x (c # cs) g =
           (if gc_isDown c then g\<lparr>grid_scroll := clamp 0 (grid_max g) (gc_scrollLeft c - (x - gc_startX c))\<rparr> else g)"
proof (cases "gc_isDown c")
  case True
  with assms show ?thesis
    using copies_move_fixed [of cs c "g\<lparr>grid_scroll := clamp 0 (grid_max g) (gc_scrollLeft c - (x - gc_startX c))\<rparr>" x]
    by simp
next
  case False
  with assms have "\<forall>c' \<in> set cs. \<not> gc_isDown c'" by auto
  with False show ?thesis by (simp add: copies_move_idle)
qed

lemma grid_move_inv:
  "grid_inv g \<Longrightarrow> copies g = c # cs \<Longrightarrow>
   grid_move x g = (if gc_isDown c then g\<lparr>grid_scroll := clamp 0 (grid_max g) (gc_scrollLeft c - (x - gc_startX c))\<rparr> else g)"
proof -
  assume inv: "grid_inv g" and cs: "copies g = c # cs"
  then have "\<forall>c' \<in> set (c # cs). gc_isDown c' \<longrightarrow> c' = c" by (simp add: grid_inv_def)
  then show ?thesis unfolding grid_move_def cs by (rule copies_move_first)
qed

lemma grid_inv_step: "grid_inv g \<Longrightarrow> grid_inv (grid_step e g)"
proof (cases e)
  case (GridMove x)
  assume "grid_inv g"
  then show ?thesis using GridMove grid_move_inv [of g]
    by (cases "copies g") (auto simp: grid_move_def grid_inv_def)
next
  case (GridDown x)
  then show ?thesis by (cases "copies g") (simp_all add: grid_inv_def grid_down_def copy_down_const)
qed (auto simp: grid_inv_def grid_down_def grid_up_def add_copy_def copy_down_const hd_append hd_map)

lemma grid_inv_run: "grid_inv g \<Longrightarrow> grid_inv (grid_run es g)"
  by (induction es arbitrary: g) (simp_all add: grid_inv_step)

lemma first_copy_step:
  assumes "grid_inv g"
  shows "first_copy (grid_step e g) = grid_step_once e (first_copy g)"
proof (cases e)
  case (GridMove x)
  show ?thesis
  proof (cases "copies g")
    case Nil
    with GridMove show ?thesis by (simp add: grid_move_def first_copy_def)
  next
    case (Cons c cs)
    have eq: "grid_move x g = (if gc_isDown c then g\<lparr>grid_scroll := clamp 0 (grid_max g) (gc_scrollLeft c - (x - gc_startX c))\<rparr> else g)"
      using grid_move_inv [OF assms Cons] .
    from GridMove Cons show ?thesis
      unfolding GridMove grid_step.simps grid_step_once.simps eq by (simp add: first_copy_def grid_move_def Cons)
  qed
qed (auto simp: first_copy_def handler_simps take_map neq_Nil_conv)

lemma first_copy_run:
  "grid_inv g \<Longrightarrow> first_copy (grid_run es g) = grid_run_once es (first_copy g)"
  by (induction es arbitrary: g) (simp_all add: first_copy_step grid_inv_step)

lemma grid_run_copies:
  "length (copies (grid_run es g)) = length (copies g) + length (filter (\<lambda>e. e = AddCopy) es)"
proof (induction es arbitrary: g)
  case (Cons e es)
  then show ?case by (cases e) (simp_all add: grid_handlers)
qed simp

lemma moves_after_down:
  assumes "copies h = K # ks" and "\<forall>k \<in> set ks. k = K" and "gc_isDown K"
  shows "grid_run (map GridMove xs @ [GridMove x]) h =
         h\<lparr>grid_scroll := clamp 0 (grid_max h) (gc_scrollLeft K - (x - gc_startX K))\<rparr>"
  using assms
proof (induction xs arbitrary: h)
  case Nil
  then have "grid_inv h" by (simp add: grid_inv_def)
  with Nil show ?case by (simp add: grid_move_inv)
next
  case (Cons y ys)
  then have "grid_inv h" by (simp add: grid_inv_def)
  with Cons.prems have "grid_step (GridMove y) h =
      h\<lparr>grid_scroll := clamp 0 (grid_max h) (gc_scrollLeft K - (y - gc_startX K))\<rparr>"
    by (simp add: grid_move_inv)
  with Cons.IH [of "h\<lparr>grid_scroll := clamp 0 (grid_max h) (gc_scrollLeft K - (y - gc_startX K))\<rparr>"] Cons.prems
  show ?case by simp
qed

lemma grid_init_inv: "grid_inv (grid_init m sc) \<and> first_copy (grid_init m sc) = grid_init m sc"
  by (simp add: grid_inv_def first_copy_def grid_init_def)

lemma grid_idle_run:
  "copies g = [] \<Longrightarrow> AddCopy \<notin> set es \<Longrightarrow> grid_run es g = g\<lparr>dragging := dragging g\<rparr>"
proof (induction es arbitrary: g)
  case (Cons e es)
  then show ?case by (cases e) (simp_all add: grid_handlers)
qed simp

text \<open>
  C35 (the leaked copies do not change the scrolling). After any sequence of grid
  pointer events and registrations from a grid with no listener, the grid carries one
  copy of the listeners per registration, yet its scroll position and its
  \<open>dragging\<close> class are those of a grid whose listeners were registered once, at
  the first registration: every copy that is down holds the same closure.
\<close>

theorem leaked_copies_harmless:
  "grid_scroll (grid_run es (grid_init m sc)) = grid_scroll (grid_run_once es (grid_init m sc)) \<and>
   dragging (grid_run es (grid_init m sc)) = dragging (grid_run_once es (grid_init m sc)) \<and>
   length (copies (grid_run es (grid_init m sc))) = length (filter (\<lambda>e. e = AddCopy) es)"
proof -
  have "first_copy (grid_run es (grid_init m sc)) = grid_run_once es (grid_init m sc)"
    using first_copy_run [of "grid_init m sc" es] grid_init_inv [of m sc] by simp
  then have "grid_scroll (grid_run_once es (grid_init m sc)) = grid_scroll (grid_run es (grid_init m sc)) \<and>
             dragging (grid_run_once es (grid_init m sc)) = dragging (grid_run es (grid_init m sc))"
    by (metis first_copy_def grid.select_convs(1,3) grid.surjective grid.update_convs(4))
  then show ?thesis using grid_run_copies [of es "grid_init m sc"] by (simp add: grid_init_def)
qed

text \<open>
  C36 (dragging the grid scrolls it). On a grid with its listeners registered, a
  pointer pressed at \<open>x0\<close> and moved, last to \<open>x\<close>, leaves the grid scrolled by
  \<open>x0 - x\<close> from where the press found it, clamped to the scroll range.
\<close>

theorem grid_drag_scrolls:
  assumes "copies g \<noteq> []"
  shows "grid_scroll (grid_run (GridDown x0 # map GridMove xs @ [GridMove x]) g) =
         clamp 0 (grid_max g) (grid_scroll g - (x - x0))"
proof -
  let ?K = "\<lparr>gc_isDown = True, gc_startX = x0, gc_scrollLeft = grid_scroll g\<rparr>"
  obtain c cs where cs: "copies g = c # cs" using assms by (cases "copies g") auto
  have "copies (grid_step (GridDown x0) g) = ?K # map (\<lambda>_. ?K) cs"
    using cs by (simp add: grid_down_def copy_down_const)
  from moves_after_down [OF this, of xs x] show ?thesis by (simp add: grid_down_def)
qed

theorem grid_drag_scrolls_witness:
  "grid_scroll (grid_run [GridDown 300, GridMove 250, GridMove 200] (add_copy (grid_init 800 100))) = 200"
proof -
  have "copies (add_copy (grid_init 800 100)) \<noteq> []" by (simp add: add_copy_def)
  from grid_drag_scrolls [OF this, of 300 "[250]" 200] show ?thesis
    by (simp add: add_copy_def grid_init_def clamp_def)
qed

end
