(* ===== verification/Motion.thy ===== *)
theory Motion
  imports Prelude
begin

text \<open>
  The timing of the entrance animations of framer-motion, the animation library the
  React pages call (\<open>src/education.js\<close>, \<open>src/gallery.js\<close>, \<open>src/homepage.js\<close>,
  \<open>src/layout.js\<close>). The library is not part of the repository; its documented
  behaviour is modelled here, and the pages' animation props are data of this model.
  A \<open>motion\<close> element either animates from an \<open>initial\<close> object to an \<open>animate\<close>
  object with its own \<open>transition\<close> (\<open>Anim\<close>), or is a variant group
  (\<open>VarGroup\<close>): an element with \<open>variants\<close>, \<open>initial="hidden"\<close> and
  \<open>animate="visible"\<close>, whose variant descendants (the motion elements below it that
  carry \<open>variants\<close> only, through any plain elements) take its labels. A transition
  waits \<open>delay\<close> seconds after mount and runs \<open>duration\<close> seconds, the library's
  default when the prop has none; a group's \<open>staggerChildren\<close> delays its \<open>k\<close>-th
  variant descendant by \<open>k * staggerChildren\<close>. The \<open>staggerChildren\<close> of an
  element whose children animate from their own objects orchestrates nothing. The
  plain elements and the content in between do not affect the timing and are omitted.
\<close>

text \<open>An object literal of animated values (\<open>opacity\<close>, \<open>x\<close>, \<open>y\<close>), in source order.\<close>

type_synonym target = "(string \<times> real) list"

record trans =
  delay :: real
  duration :: "real option"
  staggerChildren :: real

definition no_trans :: trans where
  "no_trans = \<lparr>delay = 0, duration = None, staggerChildren = 0\<rparr>"

text \<open>A \<open>variants\<close> object with its two labels; \<open>visible_trans\<close> is \<open>visible.transition\<close>.\<close>

record variants =
  hidden :: target
  visible :: target
  visible_trans :: trans

datatype motion =
    Anim target target trans
  | VarGroup variants "variants list"

text \<open>The schedule of one animation: from which style to which, and when.\<close>

record timing =
  from_style :: target
  to_style :: target
  start :: real
  finish :: real

definition dur :: "real \<Rightarrow> trans \<Rightarrow> real" where
  "dur d tr = (case duration tr of None \<Rightarrow> d | Some x \<Rightarrow> x)"

definition anim_timing :: "real \<Rightarrow> real \<Rightarrow> target \<Rightarrow> target \<Rightarrow> trans \<Rightarrow> timing" where
  "anim_timing d t0 i a tr =
    \<lparr>from_style = i, to_style = a, start = t0 + delay tr, finish = t0 + delay tr + dur d tr\<rparr>"

text \<open>
  The animations an element starts at mount (time 0), in document order; \<open>d\<close> is the
  library's default duration.
\<close>

fun timings :: "real \<Rightarrow> motion \<Rightarrow> timing list" where
  "timings d (Anim i a tr) = [anim_timing d 0 i a tr]"
| "timings d (VarGroup v ws) =
     anim_timing d 0 (hidden v) (visible v) (visible_trans v) #
     map (\<lambda>(k, w). anim_timing d (real k * staggerChildren (visible_trans v))
                     (hidden w) (visible w) (visible_trans w))
         (enumerate 0 ws)"

definition page_timings :: "real \<Rightarrow> motion list \<Rightarrow> timing list" where
  "page_timings d ms = concat (map (timings d) ms)"

text \<open>An element's own animation (the first of its timings).\<close>

definition own_timing :: "real \<Rightarrow> motion \<Rightarrow> timing" where
  "own_timing d m = hd (timings d m)"

text \<open>The time at which every entrance animation of a page has finished.\<close>

definition entrance_end :: "real \<Rightarrow> motion list \<Rightarrow> real" where
  "entrance_end d ms = foldr (\<lambda>tm m. max (finish tm) m) (page_timings d ms) 0"

text \<open>
  The value of a property at time \<open>t\<close>: the initial value until the animation starts,
  the target value once it has finished, and in between the initial value moved by
  the eased progress; \<open>ease\<close> is the library's easing curve.
\<close>

definition value_at :: "(real \<Rightarrow> real) \<Rightarrow> timing \<Rightarrow> string \<Rightarrow> real \<Rightarrow> real option" where
  "value_at ease tm p t =
    (case (map_of (from_style tm) p, map_of (to_style tm) p) of
       (Some x, Some y) \<Rightarrow>
         Some (if t \<le> start tm then x
               else if finish tm \<le> t then y
               else x + ease ((t - start tm) / (finish tm - start tm)) * (y - x))
     | _ \<Rightarrow> None)"

subsection \<open>Lemmas\<close>

lemma timings_VarGroup_nth:
  assumes "k < length ws"
  shows "timings d (VarGroup v ws) ! Suc k =
           anim_timing d (real k * staggerChildren (visible_trans v))
             (hidden (ws ! k)) (visible (ws ! k)) (visible_trans (ws ! k))"
  using assms by (simp add: nth_enumerate_eq)

lemma length_timings [simp]:
  "length (timings d (Anim i a tr)) = 1"
  "length (timings d (VarGroup v ws)) = Suc (length ws)"
  by simp_all

lemma entrance_end_ge:
  "tm \<in> set (page_timings d ms) \<Longrightarrow> finish tm \<le> entrance_end d ms"
proof -
  have "\<And>tms. tm \<in> set tms \<Longrightarrow> finish tm \<le> foldr (\<lambda>tm m. max (finish tm) m) tms 0"
  proof -
    fix tms show "tm \<in> set tms \<Longrightarrow> finish tm \<le> foldr (\<lambda>tm m. max (finish tm) m) tms 0"
      by (induction tms) auto
  qed
  then show "tm \<in> set (page_timings d ms) \<Longrightarrow> finish tm \<le> entrance_end d ms"
    by (simp add: entrance_end_def)
qed

lemma value_at_before:
  "t \<le> start tm \<Longrightarrow> map_of (from_style tm) p = Some x \<Longrightarrow> map_of (to_style tm) p = Some y \<Longrightarrow>
   value_at ease tm p t = Some x"
  by (simp add: value_at_def)

lemma value_at_after:
  "start tm < t \<Longrightarrow> finish tm \<le> t \<Longrightarrow> map_of (from_style tm) p = Some x \<Longrightarrow>
   map_of (to_style tm) p = Some y \<Longrightarrow> value_at ease tm p t = Some y"
  by (simp add: value_at_def)

lemmas motion_simps = page_timings_def own_timing_def anim_timing_def dur_def no_trans_def
declare motion_simps [handler_simps]

end
