(* ===== verification/Education.thy ===== *)
theory Education
  imports Motion
begin

text \<open>
  The Education page, \<open>src/education.js\<close>: static markup whose only code is the
  entrance animation of its blocks. \<open>containerVariants\<close> and \<open>itemVariants\<close>
  (lines 6-23) are \<open>variants\<close> objects; the page's motion elements, in document
  order, are the title block (29-33), two variant groups (44-48 and 78-82) whose
  variant descendants are the two columns (50, 65) and the heading and three cards
  (84-85, 92-93, 105-106, 118-119), and the legacy block (133-136). The text, images
  and classes between them are content and are not modelled.
\<close>

definition containerVariants :: variants where
  "containerVariants =
    \<lparr>hidden = [(''opacity'', 0)],
     visible = [(''opacity'', 1)],
     visible_trans = no_trans\<lparr>staggerChildren := 0.2\<rparr>\<rparr>"

definition itemVariants :: variants where
  "itemVariants =
    \<lparr>hidden = [(''opacity'', 0), (''y'', 20)],
     visible = [(''opacity'', 1), (''y'', 0)],
     visible_trans = no_trans\<lparr>duration := Some 0.6\<rparr>\<rparr>"

definition education_page :: "motion list" where
  "education_page =
    [Anim [(''opacity'', 0), (''y'', -20)] [(''opacity'', 1), (''y'', 0)]
          (no_trans\<lparr>duration := Some 0.8\<rparr>),
     VarGroup containerVariants [itemVariants, itemVariants],
     VarGroup containerVariants [itemVariants, itemVariants, itemVariants, itemVariants],
     Anim [(''opacity'', 0)] [(''opacity'', 1)]
          (no_trans\<lparr>delay := 0.8, duration := Some 0.8\<rparr>)]"

lemmas education_defs = education_page_def containerVariants_def itemVariants_def

text \<open>
  The schedule the model gives the page. With the library's default duration \<open>d\<close>
  for the two groups' own fade, the page's animations start in document order at 0, 0,
  0, 0.2 (the second column, staggered), 0, 0, 0.2, 0.4, 0.6 (the heading and the three
  cards, 0.2 s apart) and 0.8 s (the legacy block); the entrance has finished at 1.6 s,
  or after the default duration if that is longer, and every element ends opaque and
  at its place.
\<close>

lemma education_entrance:
  "map start (page_timings d education_page) = [0, 0, 0, 0.2, 0, 0, 0.2, 0.4, 0.6, 0.8] \<and>
   entrance_end d education_page = max 1.6 d \<and>
   (\<forall>tm \<in> set (page_timings d education_page).
      map_of (to_style tm) ''opacity'' = Some 1 \<and> map_of (to_style tm) ''y'' \<in> {None, Some 0})"
proof (intro conjI)
  show "map start (page_timings d education_page) = [0, 0, 0, 0.2, 0, 0, 0.2, 0.4, 0.6, 0.8]"
    by (simp add: education_defs motion_simps)
  show "entrance_end d education_page = max 1.6 d"
    by (simp add: entrance_end_def education_defs motion_simps max_def)
  show "\<forall>tm \<in> set (page_timings d education_page).
          map_of (to_style tm) ''opacity'' = Some 1 \<and> map_of (to_style tm) ''y'' \<in> {None, Some 0}"
    by (simp add: education_defs motion_simps)
qed

end
