(* ===== verification/Page_Motion.thy ===== *)
theory Page_Motion
  imports Motion Gallery Layout
begin

text \<open>
  The entrance animations of the gallery page (\<open>src/gallery.js\<close> lines 24-53) and of
  the home page's overlays (\<open>src/homepage.js\<close> lines 245-263), in the timing model
  of Motion.thy. On the gallery page the grid of cards (42-47) carries
  \<open>staggerChildren\<close>, but each card animates from its own objects with its own delay
  \<open>idx * 0.1\<close> (49-53), so the stagger orchestrates nothing. On the home page the
  loading overlay is rendered while the state \<open>isLoading\<close> (line 7) is true; the
  mount effect sets it to false (line 171) unless it returned early for a missing
  mount node (line 10). Nothing wraps the overlay in \<open>AnimatePresence\<close>, so it is
  removed without an exit animation. The navigation bar (\<open>src/layout.js\<close>) enters
  with its logo (22-25), its desktop items, item \<open>idx\<close> after \<open>idx * 0.1\<close> s
  (45-48), and its \<open>Live\<close> badge (62-66), all with the library's default duration.
\<close>

subsection \<open>The gallery page\<close>

definition gallery_header :: motion where
  "gallery_header =
    Anim [(''opacity'', 0), (''y'', -20)] [(''opacity'', 1), (''y'', 0)]
         (no_trans\<lparr>duration := Some 0.8\<rparr>)"

definition gallery_grid :: motion where
  "gallery_grid =
    Anim [(''opacity'', 0)] [(''opacity'', 1)] (no_trans\<lparr>delay := 0.3, staggerChildren := 0.1\<rparr>)"

definition gallery_card :: "nat \<Rightarrow> motion" where
  "gallery_card idx =
    Anim [(''opacity'', 0), (''y'', 20)] [(''opacity'', 1), (''y'', 0)]
         (no_trans\<lparr>delay := real idx * 0.1, duration := Some 0.6\<rparr>)"

definition gallery_motion :: "motion list" where
  "gallery_motion =
    [gallery_header, gallery_grid] @ map gallery_card [0 ..< length cupolaImages]"

subsection \<open>The home page\<close>

definition loading_overlay :: motion where
  "loading_overlay =
    Anim [(''opacity'', 1)] [(''opacity'', 0)] (no_trans\<lparr>delay := 1, duration := Some 0.5\<rparr>)"

definition home_title :: motion where
  "home_title =
    Anim [(''opacity'', 0), (''y'', 20)] [(''opacity'', 1), (''y'', 0)]
         (no_trans\<lparr>delay := 1.5, duration := Some 1\<rparr>)"

definition home_motion :: "bool \<Rightarrow> motion list" where
  "home_motion isLoading = (if isLoading then [loading_overlay] else []) @ [home_title]"

text \<open>
  \<open>isLoading\<close> at time \<open>t\<close> after the first render: the effect runs at \<open>te\<close> and clears
  it when the mount node exists.
\<close>

definition isLoading_at :: "bool \<Rightarrow> real \<Rightarrow> real \<Rightarrow> bool" where
  "isLoading_at mounted te t = (\<not> mounted \<or> t < te)"

text \<open>The overlay's opacity on screen at time \<open>t\<close>; \<open>None\<close> once it is unmounted.\<close>

definition overlay_opacity ::
  "(real \<Rightarrow> real) \<Rightarrow> real \<Rightarrow> bool \<Rightarrow> real \<Rightarrow> real \<Rightarrow> real option" where
  "overlay_opacity ease d mounted te t =
    (if loading_overlay \<in> set (home_motion (isLoading_at mounted te t))
     then value_at ease (own_timing d loading_overlay) ''opacity'' t
     else None)"

subsection \<open>The navigation bar\<close>

definition layout_logo :: motion where
  "layout_logo = Anim [(''opacity'', 0), (''x'', -20)] [(''opacity'', 1), (''x'', 0)] no_trans"

definition layout_nav_item :: "nat \<Rightarrow> motion" where
  "layout_nav_item idx =
    Anim [(''opacity'', 0), (''y'', -10)] [(''opacity'', 1), (''y'', 0)]
         (no_trans\<lparr>delay := real idx * 0.1\<rparr>)"

definition layout_live :: motion where
  "layout_live = Anim [(''opacity'', 0), (''x'', 20)] [(''opacity'', 1), (''x'', 0)] no_trans"

definition layout_motion :: "(string \<Rightarrow> string) \<Rightarrow> motion list" where
  "layout_motion createPageUrl =
    [layout_logo] @ map layout_nav_item [0 ..< length (navItems createPageUrl)] @ [layout_live]"

lemmas page_motion_defs = gallery_header_def gallery_grid_def gallery_card_def gallery_motion_def
  loading_overlay_def home_title_def home_motion_def
  layout_logo_def layout_nav_item_def layout_live_def layout_motion_def

subsection \<open>Lemmas\<close>

lemma length_cupolaImages: "length cupolaImages = 9"
  by (simp add: cupolaImages_def)

lemma gallery_card_timing:
  "timings d (gallery_card idx) =
     [\<lparr>from_style = [(''opacity'', 0), (''y'', 20)], to_style = [(''opacity'', 1), (''y'', 0)],
       start = real idx * 0.1, finish = real idx * 0.1 + 0.6\<rparr>]"
  by (simp add: gallery_card_def motion_simps)

lemma gallery_page_timings:
  "page_timings d gallery_motion =
     timings d gallery_header @ timings d gallery_grid @
     concat (map (\<lambda>idx. timings d (gallery_card idx)) [0 ..< 9])"
  by (simp add: gallery_motion_def page_timings_def length_cupolaImages comp_def)

lemma gallery_grid_timing:
  "timings d gallery_grid =
     [\<lparr>from_style = [(''opacity'', 0)], to_style = [(''opacity'', 1)], start = 0.3, finish = 0.3 + d\<rparr>]"
  by (simp add: gallery_grid_def motion_simps)

lemma overlay_timing:
  "own_timing d loading_overlay =
     \<lparr>from_style = [(''opacity'', 1)], to_style = [(''opacity'', 0)], start = 1, finish = 1.5\<rparr>"
  by (simp add: loading_overlay_def motion_simps)

lemma overlay_shown:
  "loading_overlay \<in> set (home_motion (isLoading_at mounted te t)) \<longleftrightarrow> \<not> mounted \<or> t < te"
  by (simp add: home_motion_def isLoading_at_def loading_overlay_def home_title_def)

text \<open>
  The navigation bar has entered once its last item has: \<open>0.3 s\<close> plus the default
  duration.
\<close>

lemma layout_entrance_end:
  assumes "0 \<le> d"
  shows "entrance_end d (layout_motion createPageUrl) = 0.3 + d"
  using assms
  by (simp add: entrance_end_def layout_motion_def navItems_def layout_logo_def layout_nav_item_def
                layout_live_def motion_simps upt_rec max_def)

text \<open>
  The schedule of the gallery's entrance. The title starts at once and the grid fades in
  from 0.3 s for the default duration \<open>d\<close>; card \<open>i\<close> of the nine runs from
  \<open>0.1 i\<close> to \<open>0.1 i + 0.6\<close> s, by its own delay; the entrance has finished at 1.4 s
  (or when the grid has, if later), and the first three cards start fading in while the
  grid is still transparent.
\<close>

lemma gallery_entrance:
  "map start (page_timings d gallery_motion) = [0, 0.3] @ map (\<lambda>i. real i * 0.1) [0 ..< 9] \<and>
   map finish (page_timings d gallery_motion) = [0.8, 0.3 + d] @ map (\<lambda>i. real i * 0.1 + 0.6) [0 ..< 9] \<and>
   entrance_end d gallery_motion = max 1.4 (0.3 + d) \<and>
   (\<forall>i < 3. value_at ease (own_timing d gallery_grid) ''opacity'' (real i * 0.1) = Some 0)"
proof (intro conjI)
  show "map start (page_timings d gallery_motion) = [0, 0.3] @ map (\<lambda>i. real i * 0.1) [0 ..< 9]"
    by (simp add: gallery_page_timings gallery_card_timing gallery_grid_timing gallery_header_def
                  anim_timing_def dur_def no_trans_def upt_rec)
  show "map finish (page_timings d gallery_motion) =
          [0.8, 0.3 + d] @ map (\<lambda>i. real i * 0.1 + 0.6) [0 ..< 9]"
    by (simp add: gallery_page_timings gallery_card_timing gallery_grid_timing gallery_header_def
                  anim_timing_def dur_def no_trans_def upt_rec)
  show "entrance_end d gallery_motion = max 1.4 (0.3 + d)"
    by (simp add: entrance_end_def gallery_page_timings gallery_card_timing gallery_grid_timing
                  gallery_header_def anim_timing_def dur_def no_trans_def upt_rec max_def)
  show "\<forall>i < 3. value_at ease (own_timing d gallery_grid) ''opacity'' (real i * 0.1) = Some 0"
    by (auto simp: own_timing_def gallery_grid_timing value_at_def)
qed

text \<open>
  C39 (the loading overlay never fades). When the mount effect has run by \<open>te \<le> 1\<close>
  s, the overlay is fully opaque for as long as it is on screen and gone from \<open>te\<close> on:
  its fade, due from 1 s to 1.5 s, never plays, and the title alone enters from 1.5 s
  to 2.5 s. Only when the effect returned early for a missing mount node does the
  overlay fade, and then it stays mounted, transparent, over the page.
\<close>

theorem loading_overlay_no_fade:
  assumes "te \<le> 1"
  shows "(\<forall>t < te. overlay_opacity ease d True te t = Some 1) \<and>
         (\<forall>t \<ge> te. overlay_opacity ease d True te t = None) \<and>
         map start (page_timings d (home_motion False)) = [1.5] \<and>
         map finish (page_timings d (home_motion False)) = [2.5] \<and>
         (\<forall>t \<ge> 1.5. overlay_opacity ease d False te t = Some 0)"
proof (intro conjI allI impI)
  fix t assume "t < te"
  with assms have "t \<le> start (own_timing d loading_overlay)"
    by (simp add: overlay_timing)
  with \<open>t < te\<close> show "overlay_opacity ease d True te t = Some 1"
    by (simp add: overlay_opacity_def overlay_shown value_at_before overlay_timing)
next
  fix t assume "te \<le> t"
  then show "overlay_opacity ease d True te t = None"
    by (simp add: overlay_opacity_def overlay_shown)
next
  fix t :: real assume "1.5 \<le> t"
  then have "start (own_timing d loading_overlay) < t" "finish (own_timing d loading_overlay) \<le> t"
    by (simp_all add: overlay_timing)
  then show "overlay_opacity ease d False te t = Some 0"
    by (simp add: overlay_opacity_def overlay_shown value_at_after overlay_timing)
qed (simp_all add: home_motion_def home_title_def motion_simps)

theorem loading_overlay_no_fade_witness:
  "overlay_opacity (\<lambda>x. x) 0.3 True 0.1 0.05 = Some 1 \<and> overlay_opacity (\<lambda>x. x) 0.3 True 0.1 1.2 = None"
proof -
  have "(0.1::real) \<le> 1" "(0.05::real) < 0.1" "(0.1::real) \<le> 1.2" by simp_all
  with loading_overlay_no_fade [of "0.1" "\<lambda>x. x" "0.3"] show ?thesis by blast
qed

end
