(* ===== verification/Main_Page.thy ===== *)
theory Main_Page
  imports Globe_Vanilla Mascot Carousel
begin

text \<open>
  The page of \<open>src/main.js\<close> as one system: the mascot, the globe and the disaster
  carousel keep disjoint state but share the browser's events. A user gesture reaches
  every listener registered for the DOM events it fires: a mouse press on the globe
  fires \<open>pointerdown\<close>, which bubbles to the mascot's window listener (lines 45-47),
  and then \<open>mousedown\<close> on the canvas (line 259); a press on a carousel button fires
  \<open>pointerdown\<close> and then \<open>click\<close> (153-154); a window resize runs the carousel's
  listener (161) and the globe's (303). Each component runs its listeners in this
  order on its own state, so the page step is the product of the three component
  steps, each fed the events the gesture fires for it.
\<close>

record main_page =
  pg_mascot :: mascot
  pg_globe :: vanilla
  pg_carousel :: carousel

text \<open>
  The gestures: on the globe canvas (mouse press, move and release, a touch and its
  end), on the carousel (a button, a press, move and release on the track), a key, a
  window resize to \<open>W \<times> H\<close> that gives the track the width \<open>tw\<close>, the mascot's
  timeout and an animation frame.
\<close>

datatype gesture =
    GMousePress px px | GMouseMove px px | GMouseRelease | GTouch px px | GTouchEnd
  | GButton bool | GTrackPress real | GTrackMove real | GTrackRelease
  | GKey | GResize real real real | GTimeout | GFrame

text \<open>The mascot's listeners a gesture reaches: \<open>pointerdown\<close>, \<open>keydown\<close>, \<open>touchstart\<close> on the window, and its timeout.\<close>

fun mascot_listeners :: "gesture \<Rightarrow> mevent list" where
  "mascot_listeners (GMousePress x y) = [Interaction IPointerDown]"
| "mascot_listeners (GTouch x y) = [Interaction IPointerDown, Interaction ITouchStart]"
| "mascot_listeners (GButton b) = [Interaction IPointerDown]"
| "mascot_listeners (GTrackPress x) = [Interaction IPointerDown]"
| "mascot_listeners GKey = [Interaction IKeyDown]"
| "mascot_listeners GTimeout = [TimerFires]"
| "mascot_listeners g = []"

text \<open>
  The globe's listeners: a mouse move fires \<open>pointermove\<close> before \<open>mousemove\<close>; a touch
  on the canvas fires \<open>touchstart\<close> (its \<open>pointermove\<close>s are not of type mouse).
\<close>

fun globe_listeners :: "gesture \<Rightarrow> vevent list" where
  "globe_listeners (GMousePress x y) = [MouseDown x y]"
| "globe_listeners (GMouseMove x y) = [PointerMove Mouse x y, MouseMove x y]"
| "globe_listeners GMouseRelease = [MouseUp]"
| "globe_listeners (GTouch x y) = [TouchStart x y]"
| "globe_listeners GTouchEnd = [TouchEnd]"
| "globe_listeners (GResize W H tw) = [WinResize W H]"
| "globe_listeners GFrame = [Frame]"
| "globe_listeners g = []"

fun carousel_listeners :: "gesture \<Rightarrow> cevent list" where
  "carousel_listeners (GButton b) = [if b then CNext else CPrev]"
| "carousel_listeners (GTrackPress x) = [CPointerDown x]"
| "carousel_listeners (GTrackMove x) = [CPointerMove x]"
| "carousel_listeners GTrackRelease = [CPointerUp]"
| "carousel_listeners (GResize W H tw) = [CResize tw]"
| "carousel_listeners g = []"

definition main_step :: "raycaster \<Rightarrow> rect \<Rightarrow> bool \<Rightarrow> gesture \<Rightarrow> main_page \<Rightarrow> main_page" where
  "main_step ray r gal g p =
    \<lparr>pg_mascot = mascot_run (mascot_listeners g) (pg_mascot p),
     pg_globe = vanilla_run ray r gal (globe_listeners g) (pg_globe p),
     pg_carousel = carousel_run (carousel_listeners g) (pg_carousel p)\<rparr>"

fun main_run :: "raycaster \<Rightarrow> rect \<Rightarrow> bool \<Rightarrow> gesture list \<Rightarrow> main_page \<Rightarrow> main_page" where
  "main_run ray r gal [] p = p"
| "main_run ray r gal (g # gs) p = main_run ray r gal gs (main_step ray r gal g p)"

text \<open>The page after loading: the three set-ups; no carousel without its track.\<close>

definition main_load :: "bool \<Rightarrow> real \<Rightarrow> real \<Rightarrow> (nat \<Rightarrow> rad) \<Rightarrow> bool \<Rightarrow> real \<Rightarrow> main_page option" where
  "main_load m0 w h ph has_track tw =
    map_option (\<lambda>c. \<lparr>pg_mascot = mascot_init m0, pg_globe = init_vanilla w h ph, pg_carousel = c\<rparr>)
      (carousel_init has_track tw)"

text \<open>The gestures a user makes with a pointer or a key, which the mascot's window listeners catch.\<close>

fun presses :: "gesture \<Rightarrow> bool" where
  "presses (GMousePress x y) = True"
| "presses (GTouch x y) = True"
| "presses (GButton b) = True"
| "presses (GTrackPress x) = True"
| "presses GKey = True"
| "presses g = False"

text \<open>A resize that leaves the carousel's section shown gives its track a positive width.\<close>

fun shown_resize :: "gesture \<Rightarrow> bool" where
  "shown_resize (GResize W H tw) = (0 < tw)"
| "shown_resize g = True"

text \<open>The page invariant: each component's own.\<close>

definition page_inv :: "main_page \<Rightarrow> bool" where
  "page_inv p \<longleftrightarrow>
     mascot_inv (pg_mascot p) \<and> cursor_inv (pg_globe p) \<and>
     3 \<le> cam_z (pg_globe p) \<and> cam_z (pg_globe p) \<le> 10 \<and> carousel_ok (pg_carousel p)"

subsection \<open>Lemmas\<close>

lemma main_run_parts:
  "pg_mascot (main_run ray r gal gs p) = mascot_run (concat (map mascot_listeners gs)) (pg_mascot p) \<and>
   pg_globe (main_run ray r gal gs p) = vanilla_run ray r gal (concat (map globe_listeners gs)) (pg_globe p) \<and>
   pg_carousel (main_run ray r gal gs p) = carousel_run (concat (map carousel_listeners gs)) (pg_carousel p)"
  by (induction gs arbitrary: p)
     (simp_all add: main_step_def mascot_run_append vanilla_run_append carousel_run_append)

lemma mascot_inv_run: "mascot_inv s \<Longrightarrow> mascot_inv (mascot_run es s)"
  by (induction es arbitrary: s) (simp_all add: mascot_inv_step)

lemma shown_resize_widths:
  "list_all shown_resize gs \<Longrightarrow> list_all positive_width (concat (map carousel_listeners gs))"
proof (induction gs)
  case (Cons g gs)
  then show ?case by (cases g) simp_all
qed simp

lemma main_load_Some:
  "main_load m0 w h ph True tw = Some p \<Longrightarrow>
   pg_mascot p = mascot_init m0 \<and> pg_globe p = init_vanilla w h ph \<and>
   pg_carousel p = \<lparr>slideIndex = Some 0, scrollLeft = 0, clientWidth = tw, isDown = False,
                     startX = 0, startScroll = 0\<rparr>"
  by (auto simp: main_load_def carousel_init_def)

lemma page_inv_load:
  assumes "main_load m0 w h ph True tw = Some p" and "0 < tw"
  shows "page_inv p"
proof -
  have "carousel_ok (pg_carousel p)"
    using main_load_Some [OF assms(1)] assms(2)
    by (simp add: carousel_ok_def aligned_def)
  with main_load_Some [OF assms(1)] show ?thesis
    by (simp add: page_inv_def mascot_inv_def mascot_init_def startTimer_def cursor_inv_def)
qed

lemma page_inv_run:
  assumes "page_inv p" and "list_all shown_resize gs"
  shows "page_inv (main_run ray r gal gs p)"
  using assms mascot_inv_run cursor_inv_run cam_z_run_bounded carousel_ok_run [OF _ shown_resize_widths]
  by (simp add: page_inv_def main_run_parts)

text \<open>
  Before the auto-minimize, the first window listener a press or key reaches reopens a
  minimized mascot and restarts its timer; the further ones find it open.
\<close>

lemma press_reopens:
  assumes "presses g" and "minimized m" and "\<not> autoMinimizedOnce m"
  shows "\<not> minimized (mascot_run (mascot_listeners g) m) \<and> timer (mascot_run (mascot_listeners g) m)"
  using assms by (cases g) (simp_all add: handler_simps Let_def)

text \<open>
  C9 (the page keeps every component's invariant, and a press anywhere reopens the
  mascot). On the page of \<open>main.js\<close> loaded with a carousel track of positive
  width, after any gestures whose window resizes keep the carousel's section shown, the
  mascot's timer invariant, the globe's cursor classes, the camera bound \<open>[3, 10]\<close> and
  the carousel's alignment all hold at once. Because the mascot listens on the window,
  the components are not independent for the user: before the auto-minimize, a press
  on the globe, a touch, a carousel button or track, or a key reopens a mascot the user
  had minimized and restarts its timer.
\<close>

theorem page_invariant:
  assumes "main_load m0 w h ph True tw = Some p0" and "0 < tw" and "list_all shown_resize gs"
  shows "page_inv (main_run ray r gal gs p0) \<and>
         (presses g \<and> minimized (pg_mascot (main_run ray r gal gs p0)) \<and>
          \<not> autoMinimizedOnce (pg_mascot (main_run ray r gal gs p0)) \<longrightarrow>
            \<not> minimized (pg_mascot (main_step ray r gal g (main_run ray r gal gs p0))) \<and>
            timer (pg_mascot (main_step ray r gal g (main_run ray r gal gs p0))))"
proof
  show "page_inv (main_run ray r gal gs p0)"
    using page_inv_run [OF page_inv_load [OF assms(1,2)] assms(3)] .
  show "presses g \<and> minimized (pg_mascot (main_run ray r gal gs p0)) \<and>
          \<not> autoMinimizedOnce (pg_mascot (main_run ray r gal gs p0)) \<longrightarrow>
          \<not> minimized (pg_mascot (main_step ray r gal g (main_run ray r gal gs p0))) \<and>
          timer (pg_mascot (main_step ray r gal g (main_run ray r gal gs p0)))"
    using press_reopens by (simp add: main_step_def)
qed

theorem page_invariant_witness:
  "page_inv (main_run (\<lambda>_ _ _. True) \<lparr>r_left = 0, r_top = 0, r_width = 800, r_height = 600\<rparr> True
     [GResize 1000 800 1000, GFrame] (the (main_load True 800 600 (\<lambda>_. 0) True 800))) \<and>
   \<not> minimized (pg_mascot (main_step (\<lambda>_ _ _. True) \<lparr>r_left = 0, r_top = 0, r_width = 800, r_height = 600\<rparr>
     True (GMousePress 10 10)
     (main_run (\<lambda>_ _ _. True) \<lparr>r_left = 0, r_top = 0, r_width = 800, r_height = 600\<rparr> True
        [GResize 1000 800 1000, GFrame] (the (main_load True 800 600 (\<lambda>_. 0) True 800)))))"
proof -
  let ?ray = "\<lambda>_ _ _. True :: bool" and ?r = "\<lparr>r_left = 0, r_top = 0, r_width = 800, r_height = 600\<rparr>"
  let ?gs = "[GResize 1000 800 1000, GFrame]" and ?p0 = "the (main_load True 800 600 (\<lambda>_. 0) True 800)"
  have load: "main_load True 800 600 (\<lambda>_. 0) True 800 = Some ?p0"
    by (simp add: main_load_def carousel_init_def)
  have "list_all shown_resize ?gs" "(0::real) < 800" by simp_all
  note inv = page_invariant [OF load this(2) this(1), of ?ray ?r True "GMousePress 10 10"]
  have m: "pg_mascot (main_run ?ray ?r True ?gs ?p0) = mascot_init True"
    using main_load_Some [OF load] by (simp only: main_run_parts) simp
  have "presses (GMousePress 10 10)" by simp
  moreover have "minimized (pg_mascot (main_run ?ray ?r True ?gs ?p0))"
    "\<not> autoMinimizedOnce (pg_mascot (main_run ?ray ?r True ?gs ?p0))"
    unfolding m by (simp_all add: mascot_init_def startTimer_def)
  ultimately show ?thesis using inv by blast
qed

end
