(* ===== verification/Spec2Isabelle.thy ===== *)
theory Spec2Isabelle
  imports Frames Globe_Vanilla Globe_React Mascot Carousel Routing Layout Lightbox Gallery Textures Stars Grid_Drag Education Page_Motion Main_Page
begin

text \<open>
  \<^bold>\<open>CupolaExpress: a verification model of the interactive pages.\<close>

  The repository is a small web site about the ISS Cupola. Its only stateful code is
  the interaction logic in \<open>src/main.js\<close> (a plain script: hash routing, the mascot's
  auto-minimize, the gallery lightbox, the disaster carousel and a Three.js globe with
  textures and a star field) and in \<open>src/homepage.js\<close> (a React component with a
  second copy of the globe), \<open>src/gallery.js\<close> (a React lightbox) and
  \<open>src/layout.js\<close> (the navigation bar); \<open>src/education.js\<close> is static markup with
  an entrance animation. The parts share no state; each theory below is one part, driven by
  its own event datatype, and the two globe controllers share the scene of
  \<^theory_text>\<open>Globe\<close>.

  \<^bold>\<open>Theories.\<close>
  \<^item> \<^theory_text>\<open>Prelude\<close>: the JavaScript number operations the code uses, as reals:
    \<open>clamp\<close> (\<open>Math.max(lo, Math.min(hi, v))\<close>), \<open>js_round\<close> (\<open>Math.round\<close>),
    \<open>js_div\<close> (division that is \<open>None\<close> where the double would be non-finite), the
    truncating remainder \<open>smod\<close> for \<open>%\<close>; the collection \<open>handler_simps\<close> of the
    handlers' equations; closed forms for iterated frames and geometric damping; list
    lemmas for filters and for removing an element by index.
  \<^item> \<^theory_text>\<open>Globe\<close>: the scene both globe controllers share (record \<open>globe\<close>: the
    Earth's rotation and velocity, the drag flag and last pointer position, the camera
    distance and aspect, the planets and the stars), and the code both files contain
    verbatim: \<open>animate\<close> (\<open>main.js\<close> 306-313 = \<open>homepage.js\<close> 174-202),
    \<open>onWheel\<close>, \<open>resize\<close>, the velocity update of a drag, the planet set-up (each
    file's \<open>planetConfigs\<close>: textured in \<open>main.js\<close>, coloured in
    \<open>homepage.js\<close>, the same orbits) and the
    device-coordinate computation of \<open>checkPointerOverEarth\<close>. Three.js's raycaster
    is a parameter (\<open>raycaster\<close>). The lemmas give each field after one frame and
    after \<open>n\<close> frames.
  \<^item> \<^theory_text>\<open>Frames\<close>: the properties of the frame function over many frames.
  \<^item> \<^theory_text>\<open>Globe_Vanilla\<close>: \<open>main.js\<close>'s controller (record \<open>vanilla\<close> extends
    \<open>globe\<close>): one definition per listener (\<open>onDown\<close>, \<open>onMove\<close>, \<open>onUp\<close>, the
    \<open>pointerleave\<close>, touch and canvas \<open>pointermove\<close> listeners), dispatched by
    \<open>vanilla_step\<close> on the event datatype \<open>vevent\<close> and run by \<open>vanilla_run\<close>.
  \<^item> \<^theory_text>\<open>Globe_React\<close>: \<open>homepage.js\<close>'s controller (record \<open>react\<close> extends
    \<open>globe\<close> with the touch tracker and the mount lifecycle): \<open>mount\<close>, the handlers,
    \<open>react_frame\<close> and \<open>cleanup\<close>, whose \<open>removeChild\<close> failure is the error
    \<open>NotFoundError\<close> of a sum result; the reachable states \<open>react_reach\<close> as an
    inductive set.
  \<^item> \<^theory_text>\<open>Textures\<close>: \<open>loadWithFallback\<close> of \<open>main.js\<close> (188-196), its planet
    textures (223) and the remote-only textures of \<open>homepage.js\<close> (44-50), with the
    texture loader as a list of outstanding requests answered in any order
    (\<open>complete\<close>, reachability \<open>tex_reach\<close> from a set-up) and the network as a
    predicate on URLs.
  \<^item> \<^theory_text>\<open>Stars\<close>: the star loops of \<open>main.js\<close> (233) and \<open>homepage.js\<close>
    (86-92), with the results of \<open>Math.random()\<close> as an input sequence.
  \<^item> \<^theory_text>\<open>Mascot\<close>: the mascot of \<open>main.js\<close> (11-49): record \<open>mascot\<close> (the
    \<open>minimized\<close> class, the pending timeout, \<open>autoMinimizedOnce\<close>), the handlers
    \<open>toggle\<close>, \<open>open_mascot\<close>, \<open>timer_fires\<close>, \<open>on_click\<close>,
    \<open>on_interaction\<close>, and the reachable states \<open>mascot_reach\<close> as an inductive set.
  \<^item> \<^theory_text>\<open>Carousel\<close>: the disaster carousel of \<open>main.js\<close> (114-162): record
    \<open>carousel\<close> with \<open>slideIndex\<close> as \<open>int option\<close> (\<open>None\<close> is NaN),
    \<open>showSlide\<close>, the buttons, the drag listeners and the resize listener; the
    browser's clamping of \<open>scrollLeft\<close> is \<open>set_scroll\<close>.
  \<^item> \<^theory_text>\<open>Routing\<close>: \<open>activateFromHash\<close> of \<open>main.js\<close> (1-9) on the tabs' links
    and the sections' ids.
  \<^item> \<^theory_text>\<open>Layout\<close>: the navigation items and their active highlight in
    \<open>layout.js\<close>; \<open>createPageUrl\<close> (imported from outside the repository) is a
    parameter.
  \<^item> \<^theory_text>\<open>Lightbox\<close>: the thumbnails and lightbox of \<open>main.js\<close> (53-112), one
    swipe detector per thumbnail (record \<open>thumb\<close>), event datatype \<open>gevent\<close>.
  \<^item> \<^theory_text>\<open>Gallery\<close>: \<open>gallery.js\<close>: the \<open>selectedImage\<close> hook and the
    \<open>onClick\<close> props, a click dispatched along the target's ancestors (\<open>path\<close>)
    until \<open>stopPropagation\<close> (\<open>bubble\<close>).
  \<^item> \<^theory_text>\<open>Grid_Drag\<close>: the gallery grid's drag-to-scroll listeners of
    \<open>main.js\<close> (286-297), one closure per registered copy (\<open>copies\<close>), run in
    registration order; \<open>grid_run_once\<close> is the design with one registration.
  \<^item> \<^theory_text>\<open>Motion\<close>: the timing of framer-motion's entrance animations,
    a library the React pages call: an element animating from its own
    \<open>initial\<close>/\<open>animate\<close> objects (\<open>Anim\<close>) or a variant group with its
    variant descendants (\<open>VarGroup\<close>), scheduled by \<open>timings\<close>.
  \<^item> \<^theory_text>\<open>Education\<close>: \<open>education.js\<close>, whose only code is its entrance
    animation: \<open>containerVariants\<close>, \<open>itemVariants\<close> and the page's motion
    elements in document order (\<open>education_page\<close>).
  \<^item> \<^theory_text>\<open>Page_Motion\<close>: the entrance of the gallery page (\<open>gallery.js\<close>
    24-53) and the home page's overlays with the \<open>isLoading\<close> state that mounts the
    loading overlay (\<open>homepage.js\<close> 7-10, 171, 241-265), and the entrance of the
    navigation bar (\<open>layout.js\<close> 22-25, 45-48, 69-72).
  \<^item> \<^theory_text>\<open>Main_Page\<close>: the page of \<open>main.js\<close> as one system: the
    mascot, the globe and the carousel in one record \<open>main_page\<close>, a user gesture
    dispatched to the listeners each part registered (\<open>mascot_listeners\<close>,
    \<open>globe_listeners\<close>, \<open>carousel_listeners\<close>), the page step the product of the
    three component runs.
  \<^item> This theory: the relation between the two globe controllers (\<open>to_vevent\<close>,
    \<open>always_hits\<close>), and the page of \<open>main.js\<close> composing the vanilla controller
    with the grid (\<open>page_step\<close>: when the canvas's listener has added the grid's
    drag listeners, the grid carries one more copy of them).

  \<^bold>\<open>What is shown.\<close> The vanilla controller gates drags on the raycast (C1), sets the
  velocity from the pointer displacement (C2), keeps the camera distance in
  \<open>[3, 10]\<close> (C3) and keeps its cursor classes consistent (C8); on the whole page
  these invariants hold together with the mascot's and the carousel's (C9); the frame function
  damps the velocity geometrically to zero (C4), has a closed form for the rotation
  (C5), lets the idle spin outweigh any coasting in the long run (C6) and moves every
  planet on its ellipse (C10); the renderer size and camera aspect always follow the
  last window resize of a run (C11).
  The React controller is the vanilla one with a raycaster that always hits (C12, a
  simulation of event runs on the shared scene), and every state of a mounted React
  view is well formed, live or torn down, a cleanup failing exactly on a torn-down
  view (C15). The mascot keeps its timer invariant in every reachable state (C16),
  minimizes itself at most once (C17) and, after that, toggles on every click outside
  its links and buttons (C18). The carousel keeps a wrapped index aligned with the
  scroll position (C19), wraps (C20), snaps to the nearest slide (C21), and converts
  between slide index and scroll offset without loss (C24). Routing shows exactly the
  addressed section (C25, C26) and the navigation bar highlights one item (C27). A
  swipe does not open the lightbox (C28) and the lightbox always shows one item
  consistently (C29); in the React gallery only the close button and the backdrop
  close the overlay (C30). In every order of the loader's answers the textures of
  \<open>main.js\<close> settle on the fallback outcome (C31), those of \<open>homepage.js\<close> on the
  remote copy or nothing (C32), and loading ends (C33). The star loops compute the
  reference coordinates, which lie in \<open>[-1000, 1000)\<close> (C34). The leaked grid
  listeners, five per mouse move over the canvas, do not change the scrolling (C35), a drag scrolls the grid by the
  pointer's displacement (C36), and the grid cannot be dragged before a mouse has
  moved over the globe (C37). The pointer mapping of \<open>checkPointerOverEarth\<close> sends
  the canvas rectangle one-to-one onto the device square, \<open>y\<close> flipped (C38). The home
  page's loading overlay never fades (C39). The lemmas of \<^theory_text>\<open>Education\<close>
  and \<^theory_text>\<open>Page_Motion\<close> also compute the entrance schedules the timing model
  gives the Education and gallery pages.

  \<^bold>\<open>Findings.\<close> The yaw can decrease on idle frames, exactly when the coasting
  velocity is below the idle increment (C6); the \<open>pointerleave\<close>
  listener does not end a drag (C7); every mouse move over the canvas adds five
  listeners to the gallery grid (C37); before the auto-minimize, any press or key on
  the page reopens a mascot the user minimized (C9); a zero-height host is not refused (C11); the
  React handlers do not gate presses (C13); the React cleanup leaves the render loop
  running on the disposed renderer (C14) and throws when run twice (C15); before the
  auto-minimize a click cannot reopen the mascot (C18); a zero-width carousel makes the
  index NaN (C22) and a resize while hidden misaligns it (C23); an unknown hash hides
  every section (C25); the React globe never uses the bundled textures (C32); the
  grid's "desktop and mobile" drag listeners never exist on touch devices (C37); the home page's
  loading overlay is removed before its fade-out can start (C39).

  \<^bold>\<open>Modelling choices.\<close> Numbers are reals: the rounding of IEEE doubles is not
  modelled (in doubles the damped velocity stops at the smallest subnormal instead of
  tending to zero), and a non-finite result is \<open>None\<close>. Randomness (the planets'
  start phases, the stars) is an input. Time is the sequence of events: a frame is an
  event, the mascot's 3000 ms timeout is the event \<open>TimerFires\<close>, a run is a list of
  events, so the ordering of input, frames and callbacks is explicit; the texture
  loader's answers are interleaved by the inductive \<open>tex_reach\<close>. No loop of the code
  can run forever: the event runs recurse on the list, the star loop terminates by the
  measure \<open>n - i\<close>, the click path by the element's depth, so no fuel is needed.
  Rendering, materials and CSS have no effect on the modelled state except where
  recorded (renders after disposal, cursor classes, the \<open>hidden\<close> class). Entrance
  animations are schedules in seconds from mount (\<open>timing\<close>: start, finish, from
  and to styles), computed by \<open>timings\<close> from the motion props.

  \<^bold>\<open>Not modelled.\<close> The content of the pages (text, images, classes) and
  the layout animations of the navigation bar (\<open>layoutId\<close>, springs, hover
  effects); the texture images and the renderer (a texture is recorded by its URL
  once its image has loaded); pointer capture; the Float32 conversion of the star
  buffer; the loading element of \<open>main.js\<close>, hidden unconditionally at the end of
  its set-up (line 305). Of framer-motion only the timing of entrance animations
  (delay, duration, staggerChildren) is modelled, with the easing curve and the
  default duration as parameters.
\<close>

text \<open>
  The correspondence of the React inputs with the vanilla events. \<open>main.js\<close> has no
  teardown; the React cleanup is mapped to \<open>PointerEnter\<close>, the vanilla event with no
  effect, and is excluded from the refinement below.
\<close>

fun to_vevent :: "revent \<Rightarrow> vevent" where
  "to_vevent (Input (RMouseDown x y)) = MouseDown x y"
| "to_vevent (Input (RMouseMove x y)) = MouseMove x y"
| "to_vevent (Input RMouseUp) = MouseUp"
| "to_vevent (Input (RWheel d)) = Wheel d"
| "to_vevent (Input (RTouchStart x y)) = TouchStart x y"
| "to_vevent (Input (RTouchMove x y)) = TouchMove x y"
| "to_vevent (Input RTouchEnd) = TouchEnd"
| "to_vevent (Input (RWinResize w h)) = WinResize w h"
| "to_vevent RFrame = Frame"
| "to_vevent RCleanup = PointerEnter"

text \<open>Events of a mouse session of the mounted view: no touch input and no cleanup.\<close>

fun mouse_event :: "revent \<Rightarrow> bool" where
  "mouse_event (Input (RTouchStart x y)) = False"
| "mouse_event (Input (RTouchMove x y)) = False"
| "mouse_event (Input RTouchEnd) = False"
| "mouse_event RCleanup = False"
| "mouse_event e = True"

definition always_hits :: raycaster where
  "always_hits c a p = True"

text \<open>
  The page of \<open>main.js\<close> with the globe and the gallery grid: a canvas event goes to
  the vanilla controller, and when its listener has added the five drag listeners to
  the grid (the count \<open>gallery_listeners\<close> grew), the grid carries one more copy of
  them; a pointer event on the grid runs the grid's copies. Registration is not a user
  event of the grid.
\<close>

datatype page_event = Canvas vevent | Grid grid_event

fun page_step :: "raycaster \<Rightarrow> rect \<Rightarrow> page_event \<Rightarrow> vanilla \<times> grid \<Rightarrow> vanilla \<times> grid" where
  "page_step ray r (Canvas e) (v, g) =
     (let v' = vanilla_step ray r True e v
      in (v', if gallery_listeners v' = gallery_listeners v then g else add_copy g))"
| "page_step ray r (Grid e) (v, g) = (v, if e = AddCopy then g else grid_step e g)"

fun page_run :: "raycaster \<Rightarrow> rect \<Rightarrow> page_event list \<Rightarrow> vanilla \<times> grid \<Rightarrow> vanilla \<times> grid" where
  "page_run ray r [] p = p"
| "page_run ray r (e # es) p = page_run ray r es (page_step ray r e p)"

lemma truncate_animate: "globe.truncate (animate s) = animate (globe.truncate s)"
  by (simp add: globe.defs animate_def Let_def)

lemma truncate_extend [simp]: "globe.truncate (globe.extend g m) = g"
  by (cases g) (simp add: globe.defs)

lemma truncate_renders [simp]:
  "globe.truncate (s\<lparr>renders_after_dispose := n\<rparr>) = globe.truncate s"
  by (simp add: globe.defs)

lemma react_vanilla_step:
  assumes "listeners a" "loop_running a" "globe.truncate a = globe.truncate v" "mouse_event e"
  shows "\<exists>a'. react_step e a = Inr a' \<and> listeners a' \<and> loop_running a' \<and>
              globe.truncate a' = globe.truncate (vanilla_step always_hits r g (to_vevent e) v)"
proof (cases e)
  case (Input i)
  then show ?thesis
    using assms
    by (cases i) (simp_all add: handler_simps globe.defs checkPointerOverEarth_def always_hits_def Let_def)
next
  case RFrame
  then show ?thesis
    using assms by (simp add: react_frame_def Let_def truncate_animate)
next
  case RCleanup
  then show ?thesis using assms by simp
qed

lemma react_vanilla_run:
  assumes "listeners a" "loop_running a" "globe.truncate a = globe.truncate v"
    and "list_all mouse_event es"
  shows "\<exists>a'. react_run es a = Inr a' \<and>
              globe.truncate a' = globe.truncate (vanilla_run always_hits r g (map to_vevent es) v)"
  using assms
proof (induction es arbitrary: a v)
  case Nil
  then show ?case by simp
next
  case (Cons e es)
  then obtain a' where "react_step e a = Inr a'" "listeners a'" "loop_running a'"
    "globe.truncate a' = globe.truncate (vanilla_step always_hits r g (to_vevent e) v)"
    using react_vanilla_step [of a v e r g] by auto
  with Cons.IH [of a' "vanilla_step always_hits r g (to_vevent e) v"] Cons.prems(4)
  show ?case by simp
qed

lemma mount_truncate:
  "mount True w h ph = Some a \<Longrightarrow> globe.truncate a = globe.truncate (init_vanilla w h ph)"
  by (auto simp: mount_def init_vanilla_def truncate_animate init_globe_react)

text \<open>
  C12 (the React controller refines the vanilla one). Mounted React view and vanilla
  controller, started on the same window size and planet phases and fed the same mouse,
  wheel, resize and frame events, agree on the whole shared scene (rotation, velocity,
  drag flag, pointer position, camera, planets, stars) after every event sequence,
  when the vanilla raycaster reports every press as a hit. The only behavioural
  difference of the two copies on a mouse session is the raycast gating.
\<close>

theorem react_refines_vanilla:
  assumes "mount True w h ph = Some a" and "list_all mouse_event es"
  shows "\<exists>a'. react_run es a = Inr a' \<and>
              globe.truncate a' = globe.truncate (vanilla_run always_hits r g (map to_vevent es) (init_vanilla w h ph))"
proof -
  have "listeners a" "loop_running a" using mount_fields [OF assms(1)] by simp_all
  with mount_truncate [OF assms(1)] assms(2) show ?thesis
    by (rule react_vanilla_run [rotated 2])
qed

theorem react_refines_vanilla_witness:
  "\<exists>a'. react_run [Input (RMouseDown 0 0), Input (RMouseMove 100 0), RFrame]
          (the (mount True 800 600 (\<lambda>_. 0))) = Inr a' \<and>
        globe.truncate a' = globe.truncate (vanilla_run always_hits \<lparr>r_left = 0, r_top = 0, r_width = 800, r_height = 600\<rparr> True
          [MouseDown 0 0, MouseMove 100 0, Frame] (init_vanilla 800 600 (\<lambda>_. 0)))"
proof -
  obtain a where a: "mount True 800 600 (\<lambda>_. 0) = Some a"
    by (simp add: mount_def)
  have "list_all mouse_event [Input (RMouseDown 0 0), Input (RMouseMove 100 0), RFrame]"
    by simp
  from react_refines_vanilla [OF a this] a show ?thesis by simp
qed

lemma vanilla_step_listeners:
  "gallery_listeners (vanilla_step ray r True e v) = gallery_listeners v \<or>
   gallery_listeners (vanilla_step ray r True e v) = gallery_listeners v + 5"
proof (cases e)
  case (PointerMove pt x y)
  then show ?thesis by (cases pt) (simp_all add: onCanvasPointerMove_def Let_def)
qed (simp_all add: handler_simps Let_def)

lemma page_listeners_copies:
  "gallery_listeners (fst p) = 5 * length (copies (snd p)) \<Longrightarrow>
   gallery_listeners (fst (page_run ray r es p)) = 5 * length (copies (snd (page_run ray r es p)))"
proof (induction es arbitrary: p)
  case (Cons e es)
  obtain v g where p: "p = (v, g)" by (cases p)
  have "gallery_listeners (fst (page_step ray r e p)) = 5 * length (copies (snd (page_step ray r e p)))"
  proof (cases e)
    case (Grid ge)
    with Cons.prems p show ?thesis by (cases ge) (simp_all add: grid_handlers)
  next
    case (Canvas ce)
    with Cons.prems p vanilla_step_listeners [of ray r ce v] show ?thesis
      by (auto simp: add_copy_def Let_def)
  qed
  with Cons.IH show ?case by simp
qed simp

text \<open>
  While no canvas event of a run adds listeners, the grid keeps no copy and is never
  scrolled.
\<close>

lemma page_no_register_grid:
  assumes "\<And>e v. Canvas e \<in> set es \<Longrightarrow> gallery_listeners (vanilla_step ray r True e v) = gallery_listeners v"
    and "copies g = []"
  shows "snd (page_run ray r es (v, g)) = g"
  using assms
proof (induction es arbitrary: v g)
  case (Cons e es)
  then show ?case
  proof (cases e)
    case (Grid ge)
    with Cons show ?thesis by (cases ge) (simp_all add: grid_handlers)
  qed (simp add: Let_def)
qed simp

text \<open>
  C37 (without a mouse over the globe the gallery grid cannot be dragged). On the
  page of \<open>main.js\<close>, as long as no mouse pointer has moved over the globe's canvas
  (on a touch or pen device, for instance), the canvas's listener registers none of the
  grid's drag listeners and no sequence of canvas and grid pointer events scrolls the
  grid, although the source comment makes the grid "swipeable by dragging ... for
  desktop and mobile". Whatever the run, the grid carries exactly one copy of the drag
  listeners per five listeners the canvas has added.
\<close>

theorem no_mouse_no_grid_drag:
  assumes "\<forall>e \<in> set es. \<forall>x y. e \<noteq> Canvas (PointerMove Mouse x y)"
  shows "grid_scroll (snd (page_run ray r es (init_vanilla w h ph, grid_init m sc))) = sc \<and>
         gallery_listeners (fst (page_run ray r es (init_vanilla w h ph, grid_init m sc))) =
           5 * length (copies (snd (page_run ray r es (init_vanilla w h ph, grid_init m sc))))"
proof
  have "gallery_listeners (vanilla_step ray r True e v) = gallery_listeners v" if "Canvas e \<in> set es" for e v
  proof (cases e)
    case (PointerMove pt x y)
    with assms that have "pt \<noteq> Mouse" by auto
    with PointerMove show ?thesis by (simp add: onCanvasPointerMove_def)
  qed (simp_all add: handler_simps Let_def)
  moreover have "copies (grid_init m sc) = []" by (simp add: grid_init_def)
  ultimately have "snd (page_run ray r es (init_vanilla w h ph, grid_init m sc)) = grid_init m sc"
    by (rule page_no_register_grid)
  then show "grid_scroll (snd (page_run ray r es (init_vanilla w h ph, grid_init m sc))) = sc"
    by (simp add: grid_init_def)
  have "gallery_listeners (fst (init_vanilla w h ph, grid_init m sc)) =
        5 * length (copies (snd (init_vanilla w h ph, grid_init m sc)))"
    by (simp add: init_vanilla_fields grid_init_def)
  then show "gallery_listeners (fst (page_run ray r es (init_vanilla w h ph, grid_init m sc))) =
               5 * length (copies (snd (page_run ray r es (init_vanilla w h ph, grid_init m sc))))"
    by (rule page_listeners_copies)
qed

theorem no_mouse_no_grid_drag_witness:
  "grid_scroll (snd (page_run always_hits \<lparr>r_left = 0, r_top = 0, r_width = 800, r_height = 600\<rparr>
      [Canvas (PointerMove Touch 10 10), Grid (GridDown 300), Grid (GridMove 100)]
      (init_vanilla 800 600 (\<lambda>_. 0), grid_init 900 0))) = 0"
proof -
  have "\<forall>e \<in> set [Canvas (PointerMove Touch 10 10), Grid (GridDown 300), Grid (GridMove 100)].
          \<forall>x y. e \<noteq> Canvas (PointerMove Mouse x y)"
    by simp
  from no_mouse_no_grid_drag [OF this] show ?thesis by blast
qed

end
